theory Spec2Isabelle
  imports Complex_Main "HOL-Library.AList"
begin

section \<open>Values, errors and effects\<close>

text \<open>
  The extraction engine of tap-sendgrid (\<^verbatim>\<open>tap_sendgrid/http.py\<close> and
  \<^verbatim>\<open>tap_sendgrid/syncs.py\<close>) is embedded as state-passing functions over a
  \<open>world\<close>: the number of HTTP calls made so far, the trace of observable effects
  (requests, sleeps, log lines, written records, bookmark writes) in the order in which
  they happen, and the bookmark store. A Python exception is a value \<open>Inl e\<close>; the
  world reached when it was raised is returned beside it.
\<close>

datatype error =
    AttributeError
  | KeyError
  | IndexError
  | TypeError
  | UnboundLocalError
  | JSONDecodeError
  | ValueError string
  | RequestException

text \<open>
  A decoded JSON body. \<open>JNull\<close> is Python's \<open>None\<close>; \<open>JNum\<close> holds the value of
  a decoded number (an int, or a finite float); \<open>JDict\<close> holds the items of the decoded
  dict, whose keys are distinct.
\<close>

datatype json =
    JNull
  | JBool bool
  | JNum rat
  | JStr string
  | JList "json list"
  | JDict "(string \<times> json) list"

text \<open>
  A \<^verbatim>\<open>requests\<close> response: \<open>decoded\<close> is what \<^verbatim>\<open>r.json()\<close> returns, \<open>None\<close>
  when the content is not JSON and \<^verbatim>\<open>r.json()\<close> raises JSONDecodeError.
\<close>

record response =
  status_code :: int
  content :: string
  decoded :: "json option"

definition response_json :: "response \<Rightarrow> error + json" where
  "response_json r = (case decoded r of None \<Rightarrow> Inl JSONDecodeError | Some j \<Rightarrow> Inr j)"

type_synonym params = "(string \<times> int) list"

type_synonym path = "(string \<times> string) option"

datatype event =
    Request string string "params option"
  | Sleep rat
  | LogBackoff int nat nat rat
  | LogLatestStatus int
  | LogLatestContent string
  | LogParseStatus int
  | LogParseContent string
  | LogLooking string int
  | LogResponse json
  | LogStarting string int int
  | WriteRecords string string json "(string \<times> json) list option"
  | SetBookmark path int

record world =
  calls :: nat
  trace :: "event list"
  bookmarks :: "path \<rightharpoonup> int"

definition emit :: "event list \<Rightarrow> world \<Rightarrow> world" where
  "emit evs w = w\<lparr>trace := trace w @ evs\<rparr>"

section \<open>Transport: \<^verbatim>\<open>http.py\<close>\<close>

subsection \<open>\<^verbatim>\<open>authed_get\<close>\<close>

text \<open>
  \<^verbatim>\<open>headers\<close> is a dict and \<^verbatim>\<open>CUSTOM_HEADERS\<close> is a dict. \<^verbatim>\<open>extend\<close> is a method
  of lists only: looking it up on a dict raises AttributeError. \<open>py_extend\<close> is the
  method call \<^verbatim>\<open>obj.extend(other)\<close> on the two kinds of container involved (iterating
  a dict yields its keys).
\<close>

datatype pyobj = PyDict "(string \<times> string) list" | PyList "string list"

fun py_extend :: "pyobj \<Rightarrow> pyobj \<Rightarrow> error + pyobj" where
  "py_extend (PyList xs) (PyList ys) = Inr (PyList (xs @ ys))"
| "py_extend (PyList xs) (PyDict kvs) = Inr (PyList (xs @ map fst kvs))"
| "py_extend (PyDict kvs) other = Inl AttributeError"

definition CUSTOM_HEADERS :: "(string \<times> string) list" where
  "CUSTOM_HEADERS = [(''X-SGUID'', ''3459112'')]"

record http_request =
  http_method :: string
  url :: string
  query :: "params option"
  headers :: pyobj

text \<open>
  \<open>session\<close> is \<^verbatim>\<open>session.request\<close>, the HTTP library: it answers a request with a
  response or raises. The timer metric around the request does not change the result.
\<close>

definition authed_get ::
  "(http_request \<Rightarrow> error + response) \<Rightarrow> string \<Rightarrow> string \<Rightarrow> (string \<rightharpoonup> string) \<Rightarrow>
   params option \<Rightarrow> error + response" where
  "authed_get session tap_stream_id u config ps =
     (case config ''api_key'' of
        None \<Rightarrow> Inl KeyError
      | Some api_key \<Rightarrow>
          (case py_extend (PyDict [(''Authorization'', ''Bearer '' @ api_key)])
                          (PyDict CUSTOM_HEADERS) of
             Inl e \<Rightarrow> Inl e
           | Inr hs \<Rightarrow> session \<lparr>http_method = ''get'', url = u, query = ps, headers = hs\<rparr>))"

subsection \<open>\<^verbatim>\<open>end_of_records_check\<close>\<close>

text \<open>
  \<^verbatim>\<open>obj.get(key, default)\<close> exists on dicts only; \<^verbatim>\<open>obj[0]\<close> raises IndexError on an
  empty list or string, KeyError on a dict (its keys are strings) and TypeError on a
  value that is not subscriptable.
\<close>

fun py_get :: "json \<Rightarrow> string \<Rightarrow> json \<Rightarrow> error + json" where
  "py_get (JDict kvs) k d = Inr (case map_of kvs k of None \<Rightarrow> d | Some v \<Rightarrow> v)"
| "py_get j k d = Inl AttributeError"

fun py_index0 :: "json \<Rightarrow> error + json" where
  "py_index0 (JList []) = Inl IndexError"
| "py_index0 (JList (x # xs)) = Inr x"
| "py_index0 (JStr []) = Inl IndexError"
| "py_index0 (JStr (c # cs)) = Inr (JStr [c])"
| "py_index0 (JDict kvs) = Inl KeyError"
| "py_index0 j = Inl TypeError"

text \<open>\<^verbatim>\<open>x == 0\<close>: a number of value zero, or \<^verbatim>\<open>False\<close> (a bool is an int in Python).\<close>

fun py_eq_zero :: "json \<Rightarrow> bool" where
  "py_eq_zero (JNum n) = (n = 0)"
| "py_eq_zero (JBool b) = (\<not> b)"
| "py_eq_zero j = False"

fun py_eq_str :: "json \<Rightarrow> string \<Rightarrow> bool" where
  "py_eq_str (JStr s) t = (s = t)"
| "py_eq_str j t = False"

definition empty_message :: string where
  "empty_message = ''No more pages''"

definition recipient_count_check :: "response \<Rightarrow> error + bool" where
  "recipient_count_check r =
     (case response_json r of
        Inl e \<Rightarrow> Inl e
      | Inr j \<Rightarrow>
          (case py_get j ''recipient_count'' JNull of
             Inl e \<Rightarrow> Inl e
           | Inr c \<Rightarrow> Inr (py_eq_zero c)))"

definition end_of_records_check :: "response \<Rightarrow> error + bool" where
  "end_of_records_check r =
     (if status_code r = 404 then
        (case response_json r of
           Inl e \<Rightarrow> Inl e
         | Inr j \<Rightarrow>
             (case py_get j ''errors'' (JList [JDict []]) of
                Inl e \<Rightarrow> Inl e
              | Inr errs \<Rightarrow>
                  (case py_index0 errs of
                     Inl e \<Rightarrow> Inl e
                   | Inr first \<Rightarrow>
                       (case py_get first ''message'' JNull of
                          Inl e \<Rightarrow> Inl e
                        | Inr msg \<Rightarrow>
                            if py_eq_str msg empty_message then Inr True
                            else recipient_count_check r))))
      else recipient_count_check r)"

subsection \<open>\<^verbatim>\<open>retry_get\<close>\<close>

text \<open>
  The retry loop is embedded over a transport operation \<open>get\<close> with the signature of
  \<^verbatim>\<open>authed_get\<close>, asked for the answer to the \<open>n\<close>-th call of the run: every property
  of the loop and of the cursors above it then holds for whatever the transport answers.
  The code's own transport is \<open>\<lambda>n. authed_get (session n)\<close>, which raises on every call
  (see the header merge of \<^verbatim>\<open>authed_get\<close> below): with it no response and no status
  code is ever seen, so the behaviour of the loop on responses is stated for \<open>get\<close>.
  Each call is recorded as a \<open>Request\<close> event.

  \<^verbatim>\<open>delay\<close> starts as the int 120 and is multiplied by the float 1.5. Every value
  \<open>120 * (3/2) ^ k\<close> for \<open>k \<le> 20\<close> is \<open>120 * 3 ^ k / 2 ^ k\<close> with \<open>120 * 3 ^ k < 2 ^ 53\<close>,
  so it is a double and the float product is exact: \<open>rat\<close> arithmetic gives the floats
  the code computes.
\<close>

type_synonym transport =
  "nat \<Rightarrow> string \<Rightarrow> string \<Rightarrow> (string \<rightharpoonup> string) \<Rightarrow> params option \<Rightarrow> error + response"

abbreviation retries :: nat where "retries \<equiv> 20"

abbreviation backoff :: rat where "backoff \<equiv> 3 / 2"

definition requested :: "string \<Rightarrow> string \<Rightarrow> params option \<Rightarrow> world \<Rightarrow> world" where
  "requested tap_stream_id u ps w =
     w\<lparr>calls := calls w + 1, trace := trace w @ [Request tap_stream_id u ps]\<rparr>"

function retry_get_loop ::
  "transport \<Rightarrow> string \<Rightarrow> string \<Rightarrow> (string \<rightharpoonup> string) \<Rightarrow> params option \<Rightarrow>
   nat \<Rightarrow> rat \<Rightarrow> response option \<Rightarrow> world \<Rightarrow> (error + response) \<times> world" where
  "retry_get_loop get tap_stream_id u config ps attempt delay r w =
     (if retries \<ge> attempt then
        (case get (calls w) tap_stream_id u config ps of
           Inl e \<Rightarrow> (Inl e, requested tap_stream_id u ps w)
         | Inr r' \<Rightarrow>
             if status_code r' \<ge> 500 then
               retry_get_loop get tap_stream_id u config ps (attempt + 1) (delay * backoff)
                 (Some r')
                 (emit [LogBackoff (status_code r') attempt retries delay, Sleep delay]
                    (requested tap_stream_id u ps w))
             else (Inr r', requested tap_stream_id u ps w))
      else
        (case r of
           None \<Rightarrow> (Inl UnboundLocalError, w)
         | Some l \<Rightarrow>
             (Inl (ValueError (''Failed 20 times trying to hit endpoint '' @ u)),
              emit [LogLatestStatus (status_code l), LogLatestContent (content l)] w)))"
  by pat_completeness auto
termination
  by (relation "measure (\<lambda>(get, tap_stream_id, u, config, ps, attempt, delay, r, w). 21 - attempt)")
     auto

declare retry_get_loop.simps [simp del]

definition retry_get ::
  "transport \<Rightarrow> string \<Rightarrow> string \<Rightarrow> (string \<rightharpoonup> string) \<Rightarrow> params option \<Rightarrow> world \<Rightarrow>
   (error + response) \<times> world" where
  "retry_get get tap_stream_id u config ps w =
     retry_get_loop get tap_stream_id u config ps 1 120 None w"

section \<open>Collaborators of \<^verbatim>\<open>syncs.py\<close>\<close>

text \<open>
  \<^verbatim>\<open>len(x)\<close> and the truth value of \<^verbatim>\<open>x\<close> for a decoded JSON value.
\<close>

fun py_len :: "json \<Rightarrow> error + nat" where
  "py_len (JList xs) = Inr (length xs)"
| "py_len (JDict kvs) = Inr (length kvs)"
| "py_len (JStr s) = Inr (length s)"
| "py_len j = Inl TypeError"

fun py_truthy :: "json \<Rightarrow> bool" where
  "py_truthy JNull = False"
| "py_truthy (JBool b) = b"
| "py_truthy (JNum n) = (n \<noteq> 0)"
| "py_truthy (JStr s) = (s \<noteq> [])"
| "py_truthy (JList xs) = (xs \<noteq> [])"
| "py_truthy (JDict kvs) = (kvs \<noteq> [])"

text \<open>
  A stream descriptor: its id, its endpoint template and its bookmark (\<^verbatim>\<open>None\<close> for a
  stream that is fetched whole). \<open>py_format\<close> is \<^verbatim>\<open>template.format(key)\<close> for a
  template with one \<^verbatim>\<open>{}\<close> slot.
\<close>

record stream =
  tap_stream_id :: string
  endpoint :: string
  bookmark :: path

fun py_format :: "string \<Rightarrow> string \<Rightarrow> string" where
  "py_format [] k = []"
| "py_format [c] k = [c]"
| "py_format (c # d # cs) k =
     (if c = CHR ''{'' \<and> d = CHR ''}'' then k @ cs else c # py_format (d # cs) k)"

definition endpoint_of :: "stream \<Rightarrow> string option \<Rightarrow> string" where
  "endpoint_of s url_key =
     (case url_key of
        None \<Rightarrow> endpoint s
      | Some k \<Rightarrow> if k \<noteq> [] then py_format (endpoint s) k else endpoint s)"

text \<open>
  A pendulum datetime: its instant in whole seconds since the epoch
  (\<^verbatim>\<open>int_timestamp\<close>) and its UTC offset in seconds. The offset is fixed (a zone
  whose offset changes over the year is not modelled). Parts of a second play no role:
  the datetimes compared with \<open>now\<close> are starts of days, whole seconds.
\<close>

record datetime =
  int_timestamp :: int
  utc_offset :: int

text \<open>
  Modelled from the spec: the context object \<^verbatim>\<open>ctx\<close> (its class is not among the
  source files). It holds the configuration, the time of the run (\<open>now\<close>, an instant in
  seconds since the epoch), the configured global start date, and the UTC offset of the
  datetimes that it parses from a bookmark or from the start date (\<open>tz_offset\<close>, which
  the spec leaves open). A bookmark value is the instant of a timestamp.
\<close>

record tap_context =
  config :: "string \<rightharpoonup> string"
  now :: int
  start_date :: int
  tz_offset :: int

text \<open>
  Modelled from the spec: \<^verbatim>\<open>ctx.update_start_date_bookmark\<close> is missing; the spec says
  "start = bookmark (or configured global start date on first run)".
\<close>

definition update_start_date_bookmark :: "tap_context \<Rightarrow> path \<Rightarrow> world \<Rightarrow> int" where
  "update_start_date_bookmark ctx p w =
     (case bookmarks w p of None \<Rightarrow> start_date ctx | Some v \<Rightarrow> v)"

text \<open>
  Modelled from the spec: \<^verbatim>\<open>ctx.update_start_date_bookmark\<close> returns a datetime;
  \<open>update_start_date_bookmark\<close> above is its instant (what \<^verbatim>\<open>sync_end_time\<close> reads
  of it), and this is the datetime itself, in the offset of the context.
\<close>

definition update_start_date_bookmark_dt :: "tap_context \<Rightarrow> path \<Rightarrow> world \<Rightarrow> datetime" where
  "update_start_date_bookmark_dt ctx p w =
     \<lparr>int_timestamp = update_start_date_bookmark ctx p w, utc_offset = tz_offset ctx\<rparr>"

text \<open>
  Modelled from the spec: \<^verbatim>\<open>ctx.set_bookmark\<close> is missing; the state store "exposes
  get/set of a bookmark value per (resource, field) pair". The write is recorded in the
  trace.
\<close>

definition set_bookmark :: "path \<Rightarrow> int \<Rightarrow> world \<Rightarrow> world" where
  "set_bookmark p v w = w\<lparr>trace := trace w @ [SetBookmark p v], bookmarks := (bookmarks w)(p \<mapsto> v)\<rparr>"

text \<open>
  Modelled from the spec: \<^verbatim>\<open>ctx.now_date_str\<close>, \<^verbatim>\<open>ctx.now_seconds\<close> and
  \<^verbatim>\<open>ctx.ts_to_dt\<close> are missing; the spec says the bookmark is advanced "to now" and
  "to end", with "end = current time".
\<close>

definition now_date_str :: "tap_context \<Rightarrow> int" where
  "now_date_str ctx = now ctx"

definition now_seconds :: "tap_context \<Rightarrow> int" where
  "now_seconds ctx = now ctx"

definition ts_to_dt :: "int \<Rightarrow> int" where
  "ts_to_dt ts = ts"

text \<open>
  Modelled from the spec: \<^verbatim>\<open>utils.safe_update_dict\<close> is missing; the spec says
  "additional caller-supplied filter params merged in". Merging is \<^verbatim>\<open>dict.update\<close>,
  and no additional params (\<^verbatim>\<open>None\<close>) leaves the dict as it is.
\<close>

definition safe_update_dict :: "params \<Rightarrow> params option \<Rightarrow> params" where
  "safe_update_dict ps add_params =
     (case add_params of
        None \<Rightarrow> ps
      | Some a \<Rightarrow> fold (\<lambda>(k, v). AList.update k v) a ps)"

text \<open>
  Modelled from the spec: \<^verbatim>\<open>utils.trimmed_records\<close> and \<^verbatim>\<open>utils.write_records\<close> are
  missing; the record sink "accepts (resource identifier, schema, ordered sequence of
  plain records)". \<^verbatim>\<open>Syncer.write_records\<close> hands the results to it; the hand-over is
  recorded in the trace.
\<close>

definition write_records ::
  "string \<Rightarrow> json \<Rightarrow> stream \<Rightarrow> (string \<times> json) list option \<Rightarrow> world \<Rightarrow> (error + unit) \<times> world" where
  "write_records schema results s added_properties w =
     (Inr (), emit [WriteRecords (tap_stream_id s) schema results added_properties] w)"

section \<open>Cursor strategies: \<^verbatim>\<open>syncs.py\<close>\<close>

text \<open>
  A cursor strategy is a Python generator consumed by a \<^verbatim>\<open>for\<close> loop. The generator
  runs up to its \<^verbatim>\<open>yield\<close>, the loop body runs on the yielded value, and the generator
  resumes after the \<^verbatim>\<open>yield\<close>: the embedding takes the loop body as the argument
  \<open>body\<close> and calls it at the \<^verbatim>\<open>yield\<close>. An exception of the body leaves the loop.
  \<^verbatim>\<open>while True\<close> may run forever: the loops take fuel, and \<open>None\<close> is a run that has
  not ended within the fuel.

  \<^verbatim>\<open>utils.get_results_from_payload\<close> is missing: it is the argument
  \<open>get_results_from_payload\<close> of the embedding.
\<close>

type_synonym consumer = "json \<Rightarrow> world \<Rightarrow> (error + unit) \<times> world"

fun get_members_limits_loop ::
  "nat \<Rightarrow> transport \<Rightarrow> tap_context \<Rightarrow> stream \<Rightarrow> string \<Rightarrow> consumer \<Rightarrow> int \<Rightarrow> world \<Rightarrow>
   ((error + unit) \<times> world) option" where
  "get_members_limits_loop 0 get ctx s ep body offset w = None"
| "get_members_limits_loop (Suc fuel) get ctx s ep body offset w =
     (let limit = 250000 in
      case retry_get get (tap_stream_id s) ep (config ctx)
             (Some [(''offset'', offset), (''limit'', limit)]) w of
        (Inl e, w1) \<Rightarrow> Some (Inl e, w1)
      | (Inr r, w1) \<Rightarrow>
          (case decoded r of
             None \<Rightarrow>
               Some (Inl (ValueError ''Error parsing file...''),
                     emit [LogParseStatus (status_code r), LogParseContent (content r)] w1)
           | Some j \<Rightarrow>
               (case body j w1 of
                  (Inl e, w2) \<Rightarrow> Some (Inl e, w2)
                | (Inr u, w2) \<Rightarrow>
                    (case py_len j of
                       Inl e \<Rightarrow> Some (Inl e, w2)
                     | Inr n \<Rightarrow>
                         if n \<noteq> 0
                         then get_members_limits_loop fuel get ctx s ep body (offset + limit) w2
                         else Some (Inr (), w2)))))"

definition get_members_limits ::
  "nat \<Rightarrow> transport \<Rightarrow> tap_context \<Rightarrow> stream \<Rightarrow> string option \<Rightarrow> consumer \<Rightarrow> world \<Rightarrow>
   ((error + unit) \<times> world) option" where
  "get_members_limits fuel get ctx s url_key body w =
     get_members_limits_loop fuel get ctx s (endpoint_of s url_key) body 0 w"

fun get_using_paged_loop ::
  "nat \<Rightarrow> transport \<Rightarrow> tap_context \<Rightarrow> stream \<Rightarrow> params option \<Rightarrow> string \<Rightarrow> consumer \<Rightarrow>
   int \<Rightarrow> nat \<Rightarrow> world \<Rightarrow> ((error + unit) \<times> world) option" where
  "get_using_paged_loop 0 get ctx s add_params ep body page page_attempts w = None"
| "get_using_paged_loop (Suc fuel) get ctx s add_params ep body page page_attempts w =
     (let page_size = 1000;
          ps = safe_update_dict [(''page'', page), (''page_size'', page_size)] add_params
      in
      case retry_get get (tap_stream_id s) ep (config ctx) (Some ps) w of
        (Inl e, w1) \<Rightarrow> Some (Inl e, w1)
      | (Inr r, w1) \<Rightarrow>
          (case decoded r of
             None \<Rightarrow>
               if page_attempts + 1 < 3
               then get_using_paged_loop fuel get ctx s add_params ep body page
                      (page_attempts + 1) w1
               else Some (Inl (ValueError ''Error parsing file...''),
                          emit [LogParseStatus (status_code r), LogParseContent (content r)] w1)
           | Some j \<Rightarrow>
               (case body j w1 of
                  (Inl e, w2) \<Rightarrow> Some (Inl e, w2)
                | (Inr u, w2) \<Rightarrow>
                    (case end_of_records_check r of
                       Inl e \<Rightarrow> Some (Inl e, w2)
                     | Inr b \<Rightarrow>
                         if \<not> b
                         then get_using_paged_loop fuel get ctx s add_params ep body
                                (page + 1) 0 w2
                         else Some (Inr (), w2)))))"

definition get_using_paged ::
  "nat \<Rightarrow> transport \<Rightarrow> tap_context \<Rightarrow> stream \<Rightarrow> params option \<Rightarrow> string option \<Rightarrow> consumer \<Rightarrow>
   world \<Rightarrow> ((error + unit) \<times> world) option" where
  "get_using_paged fuel get ctx s add_params url_key body w =
     get_using_paged_loop fuel get ctx s add_params (endpoint_of s url_key) body 1 0 w"

fun get_using_offset_loop ::
  "nat \<Rightarrow> transport \<Rightarrow> (json \<Rightarrow> error + json) \<Rightarrow> tap_context \<Rightarrow> stream \<Rightarrow> int \<Rightarrow> int \<Rightarrow>
   string \<Rightarrow> consumer \<Rightarrow> int \<Rightarrow> world \<Rightarrow> ((error + unit) \<times> world) option" where
  "get_using_offset_loop 0 get get_results_from_payload ctx s start end' ep body offset w =
     None"
| "get_using_offset_loop (Suc fuel) get get_results_from_payload ctx s start end' ep body
     offset w =
     (let limit = 500 in
      case retry_get get (tap_stream_id s) ep (config ctx)
             (Some [(''offset'', offset), (''limit'', limit),
                    (''start_time'', start), (''end_time'', end')]) w of
        (Inl e, w1) \<Rightarrow> Some (Inl e, w1)
      | (Inr resp, w1) \<Rightarrow>
          (case response_json resp of
             Inl e \<Rightarrow> Some (Inl e, w1)
           | Inr j \<Rightarrow>
               (case get_results_from_payload j of
                  Inl e \<Rightarrow> Some (Inl e, w1)
                | Inr r \<Rightarrow>
                    (case body r w1 of
                       (Inl e, w2) \<Rightarrow> Some (Inl e, w2)
                     | (Inr u, w2) \<Rightarrow>
                         (case py_len r of
                            Inl e \<Rightarrow> Some (Inl e, w2)
                          | Inr n \<Rightarrow>
                              if int n \<ge> limit
                              then get_using_offset_loop fuel get get_results_from_payload
                                     ctx s start end' ep body (offset + limit) w2
                              else Some (Inr (), w2))))))"

definition get_using_offset ::
  "nat \<Rightarrow> transport \<Rightarrow> (json \<Rightarrow> error + json) \<Rightarrow> tap_context \<Rightarrow> stream \<Rightarrow> int \<Rightarrow> int \<Rightarrow>
   string option \<Rightarrow> consumer \<Rightarrow> world \<Rightarrow> ((error + unit) \<times> world) option" where
  "get_using_offset fuel get get_results_from_payload ctx s start end' url_key body w =
     get_using_offset_loop fuel get get_results_from_payload ctx s start end'
       (endpoint_of s url_key) body 0 w"

section \<open>Incremental strategies: \<^verbatim>\<open>syncs.py\<close>\<close>

text \<open>
  The body of the \<^verbatim>\<open>for\<close> loop of \<^verbatim>\<open>write_paged_records\<close>, with its
  \<^verbatim>\<open>try\<close>/\<^verbatim>\<open>except JSONDecodeError\<close> around \<^verbatim>\<open>res.get('recipients')\<close>: the handler
  logs the response and raises the error again; any other exception passes.
\<close>

definition write_paged_body ::
  "string \<Rightarrow> stream \<Rightarrow> (string \<times> json) list option \<Rightarrow> consumer" where
  "write_paged_body schema s added_properties res w =
     (case py_get res ''recipients'' JNull of
        Inl e \<Rightarrow>
          if e = JSONDecodeError then (Inl e, emit [LogResponse res] w) else (Inl e, w)
      | Inr results \<Rightarrow>
          if py_truthy results then write_records schema results s added_properties w
          else (Inr (), w))"

definition write_paged_records ::
  "nat \<Rightarrow> transport \<Rightarrow> tap_context \<Rightarrow> stream \<Rightarrow> string \<Rightarrow> params option \<Rightarrow> string option \<Rightarrow>
   (string \<times> json) list option \<Rightarrow> world \<Rightarrow> ((error + unit) \<times> world) option" where
  "write_paged_records fuel get ctx s schema ps url_key added_properties w =
     get_using_paged fuel get ctx s ps url_key (write_paged_body schema s added_properties) w"

text \<open>
  \<^verbatim>\<open>start_of('day')\<close> is midnight of the datetime's day in the datetime's own offset,
  and \<^verbatim>\<open>add(days=1)\<close> is the same time of the next day, 86400 seconds later at a fixed
  offset. \<^verbatim>\<open>search_term <= self.ctx.now\<close> compares instants.
\<close>

definition start_of_day :: "datetime \<Rightarrow> datetime" where
  "start_of_day dt =
     dt\<lparr>int_timestamp :=
          (int_timestamp dt + utc_offset dt) - (int_timestamp dt + utc_offset dt) mod 86400
            - utc_offset dt\<rparr>"

function days_loop :: "int \<Rightarrow> datetime \<Rightarrow> datetime list \<Rightarrow> datetime list" where
  "days_loop now' search_term days_to_search =
     (if int_timestamp search_term \<le> now'
      then days_loop now' (search_term\<lparr>int_timestamp := int_timestamp search_term + 86400\<rparr>)
             (days_to_search @ [search_term])
      else days_to_search)"
  by pat_completeness auto
termination
  by (relation "measure (\<lambda>(now', search_term, days_to_search).
                  nat (now' - int_timestamp search_term + 1))")
     auto

declare days_loop.simps [simp del]

definition discrete_days_since_start :: "tap_context \<Rightarrow> datetime \<Rightarrow> datetime list" where
  "discrete_days_since_start ctx start = days_loop (now ctx) (start_of_day start) []"

fun search_terms_loop ::
  "nat \<Rightarrow> transport \<Rightarrow> tap_context \<Rightarrow> stream \<Rightarrow> string \<Rightarrow> datetime \<Rightarrow> string list \<Rightarrow> world \<Rightarrow>
   ((error + unit) \<times> world) option" where
  "search_terms_loop fuel get ctx s schema day [] w = Some (Inr (), w)"
| "search_terms_loop fuel get ctx s schema day (search_term # rest) w =
     (case write_paged_records fuel get ctx s schema
             (Some [(search_term, int_timestamp day)]) None None
             (emit [LogLooking search_term (int_timestamp day)] w) of
        None \<Rightarrow> None
      | Some (Inl e, w1) \<Rightarrow> Some (Inl e, w1)
      | Some (Inr u, w1) \<Rightarrow> search_terms_loop fuel get ctx s schema day rest w1)"

fun sync_days_loop ::
  "nat \<Rightarrow> transport \<Rightarrow> tap_context \<Rightarrow> stream \<Rightarrow> string \<Rightarrow> datetime list \<Rightarrow> world \<Rightarrow>
   ((error + unit) \<times> world) option" where
  "sync_days_loop fuel get ctx s schema [] w = Some (Inr (), w)"
| "sync_days_loop fuel get ctx s schema (day # rest) w =
     (case search_terms_loop fuel get ctx s schema day [''created_at'', ''updated_at''] w of
        None \<Rightarrow> None
      | Some (Inl e, w1) \<Rightarrow> Some (Inl e, w1)
      | Some (Inr u, w1) \<Rightarrow>
          sync_days_loop fuel get ctx s schema rest
            (set_bookmark (bookmark s) (now_date_str ctx) w1))"

definition sync_timestamp ::
  "nat \<Rightarrow> transport \<Rightarrow> tap_context \<Rightarrow> stream \<Rightarrow> string \<Rightarrow> world \<Rightarrow>
   ((error + unit) \<times> world) option" where
  "sync_timestamp fuel get ctx s schema w =
     (let start = update_start_date_bookmark_dt ctx (bookmark s) w
      in sync_days_loop fuel get ctx s schema (discrete_days_since_start ctx start) w)"

definition sync_end_time_body :: "tap_context \<Rightarrow> stream \<Rightarrow> string \<Rightarrow> int \<Rightarrow> consumer" where
  "sync_end_time_body ctx s schema end' results w =
     (case write_records schema results s None w of
        (Inl e, w1) \<Rightarrow> (Inl e, w1)
      | (Inr u, w1) \<Rightarrow> (Inr (), set_bookmark (bookmark s) (ts_to_dt end') w1))"

definition sync_end_time ::
  "nat \<Rightarrow> transport \<Rightarrow> (json \<Rightarrow> error + json) \<Rightarrow> tap_context \<Rightarrow> stream \<Rightarrow> string \<Rightarrow> world \<Rightarrow>
   ((error + unit) \<times> world) option" where
  "sync_end_time fuel get get_results_from_payload ctx s schema w =
     (let start = update_start_date_bookmark ctx (bookmark s) w;
          end' = now_seconds ctx
      in get_using_offset fuel get get_results_from_payload ctx s start end' None
           (sync_end_time_body ctx s schema end')
           (emit [LogStarting (tap_stream_id s) start end'] w))"

section \<open>Observations on traces\<close>

text \<open>
  The projections of a trace that the properties below speak about: the delays slept,
  the requests issued (with their query parameters), the paged searches announced by
  \<^verbatim>\<open>sync_timestamp\<close>, the bookmark writes, and the responses logged by the handler of
  \<^verbatim>\<open>write_paged_records\<close>. \<open>new_events w w'\<close> is what a run from \<open>w\<close> to \<open>w'\<close> added.
\<close>

fun sleeps :: "event list \<Rightarrow> rat list" where
  "sleeps [] = []"
| "sleeps (Sleep d # es) = d # sleeps es"
| "sleeps (e # es) = sleeps es"

fun requests :: "event list \<Rightarrow> params option list" where
  "requests [] = []"
| "requests (Request t u ps # es) = ps # requests es"
| "requests (e # es) = requests es"

fun searches :: "event list \<Rightarrow> (string \<times> int) list" where
  "searches [] = []"
| "searches (LogLooking t d # es) = (t, d) # searches es"
| "searches (e # es) = searches es"

fun marks :: "event list \<Rightarrow> (path \<times> int) list" where
  "marks [] = []"
| "marks (SetBookmark p v # es) = (p, v) # marks es"
| "marks (e # es) = marks es"

fun logged_responses :: "event list \<Rightarrow> json list" where
  "logged_responses [] = []"
| "logged_responses (LogResponse j # es) = j # logged_responses es"
| "logged_responses (e # es) = logged_responses es"

definition new_events :: "world \<Rightarrow> world \<Rightarrow> event list" where
  "new_events w w' = drop (length (trace w)) (trace w')"

text \<open>The events of one failed attempt of \<^verbatim>\<open>retry_get\<close>, and of \<open>k\<close> of them in a row.\<close>

definition backoff_events ::
  "string \<Rightarrow> string \<Rightarrow> params option \<Rightarrow> (nat \<Rightarrow> response) \<Rightarrow> nat \<Rightarrow> rat \<Rightarrow> nat \<Rightarrow> event list" where
  "backoff_events tid u ps rs attempt delay k =
     concat (map (\<lambda>i. [Request tid u ps,
                        LogBackoff (status_code (rs i)) (attempt + i) retries (delay * backoff ^ i),
                        Sleep (delay * backoff ^ i)]) [0..<k])"

text \<open>
  The events that the transport and the cursor strategies produce themselves; the
  events of a loop body (records written, bookmarks set) are not among them.
\<close>

fun cursor_event :: "event \<Rightarrow> bool" where
  "cursor_event (Request t u ps) = True"
| "cursor_event (Sleep d) = True"
| "cursor_event (LogBackoff c a n d) = True"
| "cursor_event (LogLatestStatus c) = True"
| "cursor_event (LogLatestContent b) = True"
| "cursor_event (LogParseStatus c) = True"
| "cursor_event (LogParseContent b) = True"
| "cursor_event e = False"

text \<open>
  The query parameters that the three cursor strategies send, for the statements below.
\<close>

definition paged_params :: "int \<Rightarrow> params option \<Rightarrow> params option" where
  "paged_params page add_params =
     Some (safe_update_dict [(''page'', page), (''page_size'', 1000)] add_params)"

definition offset_params :: "int \<Rightarrow> int \<Rightarrow> int \<Rightarrow> params option" where
  "offset_params offset start end' =
     Some [(''offset'', offset), (''limit'', 500), (''start_time'', start), (''end_time'', end')]"

definition members_params :: "int \<Rightarrow> params option" where
  "members_params offset = Some [(''offset'', offset), (''limit'', 250000)]"

text \<open>
  The world after \<open>n\<close> fetches that were each answered at the first attempt, when the
  loop body succeeds on every batch: the \<open>i\<close>-th request \<open>rq i\<close> is followed by the
  events \<open>bev (bs i)\<close> of the body on the \<open>i\<close>-th batch, and the body's updates
  \<open>bup (bs i)\<close> of the bookmark store are applied in that order.
\<close>

definition after_batches ::
  "(nat \<Rightarrow> event) \<Rightarrow> (json \<Rightarrow> event list) \<Rightarrow> (json \<Rightarrow> (path \<rightharpoonup> int) \<Rightarrow> (path \<rightharpoonup> int)) \<Rightarrow>
   (nat \<Rightarrow> json) \<Rightarrow> nat \<Rightarrow> world \<Rightarrow> world" where
  "after_batches rq bev bup bs n w =
     w\<lparr>calls := calls w + n,
       trace := trace w @ concat (map (\<lambda>i. rq i # bev (bs i)) [0..<n]),
       bookmarks := fold (\<lambda>i. bup (bs i)) [0..<n] (bookmarks w)\<rparr>"

text \<open>
  Two readings of a trace for the bookmark of \<^verbatim>\<open>sync_end_time\<close>.
  \<open>bookmark_before_request\<close>: some bookmark write is followed by a later request, so the
  bookmark was written before the cursor was exhausted. \<open>marks_follow_writes p v prev\<close>:
  every bookmark write comes immediately after a \<open>WriteRecords\<close> event and writes \<open>v\<close>
  to \<open>p\<close> (\<open>prev\<close> tells whether the event before the list was a \<open>WriteRecords\<close>).
\<close>

fun bookmark_before_request :: "event list \<Rightarrow> bool" where
  "bookmark_before_request [] = False"
| "bookmark_before_request (SetBookmark p v # es) =
     (requests es \<noteq> [] \<or> bookmark_before_request es)"
| "bookmark_before_request (e # es) = bookmark_before_request es"

fun is_write :: "event \<Rightarrow> bool" where
  "is_write (WriteRecords t sc r a) = True"
| "is_write e = False"

fun marks_follow_writes :: "path \<Rightarrow> int \<Rightarrow> bool \<Rightarrow> event list \<Rightarrow> bool" where
  "marks_follow_writes p v prev [] = True"
| "marks_follow_writes p v prev (SetBookmark q x # es) =
     (prev \<and> q = p \<and> x = v \<and> marks_follow_writes p v False es)"
| "marks_follow_writes p v prev (e # es) = marks_follow_writes p v (is_write e) es"

text \<open>
  \<open>writes_marked p v pending\<close>: every \<open>WriteRecords\<close> event is immediately followed by a
  bookmark write of \<open>v\<close> to \<open>p\<close>, and there is no other bookmark write (\<open>pending\<close> tells
  whether the event before the list was a \<open>WriteRecords\<close> still waiting for its
  bookmark write).
\<close>

fun writes_marked :: "path \<Rightarrow> int \<Rightarrow> bool \<Rightarrow> event list \<Rightarrow> bool" where
  "writes_marked p v pending [] = (\<not> pending)"
| "writes_marked p v pending (SetBookmark q x # es) =
     (pending \<and> q = p \<and> x = v \<and> writes_marked p v False es)"
| "writes_marked p v pending (WriteRecords t sc r a # es) =
     (\<not> pending \<and> writes_marked p v True es)"
| "writes_marked p v pending (e # es) = (\<not> pending \<and> writes_marked p v False es)"

text \<open>
  The paged searches of \<^verbatim>\<open>sync_timestamp\<close> that were started: for every search that
  \<^verbatim>\<open>sync_timestamp\<close> announces and whose next event is a request, the search field,
  the day (the timestamp of its start) and the query parameters of that first request.
  \<open>pending\<close> is the search announced by the event before the list, if any.
\<close>

fun search_fetches ::
  "(string \<times> int) option \<Rightarrow> event list \<Rightarrow> (string \<times> int \<times> params option) list" where
  "search_fetches pending [] = []"
| "search_fetches pending (LogLooking t d # es) = search_fetches (Some (t, d)) es"
| "search_fetches pending (Request t u ps # es) =
     (case pending of
        None \<Rightarrow> search_fetches None es
      | Some (st, d) \<Rightarrow> (st, d, ps) # search_fetches None es)"
| "search_fetches pending (e # es) = search_fetches None es"

text \<open>
  The number of days from the day that starts at \<open>a\<close> to the day that starts at \<open>b\<close>; the
  day that holds the bookmark, and the day that holds \<open>now\<close>, both in the offset of the
  bookmark's datetime.
\<close>

definition days_between :: "int \<Rightarrow> int \<Rightarrow> int" where
  "days_between a b = (b - a) div 86400"

definition bookmark_day :: "tap_context \<Rightarrow> path \<Rightarrow> world \<Rightarrow> datetime" where
  "bookmark_day ctx p w = start_of_day (update_start_date_bookmark_dt ctx p w)"

definition now_day :: "tap_context \<Rightarrow> datetime" where
  "now_day ctx = start_of_day \<lparr>int_timestamp = now ctx, utc_offset = tz_offset ctx\<rparr>"

section \<open>Properties of the transport\<close>

subsection \<open>Projections distribute over appended traces\<close>

lemma sleeps_append: "sleeps (xs @ ys) = sleeps xs @ sleeps ys"
  by (induction xs rule: sleeps.induct) auto

lemma requests_append: "requests (xs @ ys) = requests xs @ requests ys"
  by (induction xs rule: requests.induct) auto

lemma searches_append: "searches (xs @ ys) = searches xs @ searches ys"
  by (induction xs rule: searches.induct) auto

lemma marks_append: "marks (xs @ ys) = marks xs @ marks ys"
  by (induction xs rule: marks.induct) auto

lemma logged_responses_append:
  "logged_responses (xs @ ys) = logged_responses xs @ logged_responses ys"
  by (induction xs rule: logged_responses.induct) auto

lemma new_events_append:
  "trace w' = trace w @ evs \<Longrightarrow> new_events w w' = evs"
  by (simp add: new_events_def)

subsection \<open>The header merge of \<^verbatim>\<open>authed_get\<close>\<close>

text \<open>
  C1. The claim is that every request of \<^verbatim>\<open>authed_get\<close> carries the Authorization
  header and the X-SGUID header. The code never issues a request: the merge is written
  \<^verbatim>\<open>headers.extend(CUSTOM_HEADERS)\<close> on a dict, which raises AttributeError before
  \<^verbatim>\<open>session.request\<close> is reached (and \<^verbatim>\<open>config['api_key']\<close> raises KeyError when
  the key is missing). Whatever the HTTP library would answer, \<^verbatim>\<open>authed_get\<close> ends in
  an exception.
\<close>

theorem authed_get_raises:
  "authed_get session t u cfg ps =
     (case cfg ''api_key'' of None \<Rightarrow> Inl KeyError | Some k \<Rightarrow> Inl AttributeError)"
  by (simp add: authed_get_def split: option.splits)

subsection \<open>\<^verbatim>\<open>end_of_records_check\<close> at status 404\<close>

text \<open>
  C3, as stated, fails: at status 404 a first error message other than "No more pages"
  does not make the predicate false when the body also has \<^verbatim>\<open>recipient_count\<close> equal
  to 0, because the second test of the function runs on every response.
\<close>

theorem end_of_records_check_404_counterexample:
  "end_of_records_check
     \<lparr>status_code = 404, content = [],
      decoded = Some (JDict [(''errors'', JList [JDict [(''message'', JStr ''Not found'')]]),
                             (''recipient_count'', JNum 0)])\<rparr> = Inr True"
  by (simp add: end_of_records_check_def recipient_count_check_def response_json_def
        empty_message_def)

text \<open>
  C3, amended. For a response with status 404 whose decoded body is a dict and whose
  first error entry is a dict with message \<open>msg\<close>: if \<open>msg\<close> is exactly "No more pages"
  the predicate returns true; for any other message it returns true when the body's
  \<^verbatim>\<open>recipient_count\<close> equals 0 and false otherwise.
\<close>

theorem end_of_records_check_404:
  assumes "status_code r = 404"
    and "decoded r = Some j"
    and "py_get j ''errors'' (JList [JDict []]) = Inr errs"
    and "py_index0 errs = Inr first"
    and "py_get first ''message'' JNull = Inr msg"
  shows "(msg = JStr ''No more pages'' \<longrightarrow> end_of_records_check r = Inr True) \<and>
         (msg \<noteq> JStr ''No more pages'' \<longrightarrow>
            (\<exists>c. py_get j ''recipient_count'' JNull = Inr c \<and>
                 end_of_records_check r = Inr (py_eq_zero c)))"
proof -
  obtain kvs where j: "j = JDict kvs"
    using assms(3) by (cases j) simp_all
  have eq: "py_eq_str msg ''No more pages'' \<longleftrightarrow> msg = JStr ''No more pages''"
    by (cases msg) auto
  show ?thesis
    using assms
    by (simp add: end_of_records_check_def recipient_count_check_def response_json_def
          empty_message_def eq j)
qed

theorem end_of_records_check_404_witness:
  "end_of_records_check
     \<lparr>status_code = 404, content = [],
      decoded = Some (JDict [(''errors'', JList [JDict [(''message'', JStr ''No more pages'')]])])\<rparr>
     = Inr True \<and>
   end_of_records_check
     \<lparr>status_code = 404, content = [],
      decoded = Some (JDict [(''errors'', JList [JDict [(''message'', JStr ''Not found'')]])])\<rparr>
     = Inr False"
  using end_of_records_check_404
    [of "\<lparr>status_code = 404, content = [],
          decoded = Some (JDict [(''errors'', JList [JDict [(''message'', JStr ''No more pages'')]])])\<rparr>"
        "JDict [(''errors'', JList [JDict [(''message'', JStr ''No more pages'')]])]"
        "JList [JDict [(''message'', JStr ''No more pages'')]]"
        "JDict [(''message'', JStr ''No more pages'')]"
        "JStr ''No more pages''"]
    end_of_records_check_404
    [of "\<lparr>status_code = 404, content = [],
          decoded = Some (JDict [(''errors'', JList [JDict [(''message'', JStr ''Not found'')]])])\<rparr>"
        "JDict [(''errors'', JList [JDict [(''message'', JStr ''Not found'')]])]"
        "JList [JDict [(''message'', JStr ''Not found'')]]"
        "JDict [(''message'', JStr ''Not found'')]"
        "JStr ''Not found''"]
  by simp

subsection \<open>The retry loop\<close>

lemma retry_get_loop_5xx:
  assumes "\<And>i. i < k \<Longrightarrow> get (calls w + i) t u cfg ps = Inr (rs i)"
    and "\<And>i. i < k \<Longrightarrow> status_code (rs i) \<ge> 500"
    and "attempt + k \<le> 21"
  shows "retry_get_loop get t u cfg ps attempt delay l w =
         retry_get_loop get t u cfg ps (attempt + k) (delay * backoff ^ k)
           (if k = 0 then l else Some (rs (k - 1)))
           (w\<lparr>calls := calls w + k,
              trace := trace w @ backoff_events t u ps rs attempt delay k\<rparr>)"
  using assms
proof (induction k)
  case 0
  then show ?case by (simp add: backoff_events_def)
next
  case (Suc k)
  have step: "retry_get_loop get t u cfg ps attempt delay l w =
         retry_get_loop get t u cfg ps (attempt + k) (delay * backoff ^ k)
           (if k = 0 then l else Some (rs (k - 1)))
           (w\<lparr>calls := calls w + k,
              trace := trace w @ backoff_events t u ps rs attempt delay k\<rparr>)"
    using Suc by simp
  have g: "get (calls w + k) t u cfg ps = Inr (rs k)" and s: "status_code (rs k) \<ge> 500"
    using Suc.prems by simp_all
  have a: "attempt + k \<le> 20" using Suc.prems by simp
  show ?case
    unfolding step
    by (subst retry_get_loop.simps)
       (simp add: g s a requested_def emit_def backoff_events_def mult_ac)
qed


lemma retry_get_loop_ok:
  assumes "get (calls w) t u cfg ps = Inr r" and "status_code r < 500" and "attempt \<le> 20"
  shows "retry_get_loop get t u cfg ps attempt delay l w = (Inr r, requested t u ps w)"
  using assms by (subst retry_get_loop.simps) simp

lemma retry_get_loop_raise:
  assumes "get (calls w) t u cfg ps = Inl e" and "attempt \<le> 20"
  shows "retry_get_loop get t u cfg ps attempt delay l w = (Inl e, requested t u ps w)"
  using assms by (subst retry_get_loop.simps) simp

lemma retry_get_loop_exhausted:
  assumes "20 < attempt"
  shows "retry_get_loop get t u cfg ps attempt delay (Some l) w =
         (Inl (ValueError (''Failed 20 times trying to hit endpoint '' @ u)),
          emit [LogLatestStatus (status_code l), LogLatestContent (content l)] w)"
  using assms by (subst retry_get_loop.simps) simp

text \<open>
  With the code's own \<^verbatim>\<open>authed_get\<close> as the transport, \<^verbatim>\<open>retry_get\<close> raises at its
  first attempt, without a sleep.
\<close>

lemma retry_get_authed_get:
  assumes "cfg ''api_key'' = Some k"
  shows "retry_get (\<lambda>n. authed_get (session n)) t u cfg ps w =
           (Inl AttributeError, requested t u ps w)"
  unfolding retry_get_def
  by (rule retry_get_loop_raise) (simp_all add: authed_get_def assms)

lemma map_pow_shift:
  "map (\<lambda>i. (d::rat) * backoff ^ i) [0..<Suc n] = d # map (\<lambda>i. d * backoff * backoff ^ i) [0..<n]"
proof -
  have "[0..<Suc n] = 0 # [Suc 0..<Suc n]"
    by (rule upt_conv_Cons) simp
  also have "[Suc 0..<Suc n] = map Suc [0..<n]"
    by (simp only: map_Suc_upt)
  finally have "[0..<Suc n] = 0 # map Suc [0..<n]" .
  then show ?thesis by (simp add: comp_def mult_ac del: upt_Suc)
qed

lemma retry_get_loop_effects:
  "retry_get_loop get t u cfg ps attempt delay l w = (res, w') \<Longrightarrow>
   \<exists>evs. w' = w\<lparr>calls := calls w + length (requests evs), trace := trace w @ evs\<rparr> \<and>
         list_all cursor_event evs \<and>
         length (requests evs) \<le> 21 - attempt \<and>
         length (sleeps evs) \<le> 21 - attempt \<and>
         sleeps evs = map (\<lambda>i. delay * backoff ^ i) [0..<length (sleeps evs)]"
proof (induction get t u cfg ps attempt delay l w arbitrary: res w' rule: retry_get_loop.induct)
  case (1 get t u cfg ps attempt delay r w)
  note run = "1.prems"
  show ?case
  proof (cases "attempt \<le> 20")
    case False
    show ?thesis
    proof (cases r)
      case None
      with False run have "w' = w"
        by (subst (asm) retry_get_loop.simps) simp
      then show ?thesis by (intro exI [of _ "[]"]) simp
    next
      case (Some l)
      with False run have "w' = emit [LogLatestStatus (status_code l), LogLatestContent (content l)] w"
        by (subst (asm) retry_get_loop.simps) auto
      then show ?thesis
        by (intro exI [of _ "[LogLatestStatus (status_code l), LogLatestContent (content l)]"])
           (simp add: emit_def)
    qed
  next
    case True
    show ?thesis
    proof (cases "get (calls w) t u cfg ps")
      case (Inl e)
      with True run have "w' = requested t u ps w"
        by (subst (asm) retry_get_loop.simps) auto
      then show ?thesis
        using True by (intro exI [of _ "[Request t u ps]"]) (simp add: requested_def)
    next
      case (Inr r')
      show ?thesis
      proof (cases "status_code r' \<ge> 500")
        case False
        with True Inr run have "w' = requested t u ps w"
          by (subst (asm) retry_get_loop.simps) auto
        then show ?thesis
          using True by (intro exI [of _ "[Request t u ps]"]) (simp add: requested_def)
      next
        case hot: True
        let ?w2 = "emit [LogBackoff (status_code r') attempt retries delay, Sleep delay]
                     (requested t u ps w)"
        from True Inr hot run
        have "retry_get_loop get t u cfg ps (attempt + 1) (delay * backoff) (Some r') ?w2 = (res, w')"
          by (subst (asm) retry_get_loop.simps) simp
        from "1.IH" [OF True Inr hot this]
        obtain evs where w': "w' = ?w2\<lparr>calls := calls ?w2 + length (requests evs),
                                        trace := trace ?w2 @ evs\<rparr>"
          and ce: "list_all cursor_event evs"
          and nr: "length (requests evs) \<le> 21 - (attempt + 1)"
          and ns: "length (sleeps evs) \<le> 21 - (attempt + 1)"
          and sl: "sleeps evs = map (\<lambda>i. delay * backoff * backoff ^ i) [0..<length (sleeps evs)]"
          by blast
        let ?evs = "Request t u ps # LogBackoff (status_code r') attempt retries delay
                      # Sleep delay # evs"
        have "w' = w\<lparr>calls := calls w + length (requests ?evs), trace := trace w @ ?evs\<rparr>"
          using w' by (simp add: emit_def requested_def)
        moreover have "list_all cursor_event ?evs" using ce by simp
        moreover have "length (requests ?evs) \<le> 21 - attempt" using nr True by simp
        moreover have "length (sleeps ?evs) \<le> 21 - attempt" using ns True by simp
        moreover have "sleeps ?evs = map (\<lambda>i. delay * backoff ^ i) [0..<length (sleeps ?evs)]"
          using sl by (simp add: map_pow_shift del: upt_Suc)
        ultimately show ?thesis by blast
      qed
    qed
  qed
qed

lemma backoff_events_Suc:
  "backoff_events t u ps rs attempt delay (Suc k) =
     backoff_events t u ps rs attempt delay k @
       [Request t u ps,
        LogBackoff (status_code (rs k)) (attempt + k) retries (delay * backoff ^ k),
        Sleep (delay * backoff ^ k)]"
  by (simp add: backoff_events_def)

lemma length_backoff_events: "length (backoff_events t u ps rs attempt delay k) = 3 * k"
  by (induction k) (simp_all add: backoff_events_Suc, simp add: backoff_events_def)

lemma sleeps_backoff_events:
  "sleeps (backoff_events t u ps rs attempt delay k) = map (\<lambda>i. delay * backoff ^ i) [0..<k]"
  by (induction k) (simp_all add: backoff_events_Suc sleeps_append, simp add: backoff_events_def)

lemma requests_backoff_events:
  "requests (backoff_events t u ps rs attempt delay k) = replicate k ps"
  by (induction k)
     (simp_all add: backoff_events_Suc requests_append replicate_append_same,
      simp add: backoff_events_def)

lemma backoff_delay_less:
  assumes "0 < (d::rat)" and "i < j"
  shows "d * backoff ^ i < d * backoff ^ j"
proof -
  have "(1::rat) < backoff" by simp
  with \<open>i < j\<close> have "backoff ^ i < backoff ^ j"
    by (rule power_strict_increasing)
  then show ?thesis
    using assms(1) by (rule mult_strict_left_mono)
qed

lemma sorted_backoff_delays:
  assumes "0 < (d::rat)"
  shows "sorted_wrt (<) (map (\<lambda>i. d * backoff ^ i) [0..<m])"
proof (induction m)
  case 0
  show ?case by simp
next
  case (Suc m)
  have "\<forall>i\<in>{0..<m}. d * backoff ^ i < d * backoff ^ m"
    using backoff_delay_less [OF assms] by simp
  with Suc show ?case
    by (simp add: sorted_wrt_append del: power_divide)
qed

lemma geometric_sum_list:
  "(r - 1) * sum_list (map (\<lambda>i. (d::rat) * r ^ i) [0..<n]) = d * (r ^ n - 1)"
  by (induction n) (simp_all add: algebra_simps)

lemma sum_backoff_delays:
  "sum_list (map (\<lambda>i. (d::rat) * backoff ^ i) [0..<n]) = d * (backoff ^ n - 1) / (1 / 2)"
  using geometric_sum_list [of backoff d n] by simp

lemma retry_get_all_5xx:
  assumes "\<And>i. i < 20 \<Longrightarrow> get (calls w + i) t u cfg ps = Inr (rs i) \<and> status_code (rs i) \<ge> 500"
  shows "retry_get get t u cfg ps w =
           (Inl (ValueError (''Failed 20 times trying to hit endpoint '' @ u)),
            w\<lparr>calls := calls w + 20,
              trace := trace w @ backoff_events t u ps rs 1 120 20 @
                [LogLatestStatus (status_code (rs 19)), LogLatestContent (content (rs 19))]\<rparr>)"
proof -
  let ?w20 = "w\<lparr>calls := calls w + 20, trace := trace w @ backoff_events t u ps rs 1 120 20\<rparr>"
  have "retry_get get t u cfg ps w =
        retry_get_loop get t u cfg ps 21 (120 * backoff ^ 20) (Some (rs 19)) ?w20"
    using retry_get_loop_5xx [of 20 get w t u cfg ps rs 1 120 None] assms
    by (simp add: retry_get_def)
  also have "\<dots> = (Inl (ValueError (''Failed 20 times trying to hit endpoint '' @ u)),
                   emit [LogLatestStatus (status_code (rs 19)), LogLatestContent (content (rs 19))] ?w20)"
    by (rule retry_get_loop_exhausted) simp
  finally show ?thesis by (simp add: emit_def)
qed

text \<open>
  C5. In every execution of \<^verbatim>\<open>retry_get\<close> in which the first \<open>N\<close> responses have a
  status of 500 or more, the first \<open>N\<close> delays slept are 120, 180, 270, ..., that is
  \<open>120 * 1.5 ^ i\<close> for \<open>i < N\<close>; the delays slept are strictly increasing; at most 20
  requests are issued; and when the 20th response is such a one too, the call fails with
  ValueError after logging the status code and the content of the last response.
\<close>

theorem retry_get_backoff_sequence:
  assumes first: "\<And>i. i < N \<Longrightarrow> get (calls w + i) t u cfg ps = Inr (rs i) \<and> status_code (rs i) \<ge> 500"
    and N: "N \<le> 20"
    and run: "retry_get get t u cfg ps w = (res, w')"
  shows "take N (sleeps (new_events w w')) = map (\<lambda>i. 120 * backoff ^ i) [0..<N] \<and>
         sorted_wrt (<) (sleeps (new_events w w')) \<and>
         length (requests (new_events w w')) \<le> 20 \<and>
         (N = 20 \<longrightarrow>
            res = Inl (ValueError (''Failed 20 times trying to hit endpoint '' @ u)) \<and>
            new_events w w' = backoff_events t u ps rs 1 120 20 @
              [LogLatestStatus (status_code (rs 19)), LogLatestContent (content (rs 19))])"
proof -
  let ?wN = "w\<lparr>calls := calls w + N, trace := trace w @ backoff_events t u ps rs 1 120 N\<rparr>"
  let ?l = "if N = 0 then None else Some (rs (N - 1))"
  have cont: "retry_get_loop get t u cfg ps (1 + N) (120 * backoff ^ N) ?l ?wN = (res, w')"
    using retry_get_loop_5xx [of N get w t u cfg ps rs 1 120 None] first N run
    by (simp add: retry_get_def)
  from retry_get_loop_effects [OF cont]
  obtain evs where w': "w' = ?wN\<lparr>calls := calls ?wN + length (requests evs),
                                   trace := trace ?wN @ evs\<rparr>"
    by blast
  have new: "new_events w w' = backoff_events t u ps rs 1 120 N @ evs"
    by (rule new_events_append) (simp add: w')
  have a: "take N (sleeps (new_events w w')) = map (\<lambda>i. 120 * backoff ^ i) [0..<N]"
    by (simp add: new sleeps_append sleeps_backoff_events)
  from retry_get_loop_effects [OF run [unfolded retry_get_def]]
  obtain evs0 where w0: "w' = w\<lparr>calls := calls w + length (requests evs0), trace := trace w @ evs0\<rparr>"
    and nr: "length (requests evs0) \<le> 21 - 1"
    and sl: "sleeps evs0 = map (\<lambda>i. 120 * backoff ^ i) [0..<length (sleeps evs0)]"
    by blast
  have new0: "new_events w w' = evs0"
    by (rule new_events_append) (simp add: w0)
  have b: "sorted_wrt (<) (sleeps (new_events w w'))"
    unfolding new0 by (subst sl) (rule sorted_backoff_delays, simp)
  have c: "length (requests (new_events w w')) \<le> 20"
    unfolding new0 using nr by simp
  have d: "res = Inl (ValueError (''Failed 20 times trying to hit endpoint '' @ u)) \<and>
           new_events w w' = backoff_events t u ps rs 1 120 20 @
             [LogLatestStatus (status_code (rs 19)), LogLatestContent (content (rs 19))]"
    if "N = 20"
  proof -
    have "(res, w') = (Inl (ValueError (''Failed 20 times trying to hit endpoint '' @ u)),
             emit [LogLatestStatus (status_code (rs 19)), LogLatestContent (content (rs 19))] ?wN)"
      using cont that retry_get_loop_exhausted [of "1 + N" get t u cfg ps "120 * backoff ^ N" "rs 19" ?wN]
      by simp
    then have "res = Inl (ValueError (''Failed 20 times trying to hit endpoint '' @ u))"
      and "trace w' = trace w @ backoff_events t u ps rs 1 120 20 @
             [LogLatestStatus (status_code (rs 19)), LogLatestContent (content (rs 19))]"
      using that by (simp_all add: emit_def)
    then show ?thesis by (simp add: new_events_append)
  qed
  from a b c d show ?thesis by blast
qed

theorem retry_get_backoff_sequence_witness:
  "take 3 (sleeps (new_events \<lparr>calls = 0, trace = [], bookmarks = Map.empty\<rparr>
     (snd (retry_get (\<lambda>n t u c p. Inr \<lparr>status_code = 503, content = ''busy'', decoded = None\<rparr>)
             ''contacts'' ''https://api.sendgrid.com/v3/contactdb/recipients'' Map.empty None
             \<lparr>calls = 0, trace = [], bookmarks = Map.empty\<rparr>)))) = [120, 180, 270]"
  using retry_get_backoff_sequence
    [of 3 "\<lambda>n t u c p. Inr \<lparr>status_code = 503, content = ''busy'', decoded = None\<rparr>"
        "\<lparr>calls = 0, trace = [], bookmarks = Map.empty\<rparr>"
        "''contacts''" "''https://api.sendgrid.com/v3/contactdb/recipients''" Map.empty None
        "\<lambda>i. \<lparr>status_code = 503, content = ''busy'', decoded = None\<rparr>"
        "fst (retry_get (\<lambda>n t u c p. Inr \<lparr>status_code = 503, content = ''busy'', decoded = None\<rparr>)
             ''contacts'' ''https://api.sendgrid.com/v3/contactdb/recipients'' Map.empty None
             \<lparr>calls = 0, trace = [], bookmarks = Map.empty\<rparr>)"
        "snd (retry_get (\<lambda>n t u c p. Inr \<lparr>status_code = 503, content = ''busy'', decoded = None\<rparr>)
             ''contacts'' ''https://api.sendgrid.com/v3/contactdb/recipients'' Map.empty None
             \<lparr>calls = 0, trace = [], bookmarks = Map.empty\<rparr>)"]
  by (simp add: numeral_3_eq_3)

text \<open>
  C9. When all 20 attempts of \<^verbatim>\<open>retry_get\<close> get a status of 500 or more, the function
  sleeps after each of them, the 20th included: the 20th request is followed by the
  backoff log line and a sleep of \<open>120 * 1.5 ^ 19\<close> seconds, and only then by the two
  error log lines and the ValueError. There are 20 sleeps, \<open>120 * (1.5 ^ 20 - 1) / 0.5\<close>
  seconds in all.
\<close>

theorem retry_get_sleeps_before_exhaustion:
  assumes all: "\<And>i. i < 20 \<Longrightarrow>
                  get (calls w + i) t u cfg ps = Inr (rs i) \<and> status_code (rs i) \<ge> 500"
    and run: "retry_get get t u cfg ps w = (res, w')"
  shows "res = Inl (ValueError (''Failed 20 times trying to hit endpoint '' @ u)) \<and>
         new_events w w' =
           backoff_events t u ps rs 1 120 19 @
             [Request t u ps,
              LogBackoff (status_code (rs 19)) 20 retries (120 * backoff ^ 19),
              Sleep (120 * backoff ^ 19),
              LogLatestStatus (status_code (rs 19)),
              LogLatestContent (content (rs 19))] \<and>
         length (requests (new_events w w')) = 20 \<and>
         length (sleeps (new_events w w')) = 20 \<and>
         sleeps (new_events w w') = map (\<lambda>i. 120 * backoff ^ i) [0..<20] \<and>
         last (sleeps (new_events w w')) = 120 * backoff ^ 19 \<and>
         sum_list (sleeps (new_events w w')) = 120 * (backoff ^ 20 - 1) / (1 / 2)"
proof -
  let ?tail = "[LogLatestStatus (status_code (rs 19)), LogLatestContent (content (rs 19))]"
  from retry_get_all_5xx [of get w t u cfg ps rs] all run
  have res: "res = Inl (ValueError (''Failed 20 times trying to hit endpoint '' @ u))"
    and w': "trace w' = trace w @ backoff_events t u ps rs 1 120 20 @ ?tail"
    by auto
  have new: "new_events w w' = backoff_events t u ps rs 1 120 20 @ ?tail"
    using w' by (rule new_events_append)
  have split: "backoff_events t u ps rs 1 120 20 =
                 backoff_events t u ps rs 1 120 19 @
                   [Request t u ps,
                    LogBackoff (status_code (rs 19)) 20 retries (120 * backoff ^ 19),
                    Sleep (120 * backoff ^ 19)]"
    using backoff_events_Suc [of t u ps rs 1 120 19] by simp
  have sl: "sleeps (new_events w w') = map (\<lambda>i. 120 * backoff ^ i) [0..<20]"
    by (simp add: new sleeps_append sleeps_backoff_events del: upt_Suc)
  have rq: "length (requests (new_events w w')) = 20"
    by (simp add: new requests_append requests_backoff_events)
  have len: "length (sleeps (new_events w w')) = 20"
    by (simp only: sl length_map length_upt diff_zero)
  have "[0..<20] = [0..<19] @ [19::nat]"
    using upt_Suc_append [of 0 19] by simp
  then have lst: "last (sleeps (new_events w w')) = 120 * backoff ^ 19"
    by (simp only: sl map_append last_snoc list.map)
  have sm: "sum_list (sleeps (new_events w w')) = 120 * (backoff ^ 20 - 1) / (1 / 2)"
    by (simp only: sl sum_backoff_delays)
  from res new split sl rq len lst sm show ?thesis by simp
qed

theorem retry_get_sleeps_before_exhaustion_witness:
  "length (sleeps (new_events \<lparr>calls = 0, trace = [], bookmarks = Map.empty\<rparr>
     (snd (retry_get (\<lambda>n t u c p. Inr \<lparr>status_code = 500 + int n, content = ''down'', decoded = None\<rparr>)
             ''contacts'' ''https://api.sendgrid.com/v3/contactdb/recipients'' Map.empty None
             \<lparr>calls = 0, trace = [], bookmarks = Map.empty\<rparr>)))) = 20 \<and>
   last (sleeps (new_events \<lparr>calls = 0, trace = [], bookmarks = Map.empty\<rparr>
     (snd (retry_get (\<lambda>n t u c p. Inr \<lparr>status_code = 500 + int n, content = ''down'', decoded = None\<rparr>)
             ''contacts'' ''https://api.sendgrid.com/v3/contactdb/recipients'' Map.empty None
             \<lparr>calls = 0, trace = [], bookmarks = Map.empty\<rparr>)))) = 120 * (3 / 2) ^ 19"
proof -
  let ?get = "\<lambda>(n::nat) (t::string) (u::string) (c::string \<rightharpoonup> string) (p::params option).
                (Inr \<lparr>status_code = 500 + int n, content = ''down'', decoded = None\<rparr> :: error + response)"
  let ?w = "\<lparr>calls = 0, trace = [], bookmarks = Map.empty\<rparr>"
  let ?run = "retry_get ?get ''contacts'' ''https://api.sendgrid.com/v3/contactdb/recipients''
                Map.empty None ?w"
  have all: "\<And>i. i < 20 \<Longrightarrow>
               ?get (calls ?w + i) ''contacts'' ''https://api.sendgrid.com/v3/contactdb/recipients''
                 Map.empty None
               = Inr \<lparr>status_code = 500 + int i, content = ''down'', decoded = None\<rparr> \<and>
               status_code \<lparr>status_code = 500 + int i, content = ''down'', decoded = None\<rparr> \<ge> 500"
    by simp
  have run: "?run = (fst ?run, snd ?run)" by simp
  from retry_get_sleeps_before_exhaustion
         [of ?get ?w _ _ _ _
             "\<lambda>i. \<lparr>status_code = 500 + int i, content = ''down'', decoded = None\<rparr>", OF all run]
  show ?thesis by blast
qed

section \<open>Properties of the cursor strategies\<close>

subsection \<open>JSON decode failures\<close>

lemma retry_get_unfold:
  "retry_get get t u cfg ps w =
     (case get (calls w) t u cfg ps of
        Inl e \<Rightarrow> (Inl e, requested t u ps w)
      | Inr r \<Rightarrow>
          if status_code r \<ge> 500 then
            retry_get_loop get t u cfg ps 2 (120 * backoff) (Some r)
              (emit [LogBackoff (status_code r) 1 retries 120, Sleep 120] (requested t u ps w))
          else (Inr r, requested t u ps w))"
  unfolding retry_get_def by (subst retry_get_loop.simps) (simp add: numeral_2_eq_2 split: sum.splits)

lemma retry_get_ok:
  assumes "get (calls w) t u cfg ps = Inr r" and "status_code r < 500"
  shows "retry_get get t u cfg ps w = (Inr r, requested t u ps w)"
  using assms by (simp add: retry_get_unfold)

lemma retry_get_effects:
  assumes "retry_get get t u cfg ps w = (res, w')"
  shows "\<exists>evs. w' = w\<lparr>calls := calls w + length (requests evs), trace := trace w @ evs\<rparr> \<and>
               list_all cursor_event evs"
  using retry_get_loop_effects [OF assms [unfolded retry_get_def]] by blast

lemma paged_decode_failures:
  assumes "\<And>i. i < k \<Longrightarrow>
             get (calls w + i) (tap_stream_id s) ep (config ctx) (paged_params page add_params)
               = Inr (rs i) \<and> status_code (rs i) < 500 \<and> decoded (rs i) = None"
    and "a + k < 3"
  shows "get_using_paged_loop (k + fuel) get ctx s add_params ep body page a w =
         get_using_paged_loop fuel get ctx s add_params ep body page (a + k)
           (w\<lparr>calls := calls w + k,
              trace := trace w @
                replicate k (Request (tap_stream_id s) ep (paged_params page add_params))\<rparr>)"
  using assms
proof (induction k arbitrary: fuel)
  case 0
  then show ?case by simp
next
  case (Suc k)
  let ?wk = "w\<lparr>calls := calls w + k,
               trace := trace w @
                 replicate k (Request (tap_stream_id s) ep (paged_params page add_params))\<rparr>"
  have "get_using_paged_loop (Suc k + fuel) get ctx s add_params ep body page a w =
        get_using_paged_loop (Suc fuel) get ctx s add_params ep body page (a + k) ?wk"
    using Suc.IH [of "Suc fuel"] Suc.prems by simp
  also have "\<dots> = get_using_paged_loop fuel get ctx s add_params ep body page (a + Suc k)
                     (requested (tap_stream_id s) ep (paged_params page add_params) ?wk)"
  proof -
    have g: "get (calls ?wk) (tap_stream_id s) ep (config ctx) (paged_params page add_params)
               = Inr (rs k)" and st: "status_code (rs k) < 500" and d: "decoded (rs k) = None"
      using Suc.prems(1) [of k] by simp_all
    have a: "a + k + 1 < 3" using Suc.prems(2) by simp
    show ?thesis
      using retry_get_ok [of get ?wk "tap_stream_id s" ep "config ctx"
              "paged_params page add_params" "rs k", OF g st] d a
      by (simp add: paged_params_def Let_def)
  qed
  finally show ?case
    by (simp add: requested_def replicate_append_same)
qed

lemma decode_failures_from:
  assumes three: "\<And>i. i < 3 \<Longrightarrow>
             get (calls w + i) (tap_stream_id s) ep (config ctx) (paged_params page add_params)
               = Inr (rs i) \<and> status_code (rs i) < 500 \<and> decoded (rs i) = None"
    and fewer: "\<And>i. i < k \<Longrightarrow>
             get' (calls w + i) (tap_stream_id s) ep (config ctx) (paged_params page add_params)
               = Inr (rs' i) \<and> status_code (rs' i) < 500 \<and> decoded (rs' i) = None"
    and k: "k < 3"
    and good: "get' (calls w + k) (tap_stream_id s) ep (config ctx) (paged_params page add_params)
               = Inr r \<and> status_code r < 500 \<and> decoded r = Some j"
    and off: "get (calls w) (tap_stream_id s) ep (config ctx) (offset_params offset start end')
               = Inr ro \<and> status_code ro < 500 \<and> decoded ro = None"
    and lim: "get (calls w) (tap_stream_id s) ep (config ctx) (members_params offset)
               = Inr rm \<and> status_code rm < 500 \<and> decoded rm = None"
  shows "get_using_paged_loop (3 + fuel) get ctx s add_params ep body page 0 w =
           Some (Inl (ValueError ''Error parsing file...''),
                 w\<lparr>calls := calls w + 3,
                   trace := trace w @
                     replicate 3 (Request (tap_stream_id s) ep (paged_params page add_params)) @
                     [LogParseStatus (status_code (rs 2)), LogParseContent (content (rs 2))]\<rparr>) \<and>
         get_using_paged_loop (Suc k + fuel) get' ctx s add_params ep body page 0 w =
           (case body j (w\<lparr>calls := calls w + Suc k,
                           trace := trace w @
                             replicate (Suc k)
                               (Request (tap_stream_id s) ep (paged_params page add_params))\<rparr>) of
              (Inl e, w2) \<Rightarrow> Some (Inl e, w2)
            | (Inr u, w2) \<Rightarrow>
                (case end_of_records_check r of
                   Inl e \<Rightarrow> Some (Inl e, w2)
                 | Inr b \<Rightarrow>
                     if b then Some (Inr (), w2)
                     else get_using_paged_loop fuel get' ctx s add_params ep body (page + 1) 0 w2)) \<and>
         get_using_offset_loop (Suc fuel) get get_results_from_payload ctx s start end' ep body
             offset w =
           Some (Inl JSONDecodeError,
                 requested (tap_stream_id s) ep (offset_params offset start end') w) \<and>
         get_members_limits_loop (Suc fuel) get ctx s ep body offset w =
           Some (Inl (ValueError ''Error parsing file...''),
                 emit [LogParseStatus (status_code rm), LogParseContent (content rm)]
                   (requested (tap_stream_id s) ep (members_params offset) w))"
proof -
  let ?rq = "Request (tap_stream_id s) ep (paged_params page add_params)"
  have A: "get_using_paged_loop (3 + fuel) get ctx s add_params ep body page 0 w =
           Some (Inl (ValueError ''Error parsing file...''),
                 w\<lparr>calls := calls w + 3,
                   trace := trace w @ replicate 3 ?rq @
                     [LogParseStatus (status_code (rs 2)), LogParseContent (content (rs 2))]\<rparr>)"
  proof -
    let ?w2 = "w\<lparr>calls := calls w + 2, trace := trace w @ replicate 2 ?rq\<rparr>"
    have two: "\<And>i. i < 2 \<Longrightarrow>
             get (calls w + i) (tap_stream_id s) ep (config ctx) (paged_params page add_params)
               = Inr (rs i) \<and> status_code (rs i) < 500 \<and> decoded (rs i) = None"
      using three by simp
    have "get_using_paged_loop (2 + Suc fuel) get ctx s add_params ep body page 0 w =
          get_using_paged_loop (Suc fuel) get ctx s add_params ep body page (0 + 2) ?w2"
      using two
        paged_decode_failures [where k = 2 and get = get and w = w and s = s and ep = ep
          and ctx = ctx and page = page and add_params = add_params and rs = rs and a = 0
          and fuel = "Suc fuel" and body = body]
      by simp
    moreover have "get (calls ?w2) (tap_stream_id s) ep (config ctx) (paged_params page add_params)
                    = Inr (rs 2)" and "status_code (rs 2) < 500" and "decoded (rs 2) = None"
      using three [of 2] by simp_all
    ultimately show ?thesis
      using retry_get_ok [of get ?w2 "tap_stream_id s" ep "config ctx"
              "paged_params page add_params" "rs 2"]
      by (simp add: paged_params_def Let_def requested_def emit_def numeral_3_eq_3 numeral_2_eq_2)
  qed
  have B: "get_using_paged_loop (Suc k + fuel) get' ctx s add_params ep body page 0 w =
           (case body j (w\<lparr>calls := calls w + Suc k,
                           trace := trace w @ replicate (Suc k) ?rq\<rparr>) of
              (Inl e, w2) \<Rightarrow> Some (Inl e, w2)
            | (Inr u, w2) \<Rightarrow>
                (case end_of_records_check r of
                   Inl e \<Rightarrow> Some (Inl e, w2)
                 | Inr b \<Rightarrow>
                     if b then Some (Inr (), w2)
                     else get_using_paged_loop fuel get' ctx s add_params ep body (page + 1) 0 w2))"
  proof -
    let ?wk = "w\<lparr>calls := calls w + k, trace := trace w @ replicate k ?rq\<rparr>"
    have "get_using_paged_loop (k + Suc fuel) get' ctx s add_params ep body page 0 w =
          get_using_paged_loop (Suc fuel) get' ctx s add_params ep body page (0 + k) ?wk"
      using fewer k
        paged_decode_failures [where k = k and get = get' and w = w and s = s and ep = ep
          and ctx = ctx and page = page and add_params = add_params and rs = rs' and a = 0
          and fuel = "Suc fuel" and body = body]
      by simp
    moreover have "get' (calls ?wk) (tap_stream_id s) ep (config ctx) (paged_params page add_params)
                    = Inr r" and "status_code r < 500" and "decoded r = Some j"
      using good by simp_all
    ultimately show ?thesis
      using retry_get_ok [of get' ?wk "tap_stream_id s" ep "config ctx"
              "paged_params page add_params" r]
      by (simp add: paged_params_def Let_def requested_def replicate_append_same
            split: prod.splits sum.splits)
  qed
  have C: "get_using_offset_loop (Suc fuel) get get_results_from_payload ctx s start end' ep body
             offset w =
           Some (Inl JSONDecodeError,
                 requested (tap_stream_id s) ep (offset_params offset start end') w)"
    using off retry_get_ok [of get w "tap_stream_id s" ep "config ctx"
              "offset_params offset start end'" ro]
    by (simp add: offset_params_def Let_def response_json_def)
  have D: "get_members_limits_loop (Suc fuel) get ctx s ep body offset w =
           Some (Inl (ValueError ''Error parsing file...''),
                 emit [LogParseStatus (status_code rm), LogParseContent (content rm)]
                   (requested (tap_stream_id s) ep (members_params offset) w))"
    using lim retry_get_ok [of get w "tap_stream_id s" ep "config ctx" "members_params offset" rm]
    by (simp add: members_params_def Let_def)
  from A B C D show ?thesis by blast
qed


text \<open>
  C4, as stated, fails in its count: the page is not fetched again "up to 3 times". The
  third consecutive answer that does not decode is fatal, so a page is requested three
  times in all, the first fetch and two more. Here the transport answers the first three
  requests with a body that does not decode and every later one with a good body:
  \<^verbatim>\<open>get_using_paged\<close> ends in ValueError after three requests and never asks for the
  good answer that a third refetch would have got.
\<close>

theorem json_decode_failure_policy_counterexample:
  "get_using_paged 4
     (\<lambda>n t u c p. Inr (if n < 3
        then \<lparr>status_code = 200, content = ''<html>'', decoded = None\<rparr>
        else \<lparr>status_code = 200, content = ''{recipient_count: 0}'',
              decoded = Some (JDict [(''recipient_count'', JNum 0)])\<rparr>))
     \<lparr>config = [''api_key'' \<mapsto> ''k''], now = 0, start_date = 0, tz_offset = 0\<rparr>
     \<lparr>tap_stream_id = ''contacts'', endpoint = ''https://api.sendgrid.com/v3/contactdb/recipients'',
      bookmark = Some (''contacts'', ''timestamp'')\<rparr>
     None None (\<lambda>j w. (Inr (), w))
     \<lparr>calls = 0, trace = [], bookmarks = Map.empty\<rparr>
   = Some (Inl (ValueError ''Error parsing file...''),
           \<lparr>calls = 3,
            trace = [Request ''contacts'' ''https://api.sendgrid.com/v3/contactdb/recipients''
                       (Some [(''page'', 1), (''page_size'', 1000)]),
                     Request ''contacts'' ''https://api.sendgrid.com/v3/contactdb/recipients''
                       (Some [(''page'', 1), (''page_size'', 1000)]),
                     Request ''contacts'' ''https://api.sendgrid.com/v3/contactdb/recipients''
                       (Some [(''page'', 1), (''page_size'', 1000)]),
                     LogParseStatus 200, LogParseContent ''<html>''],
            bookmarks = Map.empty\<rparr>)"
  by (simp add: get_using_paged_def endpoint_of_def Let_def retry_get_unfold requested_def
        emit_def safe_update_dict_def eval_nat_numeral)

text \<open>
  C4, amended. On a JSON decode failure \<^verbatim>\<open>get_using_paged\<close> requests the same page
  again, with the page counter unchanged, at most twice: three undecodable answers in a
  row make three requests with the same parameters (page 1 here, the first page) and then
  the fatal ValueError, whatever the transport would answer to a fourth request; after
  fewer failures (\<open>k < 3\<close>) a decodable answer to the \<open>k + 1\<close>-th request of that same page
  is handed to the loop body, and only then does the cursor move to page 2, with the
  count of failures back at 0. \<^verbatim>\<open>get_using_offset\<close> fails with the JSONDecodeError
  itself, and \<^verbatim>\<open>get_members_limits\<close> with ValueError, after the one request whose
  answer does not decode.
\<close>

theorem json_decode_failure_policy:
  assumes three: "\<And>i. i < 3 \<Longrightarrow>
             get (calls w + i) (tap_stream_id s) (endpoint_of s url_key) (config ctx)
                 (paged_params 1 add_params)
               = Inr (rs i) \<and> status_code (rs i) < 500 \<and> decoded (rs i) = None"
    and fewer: "\<And>i. i < k \<Longrightarrow>
             get' (calls w + i) (tap_stream_id s) (endpoint_of s url_key) (config ctx)
                 (paged_params 1 add_params)
               = Inr (rs' i) \<and> status_code (rs' i) < 500 \<and> decoded (rs' i) = None"
    and k: "k < 3"
    and good: "get' (calls w + k) (tap_stream_id s) (endpoint_of s url_key) (config ctx)
                 (paged_params 1 add_params)
               = Inr r \<and> status_code r < 500 \<and> decoded r = Some j"
    and off: "get (calls w) (tap_stream_id s) (endpoint_of s url_key) (config ctx)
                 (offset_params 0 start end')
               = Inr ro \<and> status_code ro < 500 \<and> decoded ro = None"
    and lim: "get (calls w) (tap_stream_id s) (endpoint_of s url_key) (config ctx)
                 (members_params 0)
               = Inr rm \<and> status_code rm < 500 \<and> decoded rm = None"
  shows "get_using_paged (3 + fuel) get ctx s add_params url_key body w =
           Some (Inl (ValueError ''Error parsing file...''),
                 w\<lparr>calls := calls w + 3,
                   trace := trace w @
                     replicate 3 (Request (tap_stream_id s) (endpoint_of s url_key)
                                    (paged_params 1 add_params)) @
                     [LogParseStatus (status_code (rs 2)), LogParseContent (content (rs 2))]\<rparr>) \<and>
         get_using_paged (Suc k + fuel) get' ctx s add_params url_key body w =
           (case body j (w\<lparr>calls := calls w + Suc k,
                           trace := trace w @
                             replicate (Suc k)
                               (Request (tap_stream_id s) (endpoint_of s url_key)
                                  (paged_params 1 add_params))\<rparr>) of
              (Inl e, w2) \<Rightarrow> Some (Inl e, w2)
            | (Inr u, w2) \<Rightarrow>
                (case end_of_records_check r of
                   Inl e \<Rightarrow> Some (Inl e, w2)
                 | Inr b \<Rightarrow>
                     if b then Some (Inr (), w2)
                     else get_using_paged_loop fuel get' ctx s add_params (endpoint_of s url_key)
                            body 2 0 w2)) \<and>
         get_using_offset (Suc fuel) get get_results_from_payload ctx s start end' url_key body w =
           Some (Inl JSONDecodeError,
                 requested (tap_stream_id s) (endpoint_of s url_key)
                   (offset_params 0 start end') w) \<and>
         get_members_limits (Suc fuel) get ctx s url_key body w =
           Some (Inl (ValueError ''Error parsing file...''),
                 emit [LogParseStatus (status_code rm), LogParseContent (content rm)]
                   (requested (tap_stream_id s) (endpoint_of s url_key) (members_params 0) w))"
proof -
  note th = decode_failures_from
    [where get = get and get' = get' and w = w and s = s and ep = "endpoint_of s url_key"
       and ctx = ctx and page = 1 and add_params = add_params and rs = rs and rs' = rs'
       and k = k and r = r and j = j and offset = 0 and start = start and end' = end'
       and ro = ro and rm = rm and fuel = fuel and body = body
       and get_results_from_payload = get_results_from_payload,
     OF three fewer k good off lim]
  have two: "(1::int) + 1 = 2" by simp
  show ?thesis
    unfolding get_using_paged_def get_using_offset_def get_members_limits_def
    by (rule th [unfolded two])
qed

theorem json_decode_failure_policy_witness:
  "get_using_paged 3
     (\<lambda>n t u c p. Inr \<lparr>status_code = 200, content = ''<html>'', decoded = None\<rparr>)
     \<lparr>config = [''api_key'' \<mapsto> ''k''], now = 0, start_date = 0, tz_offset = 0\<rparr>
     \<lparr>tap_stream_id = ''contacts'', endpoint = ''https://api.sendgrid.com/v3/contactdb/recipients'',
      bookmark = Some (''contacts'', ''timestamp'')\<rparr>
     None None (\<lambda>j w. (Inr (), w))
     \<lparr>calls = 0, trace = [], bookmarks = Map.empty\<rparr>
   = Some (Inl (ValueError ''Error parsing file...''),
           \<lparr>calls = 3,
            trace = [Request ''contacts'' ''https://api.sendgrid.com/v3/contactdb/recipients''
                       (Some [(''page'', 1), (''page_size'', 1000)]),
                     Request ''contacts'' ''https://api.sendgrid.com/v3/contactdb/recipients''
                       (Some [(''page'', 1), (''page_size'', 1000)]),
                     Request ''contacts'' ''https://api.sendgrid.com/v3/contactdb/recipients''
                       (Some [(''page'', 1), (''page_size'', 1000)]),
                     LogParseStatus 200, LogParseContent ''<html>''],
            bookmarks = Map.empty\<rparr>) \<and>
   get_using_paged 3
     (\<lambda>n t u c p. Inr (if n < 2
        then \<lparr>status_code = 200, content = ''<html>'', decoded = None\<rparr>
        else \<lparr>status_code = 200, content = ''{recipient_count: 0}'',
              decoded = Some (JDict [(''recipient_count'', JNum 0)])\<rparr>))
     \<lparr>config = [''api_key'' \<mapsto> ''k''], now = 0, start_date = 0, tz_offset = 0\<rparr>
     \<lparr>tap_stream_id = ''contacts'', endpoint = ''https://api.sendgrid.com/v3/contactdb/recipients'',
      bookmark = Some (''contacts'', ''timestamp'')\<rparr>
     None None (\<lambda>j w. (Inr (), w))
     \<lparr>calls = 0, trace = [], bookmarks = Map.empty\<rparr>
   = Some (Inr (),
           \<lparr>calls = 3,
            trace = [Request ''contacts'' ''https://api.sendgrid.com/v3/contactdb/recipients''
                       (Some [(''page'', 1), (''page_size'', 1000)]),
                     Request ''contacts'' ''https://api.sendgrid.com/v3/contactdb/recipients''
                       (Some [(''page'', 1), (''page_size'', 1000)]),
                     Request ''contacts'' ''https://api.sendgrid.com/v3/contactdb/recipients''
                       (Some [(''page'', 1), (''page_size'', 1000)])],
            bookmarks = Map.empty\<rparr>) \<and>
   get_using_offset 1
     (\<lambda>n t u c p. Inr \<lparr>status_code = 200, content = ''<html>'', decoded = None\<rparr>)
     Inr
     \<lparr>config = [''api_key'' \<mapsto> ''k''], now = 0, start_date = 0, tz_offset = 0\<rparr>
     \<lparr>tap_stream_id = ''contacts'', endpoint = ''https://api.sendgrid.com/v3/contactdb/recipients'',
      bookmark = Some (''contacts'', ''timestamp'')\<rparr>
     0 0 None (\<lambda>j w. (Inr (), w))
     \<lparr>calls = 0, trace = [], bookmarks = Map.empty\<rparr>
   = Some (Inl JSONDecodeError,
           \<lparr>calls = 1,
            trace = [Request ''contacts'' ''https://api.sendgrid.com/v3/contactdb/recipients''
                       (Some [(''offset'', 0), (''limit'', 500), (''start_time'', 0),
                              (''end_time'', 0)])],
            bookmarks = Map.empty\<rparr>) \<and>
   get_members_limits 1
     (\<lambda>n t u c p. Inr \<lparr>status_code = 200, content = ''<html>'', decoded = None\<rparr>)
     \<lparr>config = [''api_key'' \<mapsto> ''k''], now = 0, start_date = 0, tz_offset = 0\<rparr>
     \<lparr>tap_stream_id = ''contacts'', endpoint = ''https://api.sendgrid.com/v3/contactdb/recipients'',
      bookmark = Some (''contacts'', ''timestamp'')\<rparr>
     None (\<lambda>j w. (Inr (), w))
     \<lparr>calls = 0, trace = [], bookmarks = Map.empty\<rparr>
   = Some (Inl (ValueError ''Error parsing file...''),
           \<lparr>calls = 1,
            trace = [Request ''contacts'' ''https://api.sendgrid.com/v3/contactdb/recipients''
                       (Some [(''offset'', 0), (''limit'', 250000)]),
                     LogParseStatus 200, LogParseContent ''<html>''],
            bookmarks = Map.empty\<rparr>)"
  using json_decode_failure_policy
    [where get = "\<lambda>n t u c p. Inr \<lparr>status_code = 200, content = ''<html>'', decoded = None\<rparr>"
       and get' = "\<lambda>n t u c p. Inr (if n < 2
              then \<lparr>status_code = 200, content = ''<html>'', decoded = None\<rparr>
              else \<lparr>status_code = 200, content = ''{recipient_count: 0}'',
              decoded = Some (JDict [(''recipient_count'', JNum 0)])\<rparr>)"
       and w = "\<lparr>calls = 0, trace = [], bookmarks = Map.empty\<rparr>"
       and ctx = "\<lparr>config = [''api_key'' \<mapsto> ''k''], now = 0, start_date = 0, tz_offset = 0\<rparr>"
       and s = "\<lparr>tap_stream_id = ''contacts'', endpoint = ''https://api.sendgrid.com/v3/contactdb/recipients'',
      bookmark = Some (''contacts'', ''timestamp'')\<rparr>"
       and url_key = None
       and add_params = None and k = 2 and fuel = 0
       and start = 0 and end' = 0
       and body = "\<lambda>j w. (Inr (), w)"
       and get_results_from_payload = Inr
       and rs = "\<lambda>i. \<lparr>status_code = 200, content = ''<html>'', decoded = None\<rparr>"
       and rs' = "\<lambda>i. \<lparr>status_code = 200, content = ''<html>'', decoded = None\<rparr>"
       and r = "\<lparr>status_code = 200, content = ''{recipient_count: 0}'',
              decoded = Some (JDict [(''recipient_count'', JNum 0)])\<rparr>"
       and j = "JDict [(''recipient_count'', JNum 0)]"
       and ro = "\<lparr>status_code = 200, content = ''<html>'', decoded = None\<rparr>"
       and rm = "\<lparr>status_code = 200, content = ''<html>'', decoded = None\<rparr>"]
  by (simp add: paged_params_def offset_params_def members_params_def safe_update_dict_def
        end_of_records_check_def recipient_count_check_def response_json_def endpoint_of_def
        requested_def emit_def numeral_3_eq_3 numeral_2_eq_2
        del: get_using_paged_loop.simps)

subsection \<open>When the offset strategies stop\<close>

lemma after_batches_0: "after_batches rq bev bup bs 0 w = w"
  by (simp add: after_batches_def)

lemma after_batches_Suc:
  "after_batches rq bev bup bs (Suc n) w =
     (let w1 = after_batches rq bev bup bs n w
      in w1\<lparr>calls := calls w1 + 1,
             trace := trace w1 @ rq n # bev (bs n),
             bookmarks := bup (bs n) (bookmarks w1)\<rparr>)"
  by (simp add: after_batches_def Let_def)

lemma calls_after_batches: "calls (after_batches rq bev bup bs n w) = calls w + n"
  by (simp add: after_batches_def)

lemma offset_run_from:
  assumes body: "\<And>r w. body r w =
                   (Inr (), w\<lparr>trace := trace w @ bev r, bookmarks := bup r (bookmarks w)\<rparr>)"
    and script: "\<And>i. i \<le> k \<Longrightarrow>
             get (calls w + i) (tap_stream_id s) ep (config ctx)
                 (offset_params (offset + 500 * int i) start end')
               = Inr (rs i) \<and> status_code (rs i) < 500 \<and> decoded (rs i) = Some (js i) \<and>
                 grp (js i) = Inr (bs i) \<and> py_len (bs i) = Inr (ns i)"
    and full: "\<And>i. i < k \<Longrightarrow> 500 \<le> ns i"
    and short: "ns k < 500"
    and rq: "rq = (\<lambda>i. Request (tap_stream_id s) ep (offset_params (offset + 500 * int i) start end'))"
  shows "m \<le> k \<Longrightarrow>
         get_using_offset_loop (Suc (k - m) + fuel) get grp ctx s start end' ep body
           (offset + 500 * int m) (after_batches rq bev bup bs m w) =
         Some (Inr (), after_batches rq bev bup bs (Suc k) w)"
proof (induction "k - m" arbitrary: m)
  case 0
  then have m: "m = k" by simp
  let ?w = "after_batches rq bev bup bs k w"
  have g: "get (calls ?w) (tap_stream_id s) ep (config ctx)
             (offset_params (offset + 500 * int k) start end') = Inr (rs k)"
    and st: "status_code (rs k) < 500"
    using script [of k] by (simp_all add: calls_after_batches)
  have rest: "decoded (rs k) = Some (js k)" "grp (js k) = Inr (bs k)" "py_len (bs k) = Inr (ns k)"
    using script [of k] by simp_all
  show ?case
    unfolding m
    using retry_get_ok [of get ?w "tap_stream_id s" ep "config ctx"
            "offset_params (offset + 500 * int k) start end'" "rs k", OF g st] rest short
    by (simp add: offset_params_def [symmetric] Let_def response_json_def body
          after_batches_Suc requested_def rq)
next
  case (Suc d)
  then have mk: "m < k" and d: "d = k - Suc m" by simp_all
  let ?w = "after_batches rq bev bup bs m w"
  have g: "get (calls ?w) (tap_stream_id s) ep (config ctx)
             (offset_params (offset + 500 * int m) start end') = Inr (rs m)"
    and st: "status_code (rs m) < 500"
    using script [of m] mk by (simp_all add: calls_after_batches)
  have rest: "decoded (rs m) = Some (js m)" "grp (js m) = Inr (bs m)" "py_len (bs m) = Inr (ns m)"
    using script [of m] mk by simp_all
  have fm: "500 \<le> ns m" using full mk by simp
  have fuel: "Suc (k - m) + fuel = Suc (Suc (k - Suc m) + fuel)" using mk by simp
  have next_offset: "offset + 500 * int m + 500 = offset + 500 * int (Suc m)" by simp
  have IH: "get_using_offset_loop (Suc (k - Suc m) + fuel) get grp ctx s start end' ep body
              (offset + 500 * int (Suc m)) (after_batches rq bev bup bs (Suc m) w) =
            Some (Inr (), after_batches rq bev bup bs (Suc k) w)"
    using Suc.hyps(1) [of "Suc m"] d mk by simp
  show ?case
    unfolding fuel
    using retry_get_ok [of get ?w "tap_stream_id s" ep "config ctx"
            "offset_params (offset + 500 * int m) start end'" "rs m", OF g st] rest fm IH
    by (simp add: offset_params_def [symmetric] Let_def response_json_def body
          after_batches_Suc requested_def rq next_offset del: of_nat_Suc)
qed


lemma offset_still_running:
  assumes body: "\<And>r w. body r w =
                   (Inr (), w\<lparr>trace := trace w @ bev r, bookmarks := bup r (bookmarks w)\<rparr>)"
    and script: "\<And>i. i \<le> k \<Longrightarrow>
             get (calls w + i) (tap_stream_id s) ep (config ctx)
                 (offset_params (offset + 500 * int i) start end')
               = Inr (rs i) \<and> status_code (rs i) < 500 \<and> decoded (rs i) = Some (js i) \<and>
                 grp (js i) = Inr (bs i) \<and> py_len (bs i) = Inr (ns i)"
    and full: "\<And>i. i < k \<Longrightarrow> 500 \<le> ns i"
    and rq: "rq = (\<lambda>i. Request (tap_stream_id s) ep (offset_params (offset + 500 * int i) start end'))"
  shows "m + n \<le> k \<Longrightarrow>
         get_using_offset_loop n get grp ctx s start end' ep body
           (offset + 500 * int m) (after_batches rq bev bup bs m w) = None"
proof (induction n arbitrary: m)
  case 0
  show ?case by simp
next
  case (Suc n)
  then have mk: "m < k" by simp
  let ?w = "after_batches rq bev bup bs m w"
  have g: "get (calls ?w) (tap_stream_id s) ep (config ctx)
             (offset_params (offset + 500 * int m) start end') = Inr (rs m)"
    and st: "status_code (rs m) < 500"
    using script [of m] mk by (simp_all add: calls_after_batches)
  have rest: "decoded (rs m) = Some (js m)" "grp (js m) = Inr (bs m)" "py_len (bs m) = Inr (ns m)"
    using script [of m] mk by simp_all
  have fm: "500 \<le> ns m" using full mk by simp
  have next_offset: "offset + 500 * int m + 500 = offset + 500 * int (Suc m)" by simp
  have IH: "get_using_offset_loop n get grp ctx s start end' ep body
              (offset + 500 * int (Suc m)) (after_batches rq bev bup bs (Suc m) w) = None"
    using Suc.IH [of "Suc m"] Suc.prems by simp
  have bd: "body (bs m) (requested (tap_stream_id s) ep
                (offset_params (offset + 500 * int m) start end') ?w) =
            (Inr (), after_batches rq bev bup bs (Suc m) w)"
    by (simp add: body after_batches_Suc requested_def rq Let_def)
  show ?case
    using retry_get_ok [of get ?w "tap_stream_id s" ep "config ctx"
            "offset_params (offset + 500 * int m) start end'" "rs m", OF g st] rest fm IH bd
    by (simp add: offset_params_def [symmetric] Let_def response_json_def next_offset
          del: of_nat_Suc)
qed

lemma members_run_from:
  assumes body: "\<And>r w. body r w =
                   (Inr (), w\<lparr>trace := trace w @ bev r, bookmarks := bup r (bookmarks w)\<rparr>)"
    and script: "\<And>i. i \<le> k \<Longrightarrow>
             get (calls w + i) (tap_stream_id s) ep (config ctx)
                 (members_params (offset + 250000 * int i))
               = Inr (rs i) \<and> status_code (rs i) < 500 \<and> decoded (rs i) = Some (js i) \<and>
                 py_len (js i) = Inr (ns i)"
    and full: "\<And>i. i < k \<Longrightarrow> ns i \<noteq> 0"
    and short: "ns k = 0"
    and rq: "rq = (\<lambda>i. Request (tap_stream_id s) ep (members_params (offset + 250000 * int i)))"
  shows "m \<le> k \<Longrightarrow>
         get_members_limits_loop (Suc (k - m) + fuel) get ctx s ep body
           (offset + 250000 * int m) (after_batches rq bev bup js m w) =
         Some (Inr (), after_batches rq bev bup js (Suc k) w)"
proof (induction "k - m" arbitrary: m)
  case 0
  then have m: "m = k" by simp
  let ?w = "after_batches rq bev bup js k w"
  have g: "get (calls ?w) (tap_stream_id s) ep (config ctx)
             (members_params (offset + 250000 * int k)) = Inr (rs k)"
    and st: "status_code (rs k) < 500"
    using script [of k] by (simp_all add: calls_after_batches)
  have rest: "decoded (rs k) = Some (js k)" "py_len (js k) = Inr (ns k)"
    using script [of k] by simp_all
  show ?case
    unfolding m
    using retry_get_ok [of get ?w "tap_stream_id s" ep "config ctx"
            "members_params (offset + 250000 * int k)" "rs k", OF g st] rest short
    by (simp add: members_params_def [symmetric] Let_def body after_batches_Suc requested_def rq)
next
  case (Suc d)
  then have mk: "m < k" and d: "d = k - Suc m" by simp_all
  let ?w = "after_batches rq bev bup js m w"
  have g: "get (calls ?w) (tap_stream_id s) ep (config ctx)
             (members_params (offset + 250000 * int m)) = Inr (rs m)"
    and st: "status_code (rs m) < 500"
    using script [of m] mk by (simp_all add: calls_after_batches)
  have rest: "decoded (rs m) = Some (js m)" "py_len (js m) = Inr (ns m)"
    using script [of m] mk by simp_all
  have fm: "ns m \<noteq> 0" using full mk by simp
  have fuel: "Suc (k - m) + fuel = Suc (Suc (k - Suc m) + fuel)" using mk by simp
  have next_offset: "offset + 250000 * int m + 250000 = offset + 250000 * int (Suc m)" by simp
  have IH: "get_members_limits_loop (Suc (k - Suc m) + fuel) get ctx s ep body
              (offset + 250000 * int (Suc m)) (after_batches rq bev bup js (Suc m) w) =
            Some (Inr (), after_batches rq bev bup js (Suc k) w)"
    using Suc.hyps(1) [of "Suc m"] d mk by simp
  show ?case
    unfolding fuel
    using retry_get_ok [of get ?w "tap_stream_id s" ep "config ctx"
            "members_params (offset + 250000 * int m)" "rs m", OF g st] rest fm IH
    by (simp add: members_params_def [symmetric] Let_def body after_batches_Suc requested_def rq
          next_offset del: of_nat_Suc)
qed

lemma members_still_running:
  assumes body: "\<And>r w. body r w =
                   (Inr (), w\<lparr>trace := trace w @ bev r, bookmarks := bup r (bookmarks w)\<rparr>)"
    and script: "\<And>i. i \<le> k \<Longrightarrow>
             get (calls w + i) (tap_stream_id s) ep (config ctx)
                 (members_params (offset + 250000 * int i))
               = Inr (rs i) \<and> status_code (rs i) < 500 \<and> decoded (rs i) = Some (js i) \<and>
                 py_len (js i) = Inr (ns i)"
    and full: "\<And>i. i < k \<Longrightarrow> ns i \<noteq> 0"
    and rq: "rq = (\<lambda>i. Request (tap_stream_id s) ep (members_params (offset + 250000 * int i)))"
  shows "m + n \<le> k \<Longrightarrow>
         get_members_limits_loop n get ctx s ep body
           (offset + 250000 * int m) (after_batches rq bev bup js m w) = None"
proof (induction n arbitrary: m)
  case 0
  show ?case by simp
next
  case (Suc n)
  then have mk: "m < k" by simp
  let ?w = "after_batches rq bev bup js m w"
  have g: "get (calls ?w) (tap_stream_id s) ep (config ctx)
             (members_params (offset + 250000 * int m)) = Inr (rs m)"
    and st: "status_code (rs m) < 500"
    using script [of m] mk by (simp_all add: calls_after_batches)
  have rest: "decoded (rs m) = Some (js m)" "py_len (js m) = Inr (ns m)"
    using script [of m] mk by simp_all
  have fm: "ns m \<noteq> 0" using full mk by simp
  have next_offset: "offset + 250000 * int m + 250000 = offset + 250000 * int (Suc m)" by simp
  have IH: "get_members_limits_loop n get ctx s ep body
              (offset + 250000 * int (Suc m)) (after_batches rq bev bup js (Suc m) w) = None"
    using Suc.IH [of "Suc m"] Suc.prems by simp
  have bd: "body (js m) (requested (tap_stream_id s) ep
                (members_params (offset + 250000 * int m)) ?w) =
            (Inr (), after_batches rq bev bup js (Suc m) w)"
    by (simp add: body after_batches_Suc requested_def rq Let_def)
  show ?case
    using retry_get_ok [of get ?w "tap_stream_id s" ep "config ctx"
            "members_params (offset + 250000 * int m)" "rs m", OF g st] rest fm IH bd
    by (simp add: members_params_def [symmetric] Let_def next_offset del: of_nat_Suc)
qed

text \<open>
  C8. Take a transport that answers every fetch at the first attempt with a decodable
  body, and a loop body that succeeds on every batch, and run \<^verbatim>\<open>get_using_offset\<close> and
  \<^verbatim>\<open>get_members_limits\<close> on the endpoint of the stream. If the batches extracted from the
  first \<open>k\<close> answers have at least 500 elements and the next one has fewer, the
  offset-window strategy has not stopped after any \<open>n \<le> k\<close> fetches, and it stops after
  exactly \<open>k + 1\<close> of them, which were made with the offsets \<open>0, 500, ..., 500 * k\<close>.
  If the first \<open>k'\<close> decoded batches are not empty and the next one is, the bulk-offset
  strategy has not stopped after any \<open>n \<le> k'\<close> fetches and stops after exactly \<open>k' + 1\<close>
  of them, made with the offsets \<open>0, 250000, ..., 250000 * k'\<close>. So each strategy goes on,
  its offset advanced by exactly the limit, after a full (non-empty) batch, and stops
  after the first short (empty) one.
\<close>

theorem cursor_stop_conditions:
  assumes body: "\<And>r w. body r w =
                   (Inr (), w\<lparr>trace := trace w @ bev r, bookmarks := bup r (bookmarks w)\<rparr>)"
    and off: "\<And>i. i \<le> k \<Longrightarrow>
             get (calls w + i) (tap_stream_id s) (endpoint_of s url_key) (config ctx)
                 (offset_params (500 * int i) start end')
               = Inr (rs i) \<and> status_code (rs i) < 500 \<and> decoded (rs i) = Some (js i) \<and>
                 get_results_from_payload (js i) = Inr (bs i) \<and> py_len (bs i) = Inr (ns i)"
    and off_full: "\<And>i. i < k \<Longrightarrow> 500 \<le> ns i"
    and off_short: "ns k < 500"
    and lim: "\<And>i. i \<le> k' \<Longrightarrow>
             get' (calls w + i) (tap_stream_id s) (endpoint_of s url_key) (config ctx)
                 (members_params (250000 * int i))
               = Inr (rs' i) \<and> status_code (rs' i) < 500 \<and> decoded (rs' i) = Some (js' i) \<and>
                 py_len (js' i) = Inr (ns' i)"
    and lim_full: "\<And>i. i < k' \<Longrightarrow> ns' i \<noteq> 0"
    and lim_empty: "ns' k' = 0"
  shows "(\<forall>n \<le> k. get_using_offset n get get_results_from_payload ctx s start end' url_key
                     body w = None) \<and>
         get_using_offset (Suc k + fuel) get get_results_from_payload ctx s start end'
             url_key body w =
           Some (Inr (),
                 after_batches
                   (\<lambda>i. Request (tap_stream_id s) (endpoint_of s url_key) (offset_params (500 * int i) start end'))
                   bev bup bs (Suc k) w) \<and>
         (\<forall>n \<le> k'. get_members_limits n get' ctx s url_key body w = None) \<and>
         get_members_limits (Suc k' + fuel) get' ctx s url_key body w =
           Some (Inr (),
                 after_batches
                   (\<lambda>i. Request (tap_stream_id s) (endpoint_of s url_key) (members_params (250000 * int i)))
                   bev bup js' (Suc k') w)"
proof -
  let ?rq = "\<lambda>i. Request (tap_stream_id s) (endpoint_of s url_key) (offset_params (500 * int i) start end')"
  let ?rq' = "\<lambda>i. Request (tap_stream_id s) (endpoint_of s url_key) (members_params (250000 * int i))"
  have A: "get_using_offset_loop n get get_results_from_payload ctx s start end' (endpoint_of s url_key) body 0 w
             = None" if "n \<le> k" for n
    using offset_still_running
      [where body = body and bev = bev and bup = bup and k = k and get = get and w = w
         and s = s and ep = "endpoint_of s url_key" and ctx = ctx and offset = 0 and start = start and end' = end'
         and rs = rs and js = js and grp = get_results_from_payload and bs = bs and ns = ns
         and rq = ?rq and m = 0 and n = n]
      body off off_full that
    by (simp add: after_batches_0)
  have B: "get_using_offset_loop (Suc k + fuel) get get_results_from_payload ctx s start end'
             (endpoint_of s url_key) body 0 w = Some (Inr (), after_batches ?rq bev bup bs (Suc k) w)"
    using offset_run_from
      [where body = body and bev = bev and bup = bup and k = k and get = get and w = w
         and s = s and ep = "endpoint_of s url_key" and ctx = ctx and offset = 0 and start = start and end' = end'
         and rs = rs and js = js and grp = get_results_from_payload and bs = bs and ns = ns
         and rq = ?rq and m = 0 and fuel = fuel]
      body off off_full off_short
    by (simp add: after_batches_0)
  have C: "get_members_limits_loop n get' ctx s (endpoint_of s url_key) body 0 w = None" if "n \<le> k'" for n
    using members_still_running
      [where body = body and bev = bev and bup = bup and k = k' and get = get' and w = w
         and s = s and ep = "endpoint_of s url_key" and ctx = ctx and offset = 0
         and rs = rs' and js = js' and ns = ns' and rq = ?rq' and m = 0 and n = n]
      body lim lim_full that
    by (simp add: after_batches_0)
  have D: "get_members_limits_loop (Suc k' + fuel) get' ctx s (endpoint_of s url_key) body 0 w =
             Some (Inr (), after_batches ?rq' bev bup js' (Suc k') w)"
    using members_run_from
      [where body = body and bev = bev and bup = bup and k = k' and get = get' and w = w
         and s = s and ep = "endpoint_of s url_key" and ctx = ctx and offset = 0
         and rs = rs' and js = js' and ns = ns' and rq = ?rq' and m = 0 and fuel = fuel]
      body lim lim_full lim_empty
    by (simp add: after_batches_0)
  from A B C D show ?thesis
    unfolding get_using_offset_def get_members_limits_def by blast
qed

theorem cursor_stop_conditions_witness:
  "get_using_offset 1
     (\<lambda>n t u c p. Inr \<lparr>status_code = 200, content = [],
                          decoded = Some (JList (replicate (if n = 0 then 500 else 10) JNull))\<rparr>)
     Inr \<lparr>config = [''api_key'' \<mapsto> ''k''], now = 200, start_date = 100, tz_offset = 0\<rparr>
     \<lparr>tap_stream_id = ''bounces'', endpoint = ''https://api.sendgrid.com/v3/suppression/bounces'',
      bookmark = Some (''bounces'', ''end_time'')\<rparr>
     100 200 None
     (\<lambda>r w. (Inr (), w\<lparr>trace := trace w @ [WriteRecords ''bounces'' ''schema'' r None],
                          bookmarks := bookmarks w\<rparr>))
     \<lparr>calls = 0, trace = [], bookmarks = Map.empty\<rparr> = None \<and>
   get_using_offset 2
     (\<lambda>n t u c p. Inr \<lparr>status_code = 200, content = [],
                          decoded = Some (JList (replicate (if n = 0 then 500 else 10) JNull))\<rparr>)
     Inr \<lparr>config = [''api_key'' \<mapsto> ''k''], now = 200, start_date = 100, tz_offset = 0\<rparr>
     \<lparr>tap_stream_id = ''bounces'', endpoint = ''https://api.sendgrid.com/v3/suppression/bounces'',
      bookmark = Some (''bounces'', ''end_time'')\<rparr>
     100 200 None
     (\<lambda>r w. (Inr (), w\<lparr>trace := trace w @ [WriteRecords ''bounces'' ''schema'' r None],
                          bookmarks := bookmarks w\<rparr>))
     \<lparr>calls = 0, trace = [], bookmarks = Map.empty\<rparr> =
   Some (Inr (),
         \<lparr>calls = 2,
          trace = [Request ''bounces'' ''https://api.sendgrid.com/v3/suppression/bounces''
                     (Some [(''offset'', 0), (''limit'', 500), (''start_time'', 100),
                            (''end_time'', 200)]),
                   WriteRecords ''bounces'' ''schema'' (JList (replicate 500 JNull)) None,
                   Request ''bounces'' ''https://api.sendgrid.com/v3/suppression/bounces''
                     (Some [(''offset'', 500), (''limit'', 500), (''start_time'', 100),
                            (''end_time'', 200)]),
                   WriteRecords ''bounces'' ''schema'' (JList (replicate 10 JNull)) None],
          bookmarks = Map.empty\<rparr>) \<and>
   get_members_limits 1
     (\<lambda>n t u c p. Inr \<lparr>status_code = 200, content = [],
                          decoded = Some (JList (replicate (if n = 0 then 3 else 0) JNull))\<rparr>)
     \<lparr>config = [''api_key'' \<mapsto> ''k''], now = 200, start_date = 100, tz_offset = 0\<rparr>
     \<lparr>tap_stream_id = ''bounces'', endpoint = ''https://api.sendgrid.com/v3/suppression/bounces'',
      bookmark = Some (''bounces'', ''end_time'')\<rparr>
     None
     (\<lambda>r w. (Inr (), w\<lparr>trace := trace w @ [WriteRecords ''bounces'' ''schema'' r None],
                          bookmarks := bookmarks w\<rparr>))
     \<lparr>calls = 0, trace = [], bookmarks = Map.empty\<rparr> = None \<and>
   get_members_limits 2
     (\<lambda>n t u c p. Inr \<lparr>status_code = 200, content = [],
                          decoded = Some (JList (replicate (if n = 0 then 3 else 0) JNull))\<rparr>)
     \<lparr>config = [''api_key'' \<mapsto> ''k''], now = 200, start_date = 100, tz_offset = 0\<rparr>
     \<lparr>tap_stream_id = ''bounces'', endpoint = ''https://api.sendgrid.com/v3/suppression/bounces'',
      bookmark = Some (''bounces'', ''end_time'')\<rparr>
     None
     (\<lambda>r w. (Inr (), w\<lparr>trace := trace w @ [WriteRecords ''bounces'' ''schema'' r None],
                          bookmarks := bookmarks w\<rparr>))
     \<lparr>calls = 0, trace = [], bookmarks = Map.empty\<rparr> =
   Some (Inr (),
         \<lparr>calls = 2,
          trace = [Request ''bounces'' ''https://api.sendgrid.com/v3/suppression/bounces''
                     (Some [(''offset'', 0), (''limit'', 250000)]),
                   WriteRecords ''bounces'' ''schema'' (JList (replicate 3 JNull)) None,
                   Request ''bounces'' ''https://api.sendgrid.com/v3/suppression/bounces''
                     (Some [(''offset'', 250000), (''limit'', 250000)]),
                   WriteRecords ''bounces'' ''schema'' (JList (replicate 0 JNull)) None],
          bookmarks = Map.empty\<rparr>)"
proof -
  note th = cursor_stop_conditions
    [where body = "\<lambda>r w. (Inr (), w\<lparr>trace := trace w @ [WriteRecords ''bounces'' ''schema'' r None],
                                     bookmarks := bookmarks w\<rparr>)"
       and bev = "\<lambda>r. [WriteRecords ''bounces'' ''schema'' r None]"
       and bup = "\<lambda>r m. m"
       and k = 1 and k' = 1 and fuel = 0
       and get = "\<lambda>n t u c p. Inr \<lparr>status_code = 200, content = [],
                     decoded = Some (JList (replicate (if n = 0 then 500 else 10) JNull))\<rparr>"
       and get' = "\<lambda>n t u c p. Inr \<lparr>status_code = 200, content = [],
                     decoded = Some (JList (replicate (if n = 0 then 3 else 0) JNull))\<rparr>"
       and w = "\<lparr>calls = 0, trace = [], bookmarks = Map.empty\<rparr>"
       and ctx = "\<lparr>config = [''api_key'' \<mapsto> ''k''], now = 200, start_date = 100, tz_offset = 0\<rparr>"
       and s = "\<lparr>tap_stream_id = ''bounces'',
                 endpoint = ''https://api.sendgrid.com/v3/suppression/bounces'',
                 bookmark = Some (''bounces'', ''end_time'')\<rparr>"
       and url_key = None
       and start = 100 and end' = 200
       and get_results_from_payload = Inr
       and rs = "\<lambda>i. \<lparr>status_code = 200, content = [],
                     decoded = Some (JList (replicate (if i = 0 then 500 else 10) JNull))\<rparr>"
       and js = "\<lambda>i. JList (replicate (if i = 0 then 500 else 10) JNull)"
       and bs = "\<lambda>i. JList (replicate (if i = 0 then 500 else 10) JNull)"
       and ns = "\<lambda>i. if i = 0 then 500 else 10"
       and rs' = "\<lambda>i. \<lparr>status_code = 200, content = [],
                     decoded = Some (JList (replicate (if i = 0 then 3 else 0) JNull))\<rparr>"
       and js' = "\<lambda>i. JList (replicate (if i = 0 then 3 else 0) JNull)"
       and ns' = "\<lambda>i. if i = 0 then 3 else 0"]
  have "[0..<Suc 1] = [0, 1]" by (simp add: upt_rec)
  with th show ?thesis
    by (simp add: after_batches_def offset_params_def members_params_def numeral_2_eq_2
          endpoint_of_def)
qed

section \<open>Properties of the incremental strategies\<close>

subsection \<open>The bookmark of \<^verbatim>\<open>sync_end_time\<close>\<close>

lemma marks_follow_writes_weaken:
  "marks_follow_writes p v False es \<Longrightarrow> marks_follow_writes p v b es"
proof (cases es)
  case Nil
  then show ?thesis by simp
next
  case (Cons e es')
  assume "marks_follow_writes p v False es"
  with Cons show ?thesis by (cases e) simp_all
qed

lemma marks_follow_writes_append:
  "marks_follow_writes p v b xs \<Longrightarrow> marks_follow_writes p v False ys \<Longrightarrow>
   marks_follow_writes p v b (xs @ ys)"
proof (induction xs arbitrary: b)
  case Nil
  then show ?case by (simp add: marks_follow_writes_weaken)
next
  case (Cons e xs)
  then show ?case by (cases e) simp_all
qed

lemma marks_follow_writes_cursor:
  "list_all cursor_event evs \<Longrightarrow> marks_follow_writes p v b evs"
proof (induction evs arbitrary: b)
  case Nil
  show ?case by simp
next
  case (Cons e evs)
  then show ?case by (cases e) simp_all
qed

lemma writes_marked_append:
  "writes_marked p v b xs \<Longrightarrow> writes_marked p v False ys \<Longrightarrow> writes_marked p v b (xs @ ys)"
proof (induction xs arbitrary: b)
  case Nil
  then show ?case by simp
next
  case (Cons e xs)
  then show ?case by (cases e) simp_all
qed

lemma writes_marked_cursor:
  "list_all cursor_event evs \<Longrightarrow> writes_marked p v False evs"
proof (induction evs)
  case Nil
  show ?case by simp
next
  case (Cons e evs)
  then show ?case by (cases e) simp_all
qed

lemma sync_end_time_body_eq:
  "sync_end_time_body ctx s schema end' r w =
     (Inr (), w\<lparr>trace := trace w @ [WriteRecords (tap_stream_id s) schema r None,
                                       SetBookmark (bookmark s) end'],
                bookmarks := (bookmarks w)(bookmark s \<mapsto> end')\<rparr>)"
  by (simp add: sync_end_time_body_def write_records_def set_bookmark_def emit_def ts_to_dt_def)

lemma end_time_loop_marks:
  assumes "get_using_offset_loop fuel get grp ctx s start end' ep
             (sync_end_time_body ctx s schema end') offset w = Some (res, w')"
  shows "\<exists>evs. trace w' = trace w @ evs \<and>
               marks_follow_writes (bookmark s) end' False evs \<and>
               writes_marked (bookmark s) end' False evs \<and>
               (res = Inr () \<longrightarrow> evs \<noteq> [] \<and> last evs = SetBookmark (bookmark s) end')"
  using assms
proof (induction fuel arbitrary: offset w)
  case 0
  then show ?case by simp
next
  case (Suc fuel)
  let ?ps = "Some [(''offset'', offset), (''limit'', 500), (''start_time'', start),
                   (''end_time'', end')]"
  let ?W = "WriteRecords (tap_stream_id s) schema"
  let ?S = "SetBookmark (bookmark s) end'"
  obtain r1 w1 where rg: "retry_get get (tap_stream_id s) ep (config ctx) ?ps w = (r1, w1)"
    by (cases "retry_get get (tap_stream_id s) ep (config ctx) ?ps w")
  from retry_get_effects [OF rg] obtain cevs
    where w1: "trace w1 = trace w @ cevs" and ce: "list_all cursor_event cevs"
    by auto
  have m1: "marks_follow_writes (bookmark s) end' False cevs"
    using ce by (rule marks_follow_writes_cursor)
  have k1: "writes_marked (bookmark s) end' False cevs"
    using ce by (rule writes_marked_cursor)
  have early: ?case if "w' = w1" "res \<noteq> Inr ()"
    using that w1 m1 k1 by auto
  show ?case
  proof (cases r1)
    case (Inl e)
    with Suc.prems rg have "w' = w1" "res = Inl e" by (simp_all add: Let_def)
    then show ?thesis using early by simp
  next
    case (Inr resp)
    show ?thesis
    proof (cases "response_json resp")
      case (Inl e)
      with Suc.prems rg Inr have "w' = w1" "res = Inl e" by (simp_all add: Let_def)
      then show ?thesis using early by simp
    next
      case j: (Inr j)
      show ?thesis
      proof (cases "grp j")
        case (Inl e)
        with Suc.prems rg Inr j have "w' = w1" "res = Inl e" by (simp_all add: Let_def)
        then show ?thesis using early by simp
      next
        case b: (Inr b)
        let ?w2 = "w1\<lparr>trace := trace w1 @ [?W b None, ?S],
                       bookmarks := (bookmarks w1)(bookmark s \<mapsto> end')\<rparr>"
        have bd: "sync_end_time_body ctx s schema end' b w1 = (Inr (), ?w2)"
          by (simp add: sync_end_time_body_eq)
        have t2: "trace ?w2 = trace w @ (cevs @ [?W b None, ?S])"
          by (simp add: w1)
        have m2: "marks_follow_writes (bookmark s) end' False (cevs @ [?W b None, ?S])"
          using m1 by (rule marks_follow_writes_append) simp
        have k2: "writes_marked (bookmark s) end' False (cevs @ [?W b None, ?S])"
          using k1 by (rule writes_marked_append) simp
        show ?thesis
        proof (cases "py_len b")
          case (Inl e)
          with Suc.prems rg Inr j b have "w' = ?w2" "res = Inl e"
            by (simp_all add: Let_def bd)
          then show ?thesis using t2 m2 k2 by auto
        next
          case n: (Inr n)
          show ?thesis
          proof (cases "500 \<le> int n")
            case False
            with Suc.prems rg Inr j b n have "w' = ?w2" "res = Inr ()"
              by (simp_all add: Let_def bd)
            then show ?thesis using t2 m2 k2 by auto
          next
            case True
            with Suc.prems rg Inr j b n
            have "get_using_offset_loop fuel get grp ctx s start end' ep
                    (sync_end_time_body ctx s schema end') (offset + 500) ?w2 = Some (res, w')"
              by (simp add: Let_def bd)
            from Suc.IH [OF this] obtain evs
              where t': "trace w' = trace ?w2 @ evs"
                and m': "marks_follow_writes (bookmark s) end' False evs"
                and k': "writes_marked (bookmark s) end' False evs"
                and l': "res = Inr () \<longrightarrow> evs \<noteq> [] \<and> last evs = ?S"
              by blast
            have "trace w' = trace w @ ((cevs @ [?W b None, ?S]) @ evs)"
              using t' t2 by simp
            moreover have "marks_follow_writes (bookmark s) end' False
                             ((cevs @ [?W b None, ?S]) @ evs)"
              using m2 m' by (rule marks_follow_writes_append)
            moreover have "writes_marked (bookmark s) end' False
                             ((cevs @ [?W b None, ?S]) @ evs)"
              using k2 k' by (rule writes_marked_append)
            moreover have "res = Inr () \<longrightarrow> (cevs @ [?W b None, ?S]) @ evs \<noteq> [] \<and>
                             last ((cevs @ [?W b None, ?S]) @ evs) = ?S"
              using l' by simp
            ultimately show ?thesis by blast
          qed
        qed
      qed
    qed
  qed
qed


lemma sync_end_time_two_batches:
  "sync_end_time 2
     (\<lambda>n t u c p. Inr \<lparr>status_code = 200, content = [],
                          decoded = Some (JList (replicate (if n = 0 then 500 else 10) JNull))\<rparr>)
     Inr \<lparr>config = [''api_key'' \<mapsto> ''k''], now = 200, start_date = 100, tz_offset = 0\<rparr>
     \<lparr>tap_stream_id = ''bounces'', endpoint = ''https://api.sendgrid.com/v3/suppression/bounces'',
      bookmark = Some (''bounces'', ''end_time'')\<rparr>
     ''schema''
     \<lparr>calls = 0, trace = [], bookmarks = [Some (''bounces'', ''end_time'') \<mapsto> 100]\<rparr> =
   Some (Inr (),
         \<lparr>calls = 2,
          trace = [LogStarting ''bounces'' 100 200,
                   Request ''bounces'' ''https://api.sendgrid.com/v3/suppression/bounces''
                     (Some [(''offset'', 0), (''limit'', 500), (''start_time'', 100),
                            (''end_time'', 200)]),
                   WriteRecords ''bounces'' ''schema'' (JList (replicate 500 JNull)) None,
                   SetBookmark (Some (''bounces'', ''end_time'')) 200,
                   Request ''bounces'' ''https://api.sendgrid.com/v3/suppression/bounces''
                     (Some [(''offset'', 500), (''limit'', 500), (''start_time'', 100),
                            (''end_time'', 200)]),
                   WriteRecords ''bounces'' ''schema'' (JList (replicate 10 JNull)) None,
                   SetBookmark (Some (''bounces'', ''end_time'')) 200],
          bookmarks = [Some (''bounces'', ''end_time'') \<mapsto> 200]\<rparr>)"
  by (simp add: sync_end_time_def get_using_offset_def update_start_date_bookmark_def
        now_seconds_def endpoint_of_def Let_def numeral_2_eq_2 retry_get_unfold requested_def
        emit_def response_json_def sync_end_time_body_eq)

text \<open>
  C2, as stated, fails: \<^verbatim>\<open>set_bookmark\<close> is inside the \<^verbatim>\<open>for\<close> loop of
  \<^verbatim>\<open>sync_end_time\<close>, so the bookmark is written after every batch. With a window of
  a batch of 500 records and a batch of 10, the bookmark is set to \<open>end\<close> after the first
  batch, and the request for offset 500 comes after that write.
\<close>

theorem sync_end_time_bookmark_counterexample:
  "sync_end_time 2
     (\<lambda>n t u c p. Inr \<lparr>status_code = 200, content = [],
                          decoded = Some (JList (replicate (if n = 0 then 500 else 10) JNull))\<rparr>)
     Inr \<lparr>config = [''api_key'' \<mapsto> ''k''], now = 200, start_date = 100, tz_offset = 0\<rparr>
     \<lparr>tap_stream_id = ''bounces'', endpoint = ''https://api.sendgrid.com/v3/suppression/bounces'',
      bookmark = Some (''bounces'', ''end_time'')\<rparr>
     ''schema''
     \<lparr>calls = 0, trace = [], bookmarks = [Some (''bounces'', ''end_time'') \<mapsto> 100]\<rparr> =
   Some (Inr (),
         \<lparr>calls = 2,
          trace = [LogStarting ''bounces'' 100 200,
                   Request ''bounces'' ''https://api.sendgrid.com/v3/suppression/bounces''
                     (Some [(''offset'', 0), (''limit'', 500), (''start_time'', 100),
                            (''end_time'', 200)]),
                   WriteRecords ''bounces'' ''schema'' (JList (replicate 500 JNull)) None,
                   SetBookmark (Some (''bounces'', ''end_time'')) 200,
                   Request ''bounces'' ''https://api.sendgrid.com/v3/suppression/bounces''
                     (Some [(''offset'', 500), (''limit'', 500), (''start_time'', 100),
                            (''end_time'', 200)]),
                   WriteRecords ''bounces'' ''schema'' (JList (replicate 10 JNull)) None,
                   SetBookmark (Some (''bounces'', ''end_time'')) 200],
          bookmarks = [Some (''bounces'', ''end_time'') \<mapsto> 200]\<rparr>) \<and>
   bookmark_before_request
     [LogStarting ''bounces'' 100 200,
      Request ''bounces'' ''https://api.sendgrid.com/v3/suppression/bounces''
        (Some [(''offset'', 0), (''limit'', 500), (''start_time'', 100), (''end_time'', 200)]),
      WriteRecords ''bounces'' ''schema'' (JList (replicate 500 JNull)) None,
      SetBookmark (Some (''bounces'', ''end_time'')) 200,
      Request ''bounces'' ''https://api.sendgrid.com/v3/suppression/bounces''
        (Some [(''offset'', 500), (''limit'', 500), (''start_time'', 100), (''end_time'', 200)]),
      WriteRecords ''bounces'' ''schema'' (JList (replicate 10 JNull)) None,
      SetBookmark (Some (''bounces'', ''end_time'')) 200]"
  using sync_end_time_two_batches by simp

text \<open>
  C2, amended. In every execution of \<^verbatim>\<open>sync_end_time\<close>, whatever the transport
  answers and however the execution ends, the records of a batch are never written
  without the bookmark being written right after them, and the bookmark is never written
  otherwise: every \<open>WriteRecords\<close> event is immediately followed by the write of \<open>end\<close>
  to the stream's bookmark, and these are all the bookmark writes; in an execution that
  completes, the last event is the bookmark write that follows the last batch. And when
  the window is answered at the first attempt by \<open>k\<close> batches of at least 500 records and
  then a shorter one, the execution is exactly: the start log line, then for each of the
  \<open>k + 1\<close> batches in turn the request at offset \<open>500 * i\<close>, the write of its records and
  the write of the bookmark. So the bookmark is first written as soon as the first batch
  is written, before the cursor is exhausted when the window has more batches.
\<close>

theorem sync_end_time_bookmark_after_each_batch:
  assumes run: "sync_end_time fuel get get_results_from_payload ctx s schema w = Some (res, w')"
    and start: "start = update_start_date_bookmark ctx (bookmark s) w"
    and script: "\<And>i. i \<le> k \<Longrightarrow>
             get' (calls w + i) (tap_stream_id s) (endpoint_of s None) (config ctx)
                 (offset_params (500 * int i) start (now ctx))
               = Inr (rs i) \<and> status_code (rs i) < 500 \<and> decoded (rs i) = Some (js i) \<and>
                 get_results_from_payload (js i) = Inr (bs i) \<and> py_len (bs i) = Inr (ns i)"
    and full: "\<And>i. i < k \<Longrightarrow> 500 \<le> ns i"
    and short: "ns k < 500"
  shows "trace w' = trace w @ new_events w w' \<and>
         writes_marked (bookmark s) (now ctx) False (new_events w w') \<and>
         (res = Inr () \<longrightarrow> last (new_events w w') = SetBookmark (bookmark s) (now ctx)) \<and>
         sync_end_time (Suc k + fuel') get' get_results_from_payload ctx s schema w =
           Some (Inr (),
                 after_batches
                   (\<lambda>i. Request (tap_stream_id s) (endpoint_of s None)
                          (offset_params (500 * int i) start (now ctx)))
                   (\<lambda>r. [WriteRecords (tap_stream_id s) schema r None,
                          SetBookmark (bookmark s) (now ctx)])
                   (\<lambda>r m. m(bookmark s \<mapsto> now ctx))
                   bs (Suc k)
                   (emit [LogStarting (tap_stream_id s) start (now ctx)] w))"
proof -
  let ?w0 = "emit [LogStarting (tap_stream_id s) start (now ctx)] w"
  let ?rq = "\<lambda>i. Request (tap_stream_id s) (endpoint_of s None)
                   (offset_params (500 * int i) start (now ctx))"
  let ?bev = "\<lambda>r. [WriteRecords (tap_stream_id s) schema r None,
                    SetBookmark (bookmark s) (now ctx)]"
  let ?bup = "\<lambda>(r::json) (m::path \<rightharpoonup> int). m(bookmark s \<mapsto> now ctx)"
  from run have "get_using_offset_loop fuel get get_results_from_payload ctx s start (now ctx)
      (endpoint_of s None) (sync_end_time_body ctx s schema (now ctx)) 0 ?w0 = Some (res, w')"
    by (simp add: sync_end_time_def get_using_offset_def now_seconds_def Let_def start)
  from end_time_loop_marks [OF this] obtain evs
    where t: "trace w' = trace ?w0 @ evs"
      and m: "writes_marked (bookmark s) (now ctx) False evs"
      and l: "res = Inr () \<longrightarrow> evs \<noteq> [] \<and> last evs = SetBookmark (bookmark s) (now ctx)"
    by blast
  have t': "trace w' = trace w @ (LogStarting (tap_stream_id s) start (now ctx) # evs)"
    using t by (simp add: emit_def)
  then have new: "new_events w w' = LogStarting (tap_stream_id s) start (now ctx) # evs"
    by (rule new_events_append)
  have A: "trace w' = trace w @ new_events w w'"
    and B: "writes_marked (bookmark s) (now ctx) False (new_events w w')"
    and C: "res = Inr () \<longrightarrow> last (new_events w w') = SetBookmark (bookmark s) (now ctx)"
    using t' m l by (simp_all add: new)
  have script0: "get' (calls ?w0 + i) (tap_stream_id s) (endpoint_of s None) (config ctx)
                     (offset_params (0 + 500 * int i) start (now ctx))
                   = Inr (rs i) \<and> status_code (rs i) < 500 \<and> decoded (rs i) = Some (js i) \<and>
                     get_results_from_payload (js i) = Inr (bs i) \<and> py_len (bs i) = Inr (ns i)"
    if "i \<le> k" for i
    using script [OF that] by (simp add: emit_def)
  have bd: "sync_end_time_body ctx s schema (now ctx) r v =
              (Inr (), v\<lparr>trace := trace v @ ?bev r, bookmarks := ?bup r (bookmarks v)\<rparr>)"
    for r v
    by (simp add: sync_end_time_body_eq)
  have "get_using_offset_loop (Suc (k - 0) + fuel') get' get_results_from_payload ctx s start
          (now ctx) (endpoint_of s None) (sync_end_time_body ctx s schema (now ctx))
          (0 + 500 * int 0) (after_batches ?rq ?bev ?bup bs 0 ?w0) =
        Some (Inr (), after_batches ?rq ?bev ?bup bs (Suc k) ?w0)"
  proof (rule offset_run_from
      [where body = "sync_end_time_body ctx s schema (now ctx)" and bev = ?bev and bup = ?bup
         and k = k and get = get' and w = ?w0 and s = s and ep = "endpoint_of s None"
         and ctx = ctx and offset = 0 and start = start and end' = "now ctx"
         and rs = rs and js = js and grp = get_results_from_payload and bs = bs and ns = ns
         and rq = ?rq and m = 0 and fuel = fuel'])
    show "sync_end_time_body ctx s schema (now ctx) r v =
            (Inr (), v\<lparr>trace := trace v @ ?bev r, bookmarks := ?bup r (bookmarks v)\<rparr>)"
      for r v
      by (rule bd)
    show "get' (calls ?w0 + i) (tap_stream_id s) (endpoint_of s None) (config ctx)
              (offset_params (0 + 500 * int i) start (now ctx))
            = Inr (rs i) \<and> status_code (rs i) < 500 \<and> decoded (rs i) = Some (js i) \<and>
              get_results_from_payload (js i) = Inr (bs i) \<and> py_len (bs i) = Inr (ns i)"
      if "i \<le> k" for i
      using that by (rule script0)
    show "500 \<le> ns i" if "i < k" for i
      using that by (rule full)
    show "ns k < 500" by (rule short)
    show "?rq = (\<lambda>i. Request (tap_stream_id s) (endpoint_of s None)
                       (offset_params (0 + 500 * int i) start (now ctx)))"
      by simp
    show "0 \<le> k" by simp
  qed
  then have D: "sync_end_time (Suc k + fuel') get' get_results_from_payload ctx s schema w =
                  Some (Inr (), after_batches ?rq ?bev ?bup bs (Suc k) ?w0)"
    by (simp add: sync_end_time_def get_using_offset_def now_seconds_def Let_def start
          after_batches_0 del: get_using_offset_loop.simps)
  from A B C D show ?thesis by blast
qed

theorem sync_end_time_bookmark_after_each_batch_witness:
  "writes_marked (Some (''bounces'', ''end_time'')) 200 False
     [LogStarting ''bounces'' 100 200,
      Request ''bounces'' ''https://api.sendgrid.com/v3/suppression/bounces''
        (Some [(''offset'', 0), (''limit'', 500), (''start_time'', 100), (''end_time'', 200)]),
      WriteRecords ''bounces'' ''schema'' (JList (replicate 500 JNull)) None,
      SetBookmark (Some (''bounces'', ''end_time'')) 200,
      Request ''bounces'' ''https://api.sendgrid.com/v3/suppression/bounces''
        (Some [(''offset'', 500), (''limit'', 500), (''start_time'', 100), (''end_time'', 200)]),
      WriteRecords ''bounces'' ''schema'' (JList (replicate 10 JNull)) None,
      SetBookmark (Some (''bounces'', ''end_time'')) 200] \<and>
   last
     [LogStarting ''bounces'' 100 200,
      Request ''bounces'' ''https://api.sendgrid.com/v3/suppression/bounces''
        (Some [(''offset'', 0), (''limit'', 500), (''start_time'', 100), (''end_time'', 200)]),
      WriteRecords ''bounces'' ''schema'' (JList (replicate 500 JNull)) None,
      SetBookmark (Some (''bounces'', ''end_time'')) 200,
      Request ''bounces'' ''https://api.sendgrid.com/v3/suppression/bounces''
        (Some [(''offset'', 500), (''limit'', 500), (''start_time'', 100), (''end_time'', 200)]),
      WriteRecords ''bounces'' ''schema'' (JList (replicate 10 JNull)) None,
      SetBookmark (Some (''bounces'', ''end_time'')) 200]
   = SetBookmark (Some (''bounces'', ''end_time'')) 200 \<and>
   sync_end_time 2
     (\<lambda>n t u c p. Inr \<lparr>status_code = 200, content = [],
                          decoded = Some (JList (replicate (if n = 0 then 500 else 10) JNull))\<rparr>)
     Inr \<lparr>config = [''api_key'' \<mapsto> ''k''], now = 200, start_date = 100, tz_offset = 0\<rparr>
     \<lparr>tap_stream_id = ''bounces'', endpoint = ''https://api.sendgrid.com/v3/suppression/bounces'',
      bookmark = Some (''bounces'', ''end_time'')\<rparr>
     ''schema''
     \<lparr>calls = 0, trace = [], bookmarks = [Some (''bounces'', ''end_time'') \<mapsto> 100]\<rparr> =
   Some (Inr (),
         \<lparr>calls = 2,
          trace = [LogStarting ''bounces'' 100 200,
      Request ''bounces'' ''https://api.sendgrid.com/v3/suppression/bounces''
        (Some [(''offset'', 0), (''limit'', 500), (''start_time'', 100), (''end_time'', 200)]),
      WriteRecords ''bounces'' ''schema'' (JList (replicate 500 JNull)) None,
      SetBookmark (Some (''bounces'', ''end_time'')) 200,
      Request ''bounces'' ''https://api.sendgrid.com/v3/suppression/bounces''
        (Some [(''offset'', 500), (''limit'', 500), (''start_time'', 100), (''end_time'', 200)]),
      WriteRecords ''bounces'' ''schema'' (JList (replicate 10 JNull)) None,
      SetBookmark (Some (''bounces'', ''end_time'')) 200],
          bookmarks = [Some (''bounces'', ''end_time'') \<mapsto> 200]\<rparr>)"
proof -
  let ?ctx = "\<lparr>config = [''api_key'' \<mapsto> ''k''], now = 200, start_date = 100, tz_offset = 0\<rparr>"
  let ?s = "\<lparr>tap_stream_id = ''bounces'', endpoint = ''https://api.sendgrid.com/v3/suppression/bounces'',
      bookmark = Some (''bounces'', ''end_time'')\<rparr>"
  let ?w = "\<lparr>calls = 0, trace = [], bookmarks = [Some (''bounces'', ''end_time'') \<mapsto> 100]\<rparr>"
  have start: "(100::int) = update_start_date_bookmark ?ctx (bookmark ?s) ?w"
    by (simp add: update_start_date_bookmark_def)
  note th = sync_end_time_bookmark_after_each_batch
    [where get' = "\<lambda>n t u c p. Inr \<lparr>status_code = 200, content = [],
                     decoded = Some (JList (replicate (if n = 0 then 500 else 10) JNull))\<rparr>"
       and k = 1 and fuel' = 0
       and rs = "\<lambda>i. \<lparr>status_code = 200, content = [],
                     decoded = Some (JList (replicate (if i = 0 then 500 else 10) JNull))\<rparr>"
       and js = "\<lambda>i. JList (replicate (if i = 0 then 500 else 10) JNull)"
       and bs = "\<lambda>i. JList (replicate (if i = 0 then 500 else 10) JNull)"
       and ns = "\<lambda>i. if i = 0 then 500 else 10",
     OF sync_end_time_two_batches start]
  have "[0..<Suc 1] = [0, 1]" by (simp add: upt_rec)
  with th show ?thesis
    by (simp add: new_events_def after_batches_def offset_params_def endpoint_of_def emit_def
          numeral_2_eq_2 fun_upd_same)
qed

subsection \<open>The handler of \<^verbatim>\<open>write_paged_records\<close>\<close>

lemma retry_get_loop_error:
  "retry_get_loop get t u cfg ps attempt delay l w = (Inl e, w') \<Longrightarrow>
   (\<exists>n. get n t u cfg ps = Inl e) \<or> e = UnboundLocalError \<or> (\<exists>m. e = ValueError m)"
proof (induction get t u cfg ps attempt delay l w rule: retry_get_loop.induct)
  case (1 get t u cfg ps attempt delay r w)
  show ?case
  proof (cases "attempt \<le> 20")
    case False
    with "1.prems" show ?thesis
      by (subst (asm) retry_get_loop.simps) (auto split: option.splits)
  next
    case True
    show ?thesis
    proof (cases "get (calls w) t u cfg ps")
      case (Inl e')
      with True "1.prems" have "e = e'"
        by (subst (asm) retry_get_loop.simps) simp
      with Inl show ?thesis by blast
    next
      case (Inr r')
      show ?thesis
      proof (cases "status_code r' \<ge> 500")
        case False
        with True Inr "1.prems" show ?thesis
          by (subst (asm) retry_get_loop.simps) simp
      next
        case hot: True
        from True Inr hot "1.prems"
        have "retry_get_loop get t u cfg ps (attempt + 1) (delay * backoff) (Some r')
                (emit [LogBackoff (status_code r') attempt retries delay, Sleep delay]
                   (requested t u ps w)) = (Inl e, w')"
          by (subst (asm) retry_get_loop.simps) simp
        from "1.IH" [OF True Inr hot this] show ?thesis .
      qed
    qed
  qed
qed

lemma retry_get_no_decode_error:
  assumes "\<And>n t u c p. get n t u c p \<noteq> Inl JSONDecodeError"
  shows "fst (retry_get get t u cfg ps w) \<noteq> Inl JSONDecodeError"
proof
  assume "fst (retry_get get t u cfg ps w) = Inl JSONDecodeError"
  then have "retry_get_loop get t u cfg ps 1 120 None w
               = (Inl JSONDecodeError, snd (retry_get get t u cfg ps w))"
    by (simp add: retry_get_def prod_eq_iff)
  from retry_get_loop_error [OF this] assms show False by auto
qed

lemma py_get_error: "py_get j k d = Inl e \<Longrightarrow> e = AttributeError"
  by (cases j) simp_all

lemma py_index0_error: "py_index0 j = Inl e \<Longrightarrow> e \<noteq> JSONDecodeError"
  by (induction j rule: py_index0.induct) auto

lemma recipient_count_check_no_decode_error:
  "decoded r = Some j \<Longrightarrow> recipient_count_check r \<noteq> Inl JSONDecodeError"
  by (auto simp: recipient_count_check_def response_json_def split: sum.splits
           dest: py_get_error)

lemma end_of_records_check_no_decode_error:
  "decoded r = Some j \<Longrightarrow> end_of_records_check r \<noteq> Inl JSONDecodeError"
  using recipient_count_check_no_decode_error [of r j]
  by (auto simp: end_of_records_check_def response_json_def split: sum.splits if_splits
           dest: py_get_error py_index0_error)

lemma write_paged_body_effects:
  assumes "write_paged_body schema s added res w = (r, w1)"
  shows "\<exists>evs. trace w1 = trace w @ evs \<and> (\<forall>e\<in>set evs. cursor_event e \<or> is_write e) \<and>
               bookmarks w1 = bookmarks w \<and> calls w1 = calls w \<and> r \<noteq> Inl JSONDecodeError"
proof (cases "py_get res ''recipients'' JNull")
  case (Inl e)
  then have "e = AttributeError" by (rule py_get_error)
  with Inl assms have "w1 = w" "r = Inl AttributeError"
    by (simp_all add: write_paged_body_def)
  then show ?thesis by simp
next
  case (Inr results)
  show ?thesis
  proof (cases "py_truthy results")
    case True
    with Inr assms
    have "w1 = emit [WriteRecords (tap_stream_id s) schema results added] w" "r = Inr ()"
      by (auto simp: write_paged_body_def write_records_def)
    then show ?thesis
      by (intro exI [of _ "[WriteRecords (tap_stream_id s) schema results added]"])
         (simp add: emit_def)
  next
    case False
    with Inr assms have "w1 = w" "r = Inr ()"
      by (simp_all add: write_paged_body_def)
    then show ?thesis by simp
  qed
qed

lemma paged_loop_effects:
  assumes body: "\<And>j w r w1. body j w = (r, w1) \<Longrightarrow>
             \<exists>evs. trace w1 = trace w @ evs \<and> (\<forall>e\<in>set evs. cursor_event e \<or> is_write e) \<and>
                   bookmarks w1 = bookmarks w"
    and run: "get_using_paged_loop fuel get ctx s add_params ep body page a w = Some (res, w')"
  shows "\<exists>evs. trace w' = trace w @ evs \<and> (\<forall>e\<in>set evs. cursor_event e \<or> is_write e) \<and>
               bookmarks w' = bookmarks w"
  using run
proof (induction fuel arbitrary: page a w)
  case 0
  then show ?case by simp
next
  case (Suc fuel)
  let ?ps = "Some (safe_update_dict [(''page'', page), (''page_size'', 1000)] add_params)"
  obtain r1 w1 where rg: "retry_get get (tap_stream_id s) ep (config ctx) ?ps w = (r1, w1)"
    by (cases "retry_get get (tap_stream_id s) ep (config ctx) ?ps w")
  from retry_get_effects [OF rg] obtain cevs
    where w1: "trace w1 = trace w @ cevs" "bookmarks w1 = bookmarks w"
      and ce: "list_all cursor_event cevs"
    by auto
  have c1: "\<forall>e\<in>set cevs. cursor_event e \<or> is_write e"
    using ce by (simp add: list_all_iff)
  have stop1: ?case if "w' = w1"
    using that w1 c1 by auto
  have extend: ?case
    if "\<exists>evs. trace w' = trace w1 @ evs \<and> (\<forall>e\<in>set evs. cursor_event e \<or> is_write e) \<and>
              bookmarks w' = bookmarks w1"
  proof -
    from that obtain evs where "trace w' = trace w1 @ evs"
      "\<forall>e\<in>set evs. cursor_event e \<or> is_write e" "bookmarks w' = bookmarks w1"
      by blast
    with w1 c1 have "trace w' = trace w @ (cevs @ evs)"
      "\<forall>e\<in>set (cevs @ evs). cursor_event e \<or> is_write e" "bookmarks w' = bookmarks w"
      by auto
    then show ?thesis by blast
  qed
  show ?case
  proof (cases r1)
    case (Inl e)
    with Suc.prems rg have "w' = w1" by (simp add: Let_def)
    then show ?thesis by (rule stop1)
  next
    case (Inr r)
    show ?thesis
    proof (cases "decoded r")
      case None
      show ?thesis
      proof (cases "a + 1 < 3")
        case True
        with Suc.prems rg Inr None
        have "get_using_paged_loop fuel get ctx s add_params ep body page (a + 1) w1
                = Some (res, w')"
          by (simp add: Let_def)
        from Suc.IH [OF this] show ?thesis by (rule extend)
      next
        case False
        with Suc.prems rg Inr None
        have "w' = emit [LogParseStatus (status_code r), LogParseContent (content r)] w1"
          by (simp add: Let_def)
        then have "trace w' = trace w1 @ [LogParseStatus (status_code r), LogParseContent (content r)]"
          "bookmarks w' = bookmarks w1"
          by (simp_all add: emit_def)
        then show ?thesis by (intro extend) auto
      qed
    next
      case (Some j)
      obtain r2 w2 where bd: "body j w1 = (r2, w2)" by (cases "body j w1")
      from body [OF bd] obtain bevs
        where w2: "trace w2 = trace w1 @ bevs" "\<forall>e\<in>set bevs. cursor_event e \<or> is_write e"
          "bookmarks w2 = bookmarks w1"
        by blast
      have stop2: ?thesis if "w' = w2"
        using that w2 by (intro extend) auto
      have extend2: ?thesis
        if "\<exists>evs. trace w' = trace w2 @ evs \<and> (\<forall>e\<in>set evs. cursor_event e \<or> is_write e) \<and>
                  bookmarks w' = bookmarks w2"
      proof -
        from that obtain evs where "trace w' = trace w2 @ evs"
          "\<forall>e\<in>set evs. cursor_event e \<or> is_write e" "bookmarks w' = bookmarks w2"
          by blast
        with w2 have "trace w' = trace w1 @ (bevs @ evs)"
          "\<forall>e\<in>set (bevs @ evs). cursor_event e \<or> is_write e" "bookmarks w' = bookmarks w1"
          by auto
        then show ?thesis by (intro extend) blast
      qed
      show ?thesis
      proof (cases r2)
        case (Inl e)
        with Suc.prems rg Inr Some bd have "w' = w2" by (simp add: Let_def)
        then show ?thesis by (rule stop2)
      next
        case u: (Inr u)
        show ?thesis
        proof (cases "end_of_records_check r")
          case (Inl e)
          with Suc.prems rg Inr Some bd u have "w' = w2" by (simp add: Let_def)
          then show ?thesis by (rule stop2)
        next
          case b: (Inr b)
          show ?thesis
          proof (cases b)
            case True
            with Suc.prems rg Inr Some bd u b have "w' = w2" by (simp add: Let_def)
            then show ?thesis by (rule stop2)
          next
            case False
            with Suc.prems rg Inr Some bd u b
            have "get_using_paged_loop fuel get ctx s add_params ep body (page + 1) 0 w2
                    = Some (res, w')"
              by (simp add: Let_def)
            from Suc.IH [OF this] show ?thesis by (rule extend2)
          qed
        qed
      qed
    qed
  qed
qed

lemma paged_loop_no_decode_error:
  assumes get: "\<And>n t u c p. get n t u c p \<noteq> Inl JSONDecodeError"
    and body: "\<And>j w. fst (body j w) \<noteq> Inl JSONDecodeError"
    and run: "get_using_paged_loop fuel get ctx s add_params ep body page a w = Some (res, w')"
  shows "res \<noteq> Inl JSONDecodeError"
  using run
proof (induction fuel arbitrary: page a w)
  case 0
  then show ?case by simp
next
  case (Suc fuel)
  let ?ps = "Some (safe_update_dict [(''page'', page), (''page_size'', 1000)] add_params)"
  obtain r1 w1 where rg: "retry_get get (tap_stream_id s) ep (config ctx) ?ps w = (r1, w1)"
    by (cases "retry_get get (tap_stream_id s) ep (config ctx) ?ps w")
  have r1: "r1 \<noteq> Inl JSONDecodeError"
    using retry_get_no_decode_error [of get "tap_stream_id s" ep "config ctx" ?ps w] get rg
    by simp
  show ?case
  proof (cases r1)
    case (Inl e)
    with Suc.prems rg r1 show ?thesis by (auto simp: Let_def)
  next
    case (Inr r)
    show ?thesis
    proof (cases "decoded r")
      case None
      with Suc.prems rg Inr Suc.IH show ?thesis
        by (auto simp: Let_def split: if_splits)
    next
      case (Some j)
      obtain r2 w2 where bd: "body j w1 = (r2, w2)" by (cases "body j w1")
      have r2: "r2 \<noteq> Inl JSONDecodeError" using body [of j w1] bd by simp
      have eor: "end_of_records_check r \<noteq> Inl JSONDecodeError"
        using Some by (rule end_of_records_check_no_decode_error)
      from Suc.prems rg Inr Some bd r2 eor Suc.IH show ?thesis
        by (auto simp: Let_def split: sum.splits if_splits)
    qed
  qed
qed

lemma quiet_events:
  assumes "\<forall>e\<in>set evs. cursor_event e \<or> is_write e"
  shows "searches evs = []" and "marks evs = []" and "logged_responses evs = []"
  using assms
proof (induction evs)
  case Nil
  { case 1 show ?case by simp }
  { case 2 show ?case by simp }
  { case 3 show ?case by simp }
next
  case (Cons e evs)
  { case 1 with Cons.IH(1) show ?case by (cases e) simp_all }
  { case 2 with Cons.IH(2) show ?case by (cases e) simp_all }
  { case 3 with Cons.IH(3) show ?case by (cases e) simp_all }
qed

lemma write_paged_records_effects:
  assumes "write_paged_records fuel get ctx s schema ps url_key added w = Some (res, w')"
  shows "\<exists>evs. trace w' = trace w @ evs \<and> (\<forall>e\<in>set evs. cursor_event e \<or> is_write e) \<and>
               bookmarks w' = bookmarks w"
proof (rule paged_loop_effects)
  show "get_using_paged_loop fuel get ctx s ps (endpoint_of s url_key)
          (write_paged_body schema s added) 1 0 w = Some (res, w')"
    using assms by (simp add: write_paged_records_def get_using_paged_def)
next
  fix j w r w1
  assume "write_paged_body schema s added j w = (r, w1)"
  from write_paged_body_effects [OF this]
  show "\<exists>evs. trace w1 = trace w @ evs \<and> (\<forall>e\<in>set evs. cursor_event e \<or> is_write e) \<and>
              bookmarks w1 = bookmarks w"
    by blast
qed


lemma write_paged_records_one_page:
  "write_paged_records 1
     (\<lambda>n t u c p. Inr \<lparr>status_code = 200, content = [],
        decoded = Some (JDict [(''recipients'', JList [JDict [(''id'', JStr ''a'')]]),
                               (''recipient_count'', JNum 0)])\<rparr>)
     \<lparr>config = [''api_key'' \<mapsto> ''k''], now = 200, start_date = 100, tz_offset = 0\<rparr>
     \<lparr>tap_stream_id = ''contacts'',
      endpoint = ''https://api.sendgrid.com/v3/contactdb/recipients/search'',
      bookmark = Some (''contacts'', ''timestamp'')\<rparr>
     ''schema'' (Some [(''created_at'', 0)]) None None
     \<lparr>calls = 0, trace = [], bookmarks = Map.empty\<rparr> =
   Some (Inr (),
         \<lparr>calls = 1,
          trace = [Request ''contacts'' ''https://api.sendgrid.com/v3/contactdb/recipients/search''
                     (Some [(''page'', 1), (''page_size'', 1000), (''created_at'', 0)]),
                   WriteRecords ''contacts'' ''schema'' (JList [JDict [(''id'', JStr ''a'')]]) None],
          bookmarks = Map.empty\<rparr>)"
  by (simp add: write_paged_records_def get_using_paged_def endpoint_of_def Let_def
        retry_get_unfold requested_def emit_def safe_update_dict_def write_paged_body_def
        write_records_def end_of_records_check_def recipient_count_check_def response_json_def)

text \<open>
  C10. In \<^verbatim>\<open>write_paged_records\<close> the lookup \<^verbatim>\<open>res.get('recipients')\<close> never raises
  JSONDecodeError, whatever the decoded body \<open>res\<close> is (on a body that is not a dict it
  raises AttributeError). So the handler around it never runs: no execution logs the
  response as the handler does, and \<^verbatim>\<open>write_paged_records\<close> ends with a
  JSONDecodeError only if the transport itself raises one.
\<close>

theorem write_paged_records_handler_unreachable:
  assumes "write_paged_records fuel get ctx s schema ps url_key added w = Some (r, w')"
  shows "py_get res ''recipients'' JNull \<noteq> Inl JSONDecodeError \<and>
         logged_responses (new_events w w') = [] \<and>
         ((\<forall>n t u c p. get n t u c p \<noteq> Inl JSONDecodeError) \<longrightarrow> r \<noteq> Inl JSONDecodeError)"
proof -
  have a: "py_get res ''recipients'' JNull \<noteq> Inl JSONDecodeError"
    using py_get_error [of res "''recipients''" JNull] by auto
  from write_paged_records_effects [OF assms] obtain evs
    where t: "trace w' = trace w @ evs" and q: "\<forall>e\<in>set evs. cursor_event e \<or> is_write e"
    by blast
  have b: "logged_responses (new_events w w') = []"
    using quiet_events(3) [OF q] new_events_append [OF t] by simp
  have c: "r \<noteq> Inl JSONDecodeError" if g: "\<forall>n t u c p. get n t u c p \<noteq> Inl JSONDecodeError"
  proof (rule paged_loop_no_decode_error)
    show "get_using_paged_loop fuel get ctx s ps (endpoint_of s url_key)
            (write_paged_body schema s added) 1 0 w = Some (r, w')"
      using assms by (simp add: write_paged_records_def get_using_paged_def)
  next
    fix n t u c p show "get n t u c p \<noteq> Inl JSONDecodeError" using g by blast
  next
    fix j w0
    show "fst (write_paged_body schema s added j w0) \<noteq> Inl JSONDecodeError"
      using write_paged_body_effects
        [of schema s added j w0 "fst (write_paged_body schema s added j w0)"
            "snd (write_paged_body schema s added j w0)"]
      by auto
  qed
  from a b c show ?thesis by blast
qed


theorem write_paged_records_handler_unreachable_witness:
  "logged_responses
     (new_events \<lparr>calls = 0, trace = [], bookmarks = Map.empty\<rparr>
        \<lparr>calls = 1,
         trace = [Request ''contacts'' ''https://api.sendgrid.com/v3/contactdb/recipients/search''
                    (Some [(''page'', 1), (''page_size'', 1000), (''created_at'', 0)]),
                  WriteRecords ''contacts'' ''schema'' (JList [JDict [(''id'', JStr ''a'')]]) None],
         bookmarks = Map.empty\<rparr>) = [] \<and>
   py_get (JDict [(''recipients'', JList [JDict [(''id'', JStr ''a'')]]),
                  (''recipient_count'', JNum 0)]) ''recipients'' JNull \<noteq> Inl JSONDecodeError"
  using write_paged_records_handler_unreachable [OF write_paged_records_one_page,
          of "JDict [(''recipients'', JList [JDict [(''id'', JStr ''a'')]]),
                     (''recipient_count'', JNum 0)]"]
  by blast

subsection \<open>The searches of \<^verbatim>\<open>sync_timestamp\<close>\<close>

lemma upt_Suc_shift: "[0..<Suc n] = 0 # map Suc [0..<n]"
proof -
  have "[0..<Suc n] = 0 # [Suc 0..<Suc n]"
    by (rule upt_conv_Cons) simp
  also have "[Suc 0..<Suc n] = map Suc [0..<n]"
    by (simp only: map_Suc_upt)
  finally show ?thesis .
qed

lemma days_loop_eq:
  "days_loop now' st ds =
     ds @ map (\<lambda>i. st\<lparr>int_timestamp := int_timestamp st + 86400 * int i\<rparr>)
            [0..<(if int_timestamp st \<le> now'
                  then nat ((now' - int_timestamp st) div 86400) + 1 else 0)]"
proof (induction now' st ds rule: days_loop.induct)
  case (1 now' st ds)
  let ?s = "int_timestamp st"
  show ?case
  proof (cases "?s \<le> now'")
    case False
    then show ?thesis by (subst days_loop.simps) simp
  next
    case True
    let ?n' = "if ?s + 86400 \<le> now' then nat ((now' - (?s + 86400)) div 86400) + 1 else 0"
    have n: "nat ((now' - ?s) div 86400) + 1 = Suc ?n'"
    proof (cases "?s + 86400 \<le> now'")
      case True
      have "(now' - ?s) div 86400 = (now' - (?s + 86400)) div 86400 + 1"
        by (simp add: algebra_simps div_add_self2 [symmetric] del: div_add_self2)
      moreover have "0 \<le> (now' - (?s + 86400)) div 86400"
        using True by (simp add: pos_imp_zdiv_nonneg_iff)
      ultimately show ?thesis using True by (simp add: nat_add_distrib)
    next
      case False
      with \<open>?s \<le> now'\<close> have "(now' - ?s) div 86400 = 0"
        by (simp add: div_pos_pos_trivial)
      with False show ?thesis by simp
    qed
    have "days_loop now' st ds =
            days_loop now' (st\<lparr>int_timestamp := ?s + 86400\<rparr>) (ds @ [st])"
      using True by (subst days_loop.simps) simp
    also have "\<dots> = (ds @ [st]) @
                 map (\<lambda>i. st\<lparr>int_timestamp := ?s + 86400 + 86400 * int i\<rparr>) [0..<?n']"
      using "1.IH" [OF True] by simp
    also have "\<dots> = ds @ map (\<lambda>i. st\<lparr>int_timestamp := ?s + 86400 * int i\<rparr>) [0..<Suc ?n']"
      by (simp only: upt_Suc_shift) (simp add: comp_def algebra_simps)
    finally show ?thesis using True n by simp
  qed
qed

lemma start_of_day_multiple:
  "(int_timestamp (start_of_day dt) + utc_offset (start_of_day dt)) mod 86400 = 0"
  by (simp add: start_of_day_def minus_mod_eq_mult_div)

lemma days_between_now:
  assumes "(t + off) mod 86400 = 0"
  shows "(now' - t) div 86400 =
           days_between t
             (int_timestamp (start_of_day \<lparr>int_timestamp = now', utc_offset = off\<rparr>))"
proof -
  from assms have "86400 dvd t + off" by (simp add: dvd_eq_mod_eq_0)
  then obtain k where "t + off = 86400 * k" by (rule dvdE)
  then have t: "t = 86400 * k - off" by simp
  have "(now' + off + 86400 * (- k)) div 86400 = - k + (now' + off) div 86400"
    by (rule div_mult_self2) simp
  then have l: "(now' - t) div 86400 = (now' + off) div 86400 - k"
    by (simp add: t algebra_simps)
  have "int_timestamp (start_of_day \<lparr>int_timestamp = now', utc_offset = off\<rparr>) - t
          = 86400 * ((now' + off) div 86400 - k)"
    by (simp add: t start_of_day_def minus_mod_eq_mult_div right_diff_distrib)
  then have r: "(int_timestamp (start_of_day \<lparr>int_timestamp = now', utc_offset = off\<rparr>) - t)
                  div 86400 = (now' + off) div 86400 - k"
    by simp
  from l r show ?thesis by (simp add: days_between_def)
qed

lemma days_between_bookmark_now:
  "(now ctx - int_timestamp (bookmark_day ctx p w)) div 86400 =
     days_between (int_timestamp (bookmark_day ctx p w)) (int_timestamp (now_day ctx))"
proof -
  have "(int_timestamp (bookmark_day ctx p w) + tz_offset ctx) mod 86400 = 0"
    using start_of_day_multiple [of "update_start_date_bookmark_dt ctx p w"]
    by (simp add: bookmark_day_def start_of_day_def update_start_date_bookmark_dt_def)
  from days_between_now [OF this] show ?thesis
    by (simp add: now_day_def)
qed

lemma discrete_days_since_start_eq:
  assumes "d0 = int_timestamp (bookmark_day ctx p w)"
  shows "discrete_days_since_start ctx (update_start_date_bookmark_dt ctx p w) =
           (if d0 \<le> now ctx
            then map (\<lambda>i. \<lparr>int_timestamp = d0 + 86400 * int i, utc_offset = tz_offset ctx\<rparr>)
                   [0..<nat (days_between d0 (int_timestamp (now_day ctx)) + 1)]
            else [])"
proof (cases "d0 \<le> now ctx")
  case False
  then show ?thesis
    using assms by (simp add: discrete_days_since_start_def days_loop_eq bookmark_day_def)
next
  case True
  have "0 \<le> (now ctx - d0) div 86400"
    using True by (simp add: pos_imp_zdiv_nonneg_iff)
  then have "nat ((now ctx - d0) div 86400) + 1 =
             nat (days_between d0 (int_timestamp (now_day ctx)) + 1)"
    using days_between_bookmark_now [of ctx p w] assms
    by (simp add: nat_add_distrib)
  moreover have "(start_of_day (update_start_date_bookmark_dt ctx p w))
                   \<lparr>int_timestamp := d0 + x\<rparr>
                 = \<lparr>int_timestamp = d0 + x, utc_offset = tz_offset ctx\<rparr>" for x
    by (simp add: start_of_day_def update_start_date_bookmark_dt_def)
  ultimately show ?thesis
    using True assms
    by (simp add: discrete_days_since_start_def days_loop_eq bookmark_day_def)
qed

lemma search_fetches_quiet:
  "\<forall>e\<in>set xs. cursor_event e \<or> is_write e \<Longrightarrow>
   search_fetches None (xs @ ys) = search_fetches None ys"
proof (induction xs)
  case Nil
  show ?case by simp
next
  case (Cons e xs)
  then show ?case by (cases e) simp_all
qed

lemma length_search_fetches: "length (search_fetches p es) \<le> length (requests es)"
proof (induction es arbitrary: p)
  case Nil
  show ?case by simp
next
  case (Cons e es)
  show ?case
  proof (cases e)
    case (Request t u ps)
    with Cons [of None] show ?thesis by (cases p) auto
  next
    case (LogLooking t d)
    with Cons [of "Some (t, d)"] show ?thesis by simp
  qed (use Cons [of None] in simp_all)
qed

lemma retry_get_first_request:
  assumes "retry_get get t u cfg ps w = (res, w')"
  shows "\<exists>evs. trace w' = trace w @ Request t u ps # evs \<and> list_all cursor_event evs \<and>
               bookmarks w' = bookmarks w"
proof (cases "get (calls w) t u cfg ps")
  case (Inl e)
  with assms have "w' = requested t u ps w" by (simp add: retry_get_unfold)
  then show ?thesis by (simp add: requested_def)
next
  case (Inr r)
  show ?thesis
  proof (cases "status_code r \<ge> 500")
    case False
    with Inr assms have "w' = requested t u ps w" by (simp add: retry_get_unfold)
    then show ?thesis by (simp add: requested_def)
  next
    case True
    let ?w0 = "emit [LogBackoff (status_code r) 1 retries 120, Sleep 120] (requested t u ps w)"
    from True Inr assms
    have "retry_get_loop get t u cfg ps 2 (120 * backoff) (Some r) ?w0 = (res, w')"
      by (simp add: retry_get_unfold)
    from retry_get_loop_effects [OF this] obtain evs
      where "w' = ?w0\<lparr>calls := calls ?w0 + length (requests evs), trace := trace ?w0 @ evs\<rparr>"
        and "list_all cursor_event evs"
      by blast
    then have "trace w' = trace w @ Request t u ps #
                 ([LogBackoff (status_code r) 1 retries 120, Sleep 120] @ evs)"
      "list_all cursor_event ([LogBackoff (status_code r) 1 retries 120, Sleep 120] @ evs)"
      "bookmarks w' = bookmarks w"
      by (simp_all add: emit_def requested_def)
    then show ?thesis by blast
  qed
qed

lemma paged_loop_first_request:
  assumes body: "\<And>j w r w1. body j w = (r, w1) \<Longrightarrow>
             \<exists>evs. trace w1 = trace w @ evs \<and> (\<forall>e\<in>set evs. cursor_event e \<or> is_write e) \<and>
                   bookmarks w1 = bookmarks w"
    and run: "get_using_paged_loop fuel get ctx s add_params ep body page a w = Some (res, w')"
  shows "\<exists>evs. trace w' = trace w @ Request (tap_stream_id s) ep (paged_params page add_params) # evs \<and>
               (\<forall>e\<in>set evs. cursor_event e \<or> is_write e)"
proof (cases fuel)
  case 0
  with run show ?thesis by simp
next
  case (Suc f)
  let ?ps = "Some (safe_update_dict [(''page'', page), (''page_size'', 1000)] add_params)"
  let ?rq = "Request (tap_stream_id s) ep (paged_params page add_params)"
  note run' = run [unfolded Suc]
  have eff: "\<exists>evs. trace w' = trace w0 @ evs \<and> (\<forall>e\<in>set evs. cursor_event e \<or> is_write e) \<and>
                   bookmarks w' = bookmarks w0"
    if "get_using_paged_loop fu get ctx s add_params ep body pg n w0 = Some (res, w')"
    for fu pg n w0
  proof (rule paged_loop_effects [where body = body])
    show "get_using_paged_loop fu get ctx s add_params ep body pg n w0 = Some (res, w')"
      by (rule that)
  qed (rule body)
  obtain r1 w1 where rg: "retry_get get (tap_stream_id s) ep (config ctx) ?ps w = (r1, w1)"
    by (cases "retry_get get (tap_stream_id s) ep (config ctx) ?ps w")
  from retry_get_first_request [OF rg] obtain cevs
    where w1: "trace w1 = trace w @ ?rq # cevs" and ce: "list_all cursor_event cevs"
    by (auto simp: paged_params_def)
  have c1: "\<forall>e\<in>set cevs. cursor_event e \<or> is_write e"
    using ce by (simp add: list_all_iff)
  have extend: ?thesis
    if "\<exists>evs. trace w' = trace w1 @ evs \<and> (\<forall>e\<in>set evs. cursor_event e \<or> is_write e) \<and>
              bookmarks w' = bookmarks w1"
  proof -
    from that obtain evs where "trace w' = trace w1 @ evs"
      "\<forall>e\<in>set evs. cursor_event e \<or> is_write e"
      by blast
    with w1 c1 have "trace w' = trace w @ ?rq # (cevs @ evs)"
      "\<forall>e\<in>set (cevs @ evs). cursor_event e \<or> is_write e"
      by auto
    then show ?thesis by blast
  qed
  have stop1: ?thesis if "w' = w1"
    using that by (intro extend) simp
  show ?thesis
  proof (cases r1)
    case (Inl e)
    with run' rg have "w' = w1" by (simp add: Let_def)
    then show ?thesis by (rule stop1)
  next
    case (Inr r)
    show ?thesis
    proof (cases "decoded r")
      case None
      show ?thesis
      proof (cases "a + 1 < 3")
        case True
        with run' rg Inr None
        have "get_using_paged_loop f get ctx s add_params ep body page (a + 1) w1
                = Some (res, w')"
          by (simp add: Let_def)
        from eff [OF this] show ?thesis by (rule extend)
      next
        case False
        with run' rg Inr None
        have "w' = emit [LogParseStatus (status_code r), LogParseContent (content r)] w1"
          by (simp add: Let_def)
        then have "trace w' = trace w1 @ [LogParseStatus (status_code r), LogParseContent (content r)]"
          "bookmarks w' = bookmarks w1"
          by (simp_all add: emit_def)
        then show ?thesis by (intro extend) auto
      qed
    next
      case (Some j)
      obtain r2 w2 where bd: "body j w1 = (r2, w2)" by (cases "body j w1")
      from body [OF bd] obtain bevs
        where w2: "trace w2 = trace w1 @ bevs" "\<forall>e\<in>set bevs. cursor_event e \<or> is_write e"
          "bookmarks w2 = bookmarks w1"
        by blast
      have stop2: ?thesis if "w' = w2"
        using that w2 by (intro extend) auto
      have extend2: ?thesis
        if "\<exists>evs. trace w' = trace w2 @ evs \<and> (\<forall>e\<in>set evs. cursor_event e \<or> is_write e) \<and>
                  bookmarks w' = bookmarks w2"
      proof -
        from that obtain evs where "trace w' = trace w2 @ evs"
          "\<forall>e\<in>set evs. cursor_event e \<or> is_write e" "bookmarks w' = bookmarks w2"
          by blast
        with w2 have "trace w' = trace w1 @ (bevs @ evs)"
          "\<forall>e\<in>set (bevs @ evs). cursor_event e \<or> is_write e" "bookmarks w' = bookmarks w1"
          by auto
        then show ?thesis by (intro extend) blast
      qed
      show ?thesis
      proof (cases r2)
        case (Inl e)
        with run' rg Inr Some bd have "w' = w2" by (simp add: Let_def)
        then show ?thesis by (rule stop2)
      next
        case u: (Inr u)
        show ?thesis
        proof (cases "end_of_records_check r")
          case (Inl e)
          with run' rg Inr Some bd u have "w' = w2" by (simp add: Let_def)
          then show ?thesis by (rule stop2)
        next
          case b: (Inr b)
          show ?thesis
          proof (cases b)
            case True
            with run' rg Inr Some bd u b have "w' = w2" by (simp add: Let_def)
            then show ?thesis by (rule stop2)
          next
            case False
            with run' rg Inr Some bd u b
            have "get_using_paged_loop f get ctx s add_params ep body (page + 1) 0 w2
                    = Some (res, w')"
              by (simp add: Let_def)
            from eff [OF this] show ?thesis by (rule extend2)
          qed
        qed
      qed
    qed
  qed
qed

lemma write_paged_records_first_request:
  assumes "write_paged_records fuel get ctx s schema ps url_key added w = Some (res, w')"
  shows "\<exists>evs. trace w' = trace w @
                  Request (tap_stream_id s) (endpoint_of s url_key) (paged_params 1 ps) # evs \<and>
               (\<forall>e\<in>set evs. cursor_event e \<or> is_write e)"
proof (rule paged_loop_first_request)
  show "get_using_paged_loop fuel get ctx s ps (endpoint_of s url_key)
          (write_paged_body schema s added) 1 0 w = Some (res, w')"
    using assms by (simp add: write_paged_records_def get_using_paged_def)
next
  fix j w r w1
  assume "write_paged_body schema s added j w = (r, w1)"
  from write_paged_body_effects [OF this]
  show "\<exists>evs. trace w1 = trace w @ evs \<and> (\<forall>e\<in>set evs. cursor_event e \<or> is_write e) \<and>
              bookmarks w1 = bookmarks w"
    by blast
qed

lemma search_terms_loop_effects:
  assumes "search_terms_loop fuel get ctx s schema day terms w = Some (res, w')"
  shows "\<exists>evs. trace w' = trace w @ evs \<and> marks evs = [] \<and> bookmarks w' = bookmarks w \<and>
               (res = Inr () \<longrightarrow>
                  searches evs = map (\<lambda>t. (t, int_timestamp day)) terms \<and>
                  (\<forall>rest. search_fetches None (evs @ rest) =
                     map (\<lambda>t. (t, int_timestamp day,
                                paged_params 1 (Some [(t, int_timestamp day)]))) terms @
                     search_fetches None rest))"
  using assms
proof (induction terms arbitrary: w)
  case Nil
  then show ?case by simp
next
  case (Cons t terms)
  let ?d = "int_timestamp day"
  let ?w0 = "emit [LogLooking t ?d] w"
  let ?rq = "Request (tap_stream_id s) (endpoint_of s None) (paged_params 1 (Some [(t, ?d)]))"
  let ?run = "write_paged_records fuel get ctx s schema (Some [(t, ?d)]) None None ?w0"
  from Cons.prems obtain r1 w1 where run: "?run = Some (r1, w1)"
    by (cases ?run) auto
  from write_paged_records_effects [OF run] have b1: "bookmarks w1 = bookmarks w"
    by (auto simp: emit_def)
  from write_paged_records_first_request [OF run] obtain pevs
    where w1: "trace w1 = trace ?w0 @ ?rq # pevs"
      and q: "\<forall>e\<in>set pevs. cursor_event e \<or> is_write e"
    by blast
  let ?evs1 = "LogLooking t ?d # ?rq # pevs"
  have t1: "trace w1 = trace w @ ?evs1"
    using w1 by (simp add: emit_def)
  have m1: "marks ?evs1 = []"
    using quiet_events(2) [OF q] by simp
  have a1: "searches ?evs1 = [(t, ?d)]"
    using quiet_events(1) [OF q] by simp
  have s1: "search_fetches None (?evs1 @ ys) =
              (t, ?d, paged_params 1 (Some [(t, ?d)])) # search_fetches None ys" for ys
    using search_fetches_quiet [OF q, of ys] by simp
  show ?case
  proof (cases r1)
    case (Inl e)
    with Cons.prems run have "w' = w1" "res = Inl e" by simp_all
    with t1 b1 m1 show ?thesis by auto
  next
    case (Inr u)
    with Cons.prems run
    have "search_terms_loop fuel get ctx s schema day terms w1 = Some (res, w')"
      by simp
    from Cons.IH [OF this] obtain evs
      where e: "trace w' = trace w1 @ evs" "marks evs = []" "bookmarks w' = bookmarks w1"
        and a: "res = Inr () \<longrightarrow> searches evs = map (\<lambda>t. (t, ?d)) terms"
        and f: "res = Inr () \<longrightarrow>
                  (\<forall>rest. search_fetches None (evs @ rest) =
                     map (\<lambda>t. (t, ?d, paged_params 1 (Some [(t, ?d)]))) terms @
                     search_fetches None rest)"
      by blast
    have "trace w' = trace w @ (?evs1 @ evs)"
      using e t1 by simp
    moreover have "marks (?evs1 @ evs) = []"
      using e m1 by (simp only: marks_append) simp
    moreover have "bookmarks w' = bookmarks w"
      using e b1 by simp
    moreover have "res = Inr () \<longrightarrow> searches (?evs1 @ evs) = map (\<lambda>t. (t, ?d)) (t # terms)"
      using a a1 by (simp only: searches_append) simp
    moreover have "res = Inr () \<longrightarrow>
         (\<forall>rest. search_fetches None ((?evs1 @ evs) @ rest) =
            map (\<lambda>t. (t, ?d, paged_params 1 (Some [(t, ?d)]))) (t # terms) @
            search_fetches None rest)"
    proof (intro impI allI)
      fix rest
      assume "res = Inr ()"
      with f have "search_fetches None (evs @ rest) =
                     map (\<lambda>t. (t, ?d, paged_params 1 (Some [(t, ?d)]))) terms @
                     search_fetches None rest"
        by blast
      then show "search_fetches None ((?evs1 @ evs) @ rest) =
            map (\<lambda>t. (t, ?d, paged_params 1 (Some [(t, ?d)]))) (t # terms) @
            search_fetches None rest"
        using s1 [of "evs @ rest"] by simp
    qed
    ultimately show ?thesis by blast
  qed
qed

lemma sync_days_loop_effects:
  assumes "sync_days_loop fuel get ctx s schema days w = Some (res, w')"
  shows "\<exists>evs n. trace w' = trace w @ evs \<and>
                 marks evs = replicate n (bookmark s, now ctx) \<and>
                 bookmarks w' = (if n = 0 then bookmarks w
                                 else (bookmarks w)(bookmark s \<mapsto> now ctx)) \<and>
                 (res = Inr () \<longrightarrow>
                    n = length days \<and>
                    searches evs =
                      concat (map (\<lambda>d. [(''created_at'', int_timestamp d),
                                         (''updated_at'', int_timestamp d)]) days) \<and>
                    (\<forall>rest. search_fetches None (evs @ rest) =
                       concat (map (\<lambda>d. map (\<lambda>t. (t, int_timestamp d,
                                            paged_params 1 (Some [(t, int_timestamp d)])))
                                          [''created_at'', ''updated_at'']) days) @
                       search_fetches None rest))"
  using assms
proof (induction days arbitrary: w)
  case Nil
  then have "w' = w" "res = Inr ()" by simp_all
  then show ?case by (intro exI [of _ "[]"] exI [of _ 0]) simp
next
  case (Cons day days)
  let ?F = "\<lambda>d. map (\<lambda>t. (t, int_timestamp d, paged_params 1 (Some [(t, int_timestamp d)])))
                  [''created_at'', ''updated_at'']"
  let ?run = "search_terms_loop fuel get ctx s schema day [''created_at'', ''updated_at''] w"
  from Cons.prems obtain r1 w1 where run: "?run = Some (r1, w1)"
    by (cases ?run) auto
  from search_terms_loop_effects [OF run] obtain evs1
    where t1: "trace w1 = trace w @ evs1" and m1: "marks evs1 = []"
      and b1: "bookmarks w1 = bookmarks w"
      and a1: "r1 = Inr () \<longrightarrow>
                 searches evs1 = [(''created_at'', int_timestamp day),
                                  (''updated_at'', int_timestamp day)]"
      and s1: "r1 = Inr () \<longrightarrow>
                 (\<forall>rest. search_fetches None (evs1 @ rest) = ?F day @ search_fetches None rest)"
    by auto
  show ?case
  proof (cases r1)
    case (Inl e)
    with Cons.prems run have "w' = w1" "res = Inl e" by simp_all
    with t1 m1 b1 show ?thesis by (intro exI [of _ evs1] exI [of _ 0]) simp
  next
    case (Inr u)
    let ?w2 = "set_bookmark (bookmark s) (now_date_str ctx) w1"
    have t2: "trace ?w2 = trace w @ (evs1 @ [SetBookmark (bookmark s) (now ctx)])"
      and b2: "bookmarks ?w2 = (bookmarks w)(bookmark s \<mapsto> now ctx)"
      using t1 b1 by (simp_all add: set_bookmark_def now_date_str_def)
    from Inr Cons.prems run
    have "sync_days_loop fuel get ctx s schema days ?w2 = Some (res, w')"
      by simp
    from Cons.IH [OF this] obtain evs n
      where t': "trace w' = trace ?w2 @ evs"
        and m': "marks evs = replicate n (bookmark s, now ctx)"
        and b': "bookmarks w' = (if n = 0 then bookmarks ?w2
                                 else (bookmarks ?w2)(bookmark s \<mapsto> now ctx))"
        and s': "res = Inr () \<longrightarrow>
                   n = length days \<and>
                   searches evs =
                     concat (map (\<lambda>d. [(''created_at'', int_timestamp d),
                                        (''updated_at'', int_timestamp d)]) days) \<and>
                   (\<forall>rest. search_fetches None (evs @ rest) =
                      concat (map ?F days) @ search_fetches None rest)"
      by blast
    let ?evs = "(evs1 @ [SetBookmark (bookmark s) (now ctx)]) @ evs"
    have "trace w' = trace w @ ?evs"
      using t' t2 by simp
    moreover have "marks ?evs = replicate (Suc n) (bookmark s, now ctx)"
      using m1 m' by (simp add: marks_append)
    moreover have "bookmarks w' = (if Suc n = 0 then bookmarks w
                                   else (bookmarks w)(bookmark s \<mapsto> now ctx))"
      using b' b2 by simp
    moreover have "res = Inr () \<longrightarrow>
                     Suc n = length (day # days) \<and>
                     searches ?evs =
                       concat (map (\<lambda>d. [(''created_at'', int_timestamp d),
                                          (''updated_at'', int_timestamp d)]) (day # days)) \<and>
                     (\<forall>rest. search_fetches None (?evs @ rest) =
                        concat (map ?F (day # days)) @ search_fetches None rest)"
    proof (intro impI conjI allI)
      assume r: "res = Inr ()"
      with s' show "Suc n = length (day # days)" by simp
      from r s' a1 Inr
      show "searches ?evs =
              concat (map (\<lambda>d. [(''created_at'', int_timestamp d),
                                 (''updated_at'', int_timestamp d)]) (day # days))"
        by (cases u) (simp add: searches_append)
      fix rest
      from r s' have a: "search_fetches None (evs @ rest) =
                           concat (map ?F days) @ search_fetches None rest"
        by blast
      from s1 Inr
      have "search_fetches None (evs1 @ (SetBookmark (bookmark s) (now ctx) # (evs @ rest))) =
              ?F day @ search_fetches None (SetBookmark (bookmark s) (now ctx) # (evs @ rest))"
        by (cases u) blast
      with a show "search_fetches None (?evs @ rest) =
                     concat (map ?F (day # days)) @ search_fetches None rest"
        by simp
    qed
    ultimately show ?thesis by blast
  qed
qed

lemma discrete_days_three:
  "discrete_days_since_start
     \<lparr>config = [''api_key'' \<mapsto> ''k''], now = 172850, start_date = 0, tz_offset = 0\<rparr>
     \<lparr>int_timestamp = 100, utc_offset = 0\<rparr>
     = [\<lparr>int_timestamp = 0, utc_offset = 0\<rparr>, \<lparr>int_timestamp = 86400, utc_offset = 0\<rparr>,
        \<lparr>int_timestamp = 172800, utc_offset = 0\<rparr>]"
  by (simp add: discrete_days_since_start_def days_loop_eq start_of_day_def eval_nat_numeral)

text \<open>
  The day starts at midnight in the offset of the datetime: for a bookmark at
  2019-12-31 20:00:00 UTC held at offset +05:00 (there 2020-01-01 01:00:00), and \<open>now\<close> a
  few hours later, the one day to search starts at 2019-12-31 19:00:00 UTC.
\<close>

lemma discrete_days_offset_example:
  "map int_timestamp
     (discrete_days_since_start
        \<lparr>config = [''api_key'' \<mapsto> ''k''], now = 1577840000, start_date = 0, tz_offset = 18000\<rparr>
        \<lparr>int_timestamp = 1577822400, utc_offset = 18000\<rparr>)
     = [1577818800]"
  by (simp add: discrete_days_since_start_def days_loop_eq start_of_day_def)

lemma sync_timestamp_three_days:
  "sync_timestamp 1
     (\<lambda>n t u c p. Inr \<lparr>status_code = 200, content = [],
                          decoded = Some (JDict [(''recipient_count'', JNum 0)])\<rparr>)
     \<lparr>config = [''api_key'' \<mapsto> ''k''], now = 172850, start_date = 0, tz_offset = 0\<rparr>
     \<lparr>tap_stream_id = ''contacts'',
      endpoint = ''https://api.sendgrid.com/v3/contactdb/recipients/search'',
      bookmark = Some (''contacts'', ''timestamp'')\<rparr>
     ''schema''
     \<lparr>calls = 0, trace = [], bookmarks = [Some (''contacts'', ''timestamp'') \<mapsto> 100]\<rparr> =
   Some (Inr (),
         \<lparr>calls = 6,
          trace = [LogLooking ''created_at'' 0,
                   Request ''contacts'' ''https://api.sendgrid.com/v3/contactdb/recipients/search''
                     (Some [(''page'', 1), (''page_size'', 1000), (''created_at'', 0)]),
                   LogLooking ''updated_at'' 0,
                   Request ''contacts'' ''https://api.sendgrid.com/v3/contactdb/recipients/search''
                     (Some [(''page'', 1), (''page_size'', 1000), (''updated_at'', 0)]),
                   SetBookmark (Some (''contacts'', ''timestamp'')) 172850,
                   LogLooking ''created_at'' 86400,
                   Request ''contacts'' ''https://api.sendgrid.com/v3/contactdb/recipients/search''
                     (Some [(''page'', 1), (''page_size'', 1000), (''created_at'', 86400)]),
                   LogLooking ''updated_at'' 86400,
                   Request ''contacts'' ''https://api.sendgrid.com/v3/contactdb/recipients/search''
                     (Some [(''page'', 1), (''page_size'', 1000), (''updated_at'', 86400)]),
                   SetBookmark (Some (''contacts'', ''timestamp'')) 172850,
                   LogLooking ''created_at'' 172800,
                   Request ''contacts'' ''https://api.sendgrid.com/v3/contactdb/recipients/search''
                     (Some [(''page'', 1), (''page_size'', 1000), (''created_at'', 172800)]),
                   LogLooking ''updated_at'' 172800,
                   Request ''contacts'' ''https://api.sendgrid.com/v3/contactdb/recipients/search''
                     (Some [(''page'', 1), (''page_size'', 1000), (''updated_at'', 172800)]),
                   SetBookmark (Some (''contacts'', ''timestamp'')) 172850],
          bookmarks = [Some (''contacts'', ''timestamp'') \<mapsto> 172850]\<rparr>)"
  by (simp add: sync_timestamp_def update_start_date_bookmark_dt_def
        update_start_date_bookmark_def discrete_days_three
        write_paged_records_def get_using_paged_def endpoint_of_def Let_def
        retry_get_unfold requested_def emit_def safe_update_dict_def write_paged_body_def
        end_of_records_check_def recipient_count_check_def response_json_def
        set_bookmark_def now_date_str_def)


lemma discrete_days_future:
  "discrete_days_since_start
     \<lparr>config = [''api_key'' \<mapsto> ''k''], now = 100000, start_date = 0, tz_offset = 0\<rparr>
     \<lparr>int_timestamp = 300000, utc_offset = 0\<rparr> = []"
  by (simp add: discrete_days_since_start_def days_loop_eq start_of_day_def)

lemma sync_timestamp_future_bookmark:
  "sync_timestamp 1 get
     \<lparr>config = [''api_key'' \<mapsto> ''k''], now = 100000, start_date = 0, tz_offset = 0\<rparr>
     \<lparr>tap_stream_id = ''contacts'',
      endpoint = ''https://api.sendgrid.com/v3/contactdb/recipients/search'',
      bookmark = Some (''contacts'', ''timestamp'')\<rparr>
     ''schema''
     \<lparr>calls = 0, trace = [], bookmarks = [Some (''contacts'', ''timestamp'') \<mapsto> 300000]\<rparr> =
   Some (Inr (),
         \<lparr>calls = 0, trace = [], bookmarks = [Some (''contacts'', ''timestamp'') \<mapsto> 300000]\<rparr>)"
  by (simp add: sync_timestamp_def update_start_date_bookmark_dt_def
        update_start_date_bookmark_def discrete_days_future Let_def)


lemma sync_timestamp_two_pages:
  "sync_timestamp (Suc (Suc 0))
     (\<lambda>n t u c p. Inr \<lparr>status_code = 200, content = [],
        decoded = Some (JDict [(''recipient_count'', JNum (if even n then 5 else 0))])\<rparr>)
     \<lparr>config = [''api_key'' \<mapsto> ''k''], now = 172850, start_date = 0, tz_offset = 0\<rparr>
     \<lparr>tap_stream_id = ''contacts'',
      endpoint = ''https://api.sendgrid.com/v3/contactdb/recipients/search'',
      bookmark = Some (''contacts'', ''timestamp'')\<rparr>
     ''schema''
     \<lparr>calls = 0, trace = [], bookmarks = [Some (''contacts'', ''timestamp'') \<mapsto> 100]\<rparr> =
   Some (Inr (),
         \<lparr>calls = 12,
          trace = [LogLooking ''created_at'' 0,
                   Request ''contacts'' ''https://api.sendgrid.com/v3/contactdb/recipients/search''
                     (Some [(''page'', 1), (''page_size'', 1000), (''created_at'', 0)]),
                   Request ''contacts'' ''https://api.sendgrid.com/v3/contactdb/recipients/search''
                     (Some [(''page'', 2), (''page_size'', 1000), (''created_at'', 0)]),
                   LogLooking ''updated_at'' 0,
                   Request ''contacts'' ''https://api.sendgrid.com/v3/contactdb/recipients/search''
                     (Some [(''page'', 1), (''page_size'', 1000), (''updated_at'', 0)]),
                   Request ''contacts'' ''https://api.sendgrid.com/v3/contactdb/recipients/search''
                     (Some [(''page'', 2), (''page_size'', 1000), (''updated_at'', 0)]),
                   SetBookmark (Some (''contacts'', ''timestamp'')) 172850,
                   LogLooking ''created_at'' 86400,
                   Request ''contacts'' ''https://api.sendgrid.com/v3/contactdb/recipients/search''
                     (Some [(''page'', 1), (''page_size'', 1000), (''created_at'', 86400)]),
                   Request ''contacts'' ''https://api.sendgrid.com/v3/contactdb/recipients/search''
                     (Some [(''page'', 2), (''page_size'', 1000), (''created_at'', 86400)]),
                   LogLooking ''updated_at'' 86400,
                   Request ''contacts'' ''https://api.sendgrid.com/v3/contactdb/recipients/search''
                     (Some [(''page'', 1), (''page_size'', 1000), (''updated_at'', 86400)]),
                   Request ''contacts'' ''https://api.sendgrid.com/v3/contactdb/recipients/search''
                     (Some [(''page'', 2), (''page_size'', 1000), (''updated_at'', 86400)]),
                   SetBookmark (Some (''contacts'', ''timestamp'')) 172850,
                   LogLooking ''created_at'' 172800,
                   Request ''contacts'' ''https://api.sendgrid.com/v3/contactdb/recipients/search''
                     (Some [(''page'', 1), (''page_size'', 1000), (''created_at'', 172800)]),
                   Request ''contacts'' ''https://api.sendgrid.com/v3/contactdb/recipients/search''
                     (Some [(''page'', 2), (''page_size'', 1000), (''created_at'', 172800)]),
                   LogLooking ''updated_at'' 172800,
                   Request ''contacts'' ''https://api.sendgrid.com/v3/contactdb/recipients/search''
                     (Some [(''page'', 1), (''page_size'', 1000), (''updated_at'', 172800)]),
                   Request ''contacts'' ''https://api.sendgrid.com/v3/contactdb/recipients/search''
                     (Some [(''page'', 2), (''page_size'', 1000), (''updated_at'', 172800)]),
                   SetBookmark (Some (''contacts'', ''timestamp'')) 172850],
          bookmarks = [Some (''contacts'', ''timestamp'') \<mapsto> 172850]\<rparr>)"
  by (simp add: sync_timestamp_def update_start_date_bookmark_dt_def
        update_start_date_bookmark_def discrete_days_three
        write_paged_records_def get_using_paged_def endpoint_of_def Let_def
        retry_get_unfold requested_def emit_def safe_update_dict_def write_paged_body_def
        end_of_records_check_def recipient_count_check_def response_json_def
        set_bookmark_def now_date_str_def)


text \<open>
  C6, as stated, fails in a run whose bookmark lies on a day after \<open>now\<close> (a start date or
  a stored state ahead of the clock of the run): with the bookmark at 300000 (day 3) and
  \<open>now\<close> at 100000 (day 1) the run completes, no day ends it early, and it makes no search
  at all and leaves the bookmark where it was, while the formula of the claim gives
  \<open>(days_between 259200 86400 + 1) * 2 = - 2\<close> and the claim has the bookmark advanced to
  \<open>now\<close>. And the number counted is that of the searches, not of the requests: with the
  bookmark on day 0, \<open>now\<close> on day 2 and searches of two pages each, the run issues 12
  requests for its 6 searches.
\<close>

theorem sync_timestamp_searches_counterexample:
  "sync_timestamp 1
     (\<lambda>n t u c p. Inr \<lparr>status_code = 200, content = [],
                          decoded = Some (JDict [(''recipient_count'', JNum 0)])\<rparr>)
     \<lparr>config = [''api_key'' \<mapsto> ''k''], now = 100000, start_date = 0, tz_offset = 0\<rparr>
     \<lparr>tap_stream_id = ''contacts'',
      endpoint = ''https://api.sendgrid.com/v3/contactdb/recipients/search'',
      bookmark = Some (''contacts'', ''timestamp'')\<rparr>
     ''schema''
     \<lparr>calls = 0, trace = [], bookmarks = [Some (''contacts'', ''timestamp'') \<mapsto> 300000]\<rparr> =
   Some (Inr (),
         \<lparr>calls = 0, trace = [], bookmarks = [Some (''contacts'', ''timestamp'') \<mapsto> 300000]\<rparr>) \<and>
   (days_between
      (int_timestamp (bookmark_day
         \<lparr>config = [''api_key'' \<mapsto> ''k''], now = 100000, start_date = 0, tz_offset = 0\<rparr>
         (Some (''contacts'', ''timestamp''))
         \<lparr>calls = 0, trace = [], bookmarks = [Some (''contacts'', ''timestamp'') \<mapsto> 300000]\<rparr>))
      (int_timestamp (now_day
         \<lparr>config = [''api_key'' \<mapsto> ''k''], now = 100000, start_date = 0, tz_offset = 0\<rparr>)) + 1) * 2 = - 2 \<and>
   (\<exists>w'. sync_timestamp (Suc (Suc 0))
     (\<lambda>n t u c p. Inr \<lparr>status_code = 200, content = [],
        decoded = Some (JDict [(''recipient_count'', JNum (if even n then 5 else 0))])\<rparr>)
     \<lparr>config = [''api_key'' \<mapsto> ''k''], now = 172850, start_date = 0, tz_offset = 0\<rparr>
     \<lparr>tap_stream_id = ''contacts'',
      endpoint = ''https://api.sendgrid.com/v3/contactdb/recipients/search'',
      bookmark = Some (''contacts'', ''timestamp'')\<rparr>
     ''schema''
     \<lparr>calls = 0, trace = [], bookmarks = [Some (''contacts'', ''timestamp'') \<mapsto> 100]\<rparr> = Some (Inr (), w') \<and>
     length (searches (new_events
       \<lparr>calls = 0, trace = [], bookmarks = [Some (''contacts'', ''timestamp'') \<mapsto> 100]\<rparr> w')) = 6 \<and>
     length (requests (new_events
       \<lparr>calls = 0, trace = [], bookmarks = [Some (''contacts'', ''timestamp'') \<mapsto> 100]\<rparr> w')) = 12)"
proof (intro conjI)
  show "sync_timestamp 1
     (\<lambda>n t u c p. Inr \<lparr>status_code = 200, content = [],
                          decoded = Some (JDict [(''recipient_count'', JNum 0)])\<rparr>)
     \<lparr>config = [''api_key'' \<mapsto> ''k''], now = 100000, start_date = 0, tz_offset = 0\<rparr>
     \<lparr>tap_stream_id = ''contacts'',
      endpoint = ''https://api.sendgrid.com/v3/contactdb/recipients/search'',
      bookmark = Some (''contacts'', ''timestamp'')\<rparr>
     ''schema''
     \<lparr>calls = 0, trace = [], bookmarks = [Some (''contacts'', ''timestamp'') \<mapsto> 300000]\<rparr> =
   Some (Inr (),
         \<lparr>calls = 0, trace = [], bookmarks = [Some (''contacts'', ''timestamp'') \<mapsto> 300000]\<rparr>)"
    by (rule sync_timestamp_future_bookmark)
  show "(days_between
      (int_timestamp (bookmark_day
         \<lparr>config = [''api_key'' \<mapsto> ''k''], now = 100000, start_date = 0, tz_offset = 0\<rparr>
         (Some (''contacts'', ''timestamp''))
         \<lparr>calls = 0, trace = [], bookmarks = [Some (''contacts'', ''timestamp'') \<mapsto> 300000]\<rparr>))
      (int_timestamp (now_day
         \<lparr>config = [''api_key'' \<mapsto> ''k''], now = 100000, start_date = 0, tz_offset = 0\<rparr>)) + 1) * 2 = - 2"
    by (simp add: days_between_def bookmark_day_def now_day_def start_of_day_def
          update_start_date_bookmark_dt_def update_start_date_bookmark_def)
  show "\<exists>w'. sync_timestamp (Suc (Suc 0))
     (\<lambda>n t u c p. Inr \<lparr>status_code = 200, content = [],
        decoded = Some (JDict [(''recipient_count'', JNum (if even n then 5 else 0))])\<rparr>)
     \<lparr>config = [''api_key'' \<mapsto> ''k''], now = 172850, start_date = 0, tz_offset = 0\<rparr>
     \<lparr>tap_stream_id = ''contacts'',
      endpoint = ''https://api.sendgrid.com/v3/contactdb/recipients/search'',
      bookmark = Some (''contacts'', ''timestamp'')\<rparr>
     ''schema''
     \<lparr>calls = 0, trace = [], bookmarks = [Some (''contacts'', ''timestamp'') \<mapsto> 100]\<rparr> = Some (Inr (), w') \<and>
     length (searches (new_events
       \<lparr>calls = 0, trace = [], bookmarks = [Some (''contacts'', ''timestamp'') \<mapsto> 100]\<rparr> w')) = 6 \<and>
     length (requests (new_events
       \<lparr>calls = 0, trace = [], bookmarks = [Some (''contacts'', ''timestamp'') \<mapsto> 100]\<rparr> w')) = 12"
    by (simp only: sync_timestamp_two_pages) (simp add: new_events_def)
qed

text \<open>
  C6, amended. Days are taken in the UTC offset of the bookmark's datetime: \<open>bookmark_day\<close>
  is midnight of the day that holds the bookmark (the stored one, or the start date),
  \<open>now_day\<close> midnight of the day that holds \<open>now\<close>. In a run of \<^verbatim>\<open>sync_timestamp\<close> that
  completes (no search raises):

  \<^item> when \<open>bookmark_day\<close> is not after \<open>now\<close>, the paged searches announced are, for every
    day from \<open>bookmark_day\<close> through \<open>now_day\<close> in steps of 24 hours, in order, one on
    \<^verbatim>\<open>created_at\<close> and one on \<^verbatim>\<open>updated_at\<close>; each of them is started right after its
    announcement, its first request being for page 1 with the filter \<open>field = day\<close>; they
    are \<open>(days_between bookmark_day now_day + 1) * 2\<close> in all, the run issues at least
    that many requests (a search issues one request for each page and each retry), and the
    bookmark is \<open>now\<close> afterwards;

  \<^item> when \<open>bookmark_day\<close> is after \<open>now\<close>, the run does nothing: no search, no request, no
    bookmark write.

  With the bookmark on day 0 and \<open>now\<close> on day 2 that is 6 searches.
\<close>

theorem sync_timestamp_searches:
  assumes run: "sync_timestamp fuel get ctx s schema w = Some (Inr (), w')"
    and d0: "d0 = int_timestamp (bookmark_day ctx (bookmark s) w)"
    and n: "n = days_between d0 (int_timestamp (now_day ctx)) + 1"
  shows "(d0 \<le> now ctx \<longrightarrow>
            searches (new_events w w') =
              concat (map (\<lambda>i. [(''created_at'', d0 + 86400 * int i),
                                 (''updated_at'', d0 + 86400 * int i)]) [0..<nat n]) \<and>
            search_fetches None (new_events w w') =
              concat (map (\<lambda>i. [(''created_at'', d0 + 86400 * int i,
                                  paged_params 1 (Some [(''created_at'', d0 + 86400 * int i)])),
                                 (''updated_at'', d0 + 86400 * int i,
                                  paged_params 1 (Some [(''updated_at'', d0 + 86400 * int i)]))])
                       [0..<nat n]) \<and>
            int (length (search_fetches None (new_events w w'))) = n * 2 \<and>
            length (search_fetches None (new_events w w')) \<le> length (requests (new_events w w')) \<and>
            bookmarks w' (bookmark s) = Some (now ctx)) \<and>
         (now ctx < d0 \<longrightarrow> w' = w)"
proof -
  let ?days = "map (\<lambda>i. \<lparr>int_timestamp = d0 + 86400 * int i, utc_offset = tz_offset ctx\<rparr>)
                 [0..<nat n]"
  have loop: "sync_days_loop fuel get ctx s schema (if d0 \<le> now ctx then ?days else []) w
                = Some (Inr (), w')"
    using run
    unfolding sync_timestamp_def Let_def discrete_days_since_start_eq [OF d0] n .
  have future: "w' = w" if "now ctx < d0"
    using loop that by simp
  have present: "searches (new_events w w') =
              concat (map (\<lambda>i. [(''created_at'', d0 + 86400 * int i),
                                 (''updated_at'', d0 + 86400 * int i)]) [0..<nat n]) \<and>
            search_fetches None (new_events w w') =
              concat (map (\<lambda>i. [(''created_at'', d0 + 86400 * int i,
                                  paged_params 1 (Some [(''created_at'', d0 + 86400 * int i)])),
                                 (''updated_at'', d0 + 86400 * int i,
                                  paged_params 1 (Some [(''updated_at'', d0 + 86400 * int i)]))])
                       [0..<nat n]) \<and>
            int (length (search_fetches None (new_events w w'))) = n * 2 \<and>
            length (search_fetches None (new_events w w')) \<le> length (requests (new_events w w')) \<and>
            bookmarks w' (bookmark s) = Some (now ctx)"
    if le: "d0 \<le> now ctx"
  proof -
    have "0 \<le> (now ctx - d0) div 86400"
      using le by (simp add: pos_imp_zdiv_nonneg_iff)
    then have pos: "0 < n"
      using days_between_bookmark_now [of ctx "bookmark s" w] d0 n by simp
    from loop le have "sync_days_loop fuel get ctx s schema ?days w = Some (Inr (), w')"
      by simp
    from sync_days_loop_effects [OF this] obtain evs k
      where t: "trace w' = trace w @ evs"
        and b: "bookmarks w' = (if k = 0 then bookmarks w
                                else (bookmarks w)(bookmark s \<mapsto> now ctx))"
        and k: "k = length ?days"
        and se: "searches evs =
                   concat (map (\<lambda>d. [(''created_at'', int_timestamp d),
                                      (''updated_at'', int_timestamp d)]) ?days)"
        and sf: "\<forall>rest. search_fetches None (evs @ rest) =
                   concat (map (\<lambda>d. map (\<lambda>t. (t, int_timestamp d,
                                        paged_params 1 (Some [(t, int_timestamp d)])))
                                      [''created_at'', ''updated_at'']) ?days) @
                   search_fetches None rest"
      by auto
    have new: "new_events w w' = evs" using t by (rule new_events_append)
    have a: "searches (new_events w w') =
               concat (map (\<lambda>i. [(''created_at'', d0 + 86400 * int i),
                                  (''updated_at'', d0 + 86400 * int i)]) [0..<nat n])"
      by (simp add: new se comp_def)
    have f: "search_fetches None (new_events w w') =
              concat (map (\<lambda>i. [(''created_at'', d0 + 86400 * int i,
                                  paged_params 1 (Some [(''created_at'', d0 + 86400 * int i)])),
                                 (''updated_at'', d0 + 86400 * int i,
                                  paged_params 1 (Some [(''updated_at'', d0 + 86400 * int i)]))])
                       [0..<nat n])"
      using sf [THEN spec, of "[]"] by (simp add: new comp_def)
    have "length (search_fetches None (new_events w w')) = 2 * nat n"
      by (simp only: f length_concat map_map comp_def) (simp add: sum_list_triv)
    then have c: "int (length (search_fetches None (new_events w w'))) = n * 2"
      using pos by simp
    have "k > 0" using k pos by simp
    then have d: "bookmarks w' (bookmark s) = Some (now ctx)" using b by simp
    from a f c d length_search_fetches [of None "new_events w w'"] show ?thesis by blast
  qed
  from present future show ?thesis by blast
qed


theorem sync_timestamp_searches_witness:
  "search_fetches None (new_events
     \<lparr>calls = 0, trace = [], bookmarks = [Some (''contacts'', ''timestamp'') \<mapsto> 100]\<rparr>
     \<lparr>calls = 12,
          trace = [LogLooking ''created_at'' 0,
                   Request ''contacts'' ''https://api.sendgrid.com/v3/contactdb/recipients/search''
                     (Some [(''page'', 1), (''page_size'', 1000), (''created_at'', 0)]),
                   Request ''contacts'' ''https://api.sendgrid.com/v3/contactdb/recipients/search''
                     (Some [(''page'', 2), (''page_size'', 1000), (''created_at'', 0)]),
                   LogLooking ''updated_at'' 0,
                   Request ''contacts'' ''https://api.sendgrid.com/v3/contactdb/recipients/search''
                     (Some [(''page'', 1), (''page_size'', 1000), (''updated_at'', 0)]),
                   Request ''contacts'' ''https://api.sendgrid.com/v3/contactdb/recipients/search''
                     (Some [(''page'', 2), (''page_size'', 1000), (''updated_at'', 0)]),
                   SetBookmark (Some (''contacts'', ''timestamp'')) 172850,
                   LogLooking ''created_at'' 86400,
                   Request ''contacts'' ''https://api.sendgrid.com/v3/contactdb/recipients/search''
                     (Some [(''page'', 1), (''page_size'', 1000), (''created_at'', 86400)]),
                   Request ''contacts'' ''https://api.sendgrid.com/v3/contactdb/recipients/search''
                     (Some [(''page'', 2), (''page_size'', 1000), (''created_at'', 86400)]),
                   LogLooking ''updated_at'' 86400,
                   Request ''contacts'' ''https://api.sendgrid.com/v3/contactdb/recipients/search''
                     (Some [(''page'', 1), (''page_size'', 1000), (''updated_at'', 86400)]),
                   Request ''contacts'' ''https://api.sendgrid.com/v3/contactdb/recipients/search''
                     (Some [(''page'', 2), (''page_size'', 1000), (''updated_at'', 86400)]),
                   SetBookmark (Some (''contacts'', ''timestamp'')) 172850,
                   LogLooking ''created_at'' 172800,
                   Request ''contacts'' ''https://api.sendgrid.com/v3/contactdb/recipients/search''
                     (Some [(''page'', 1), (''page_size'', 1000), (''created_at'', 172800)]),
                   Request ''contacts'' ''https://api.sendgrid.com/v3/contactdb/recipients/search''
                     (Some [(''page'', 2), (''page_size'', 1000), (''created_at'', 172800)]),
                   LogLooking ''updated_at'' 172800,
                   Request ''contacts'' ''https://api.sendgrid.com/v3/contactdb/recipients/search''
                     (Some [(''page'', 1), (''page_size'', 1000), (''updated_at'', 172800)]),
                   Request ''contacts'' ''https://api.sendgrid.com/v3/contactdb/recipients/search''
                     (Some [(''page'', 2), (''page_size'', 1000), (''updated_at'', 172800)]),
                   SetBookmark (Some (''contacts'', ''timestamp'')) 172850],
          bookmarks = [Some (''contacts'', ''timestamp'') \<mapsto> 172850]\<rparr>) =
     [(''created_at'', 0, Some [(''page'', 1), (''page_size'', 1000), (''created_at'', 0)]),
      (''updated_at'', 0, Some [(''page'', 1), (''page_size'', 1000), (''updated_at'', 0)]),
      (''created_at'', 86400, Some [(''page'', 1), (''page_size'', 1000), (''created_at'', 86400)]),
      (''updated_at'', 86400, Some [(''page'', 1), (''page_size'', 1000), (''updated_at'', 86400)]),
      (''created_at'', 172800, Some [(''page'', 1), (''page_size'', 1000), (''created_at'', 172800)]),
      (''updated_at'', 172800, Some [(''page'', 1), (''page_size'', 1000), (''updated_at'', 172800)])] \<and>
   (days_between
      (int_timestamp (bookmark_day
         \<lparr>config = [''api_key'' \<mapsto> ''k''], now = 172850, start_date = 0, tz_offset = 0\<rparr>
         (Some (''contacts'', ''timestamp''))
         \<lparr>calls = 0, trace = [], bookmarks = [Some (''contacts'', ''timestamp'') \<mapsto> 100]\<rparr>))
      (int_timestamp (now_day
         \<lparr>config = [''api_key'' \<mapsto> ''k''], now = 172850, start_date = 0, tz_offset = 0\<rparr>)) + 1) * 2 = 6 \<and>
   length (requests (new_events
     \<lparr>calls = 0, trace = [], bookmarks = [Some (''contacts'', ''timestamp'') \<mapsto> 100]\<rparr>
     \<lparr>calls = 12,
          trace = [LogLooking ''created_at'' 0,
                   Request ''contacts'' ''https://api.sendgrid.com/v3/contactdb/recipients/search''
                     (Some [(''page'', 1), (''page_size'', 1000), (''created_at'', 0)]),
                   Request ''contacts'' ''https://api.sendgrid.com/v3/contactdb/recipients/search''
                     (Some [(''page'', 2), (''page_size'', 1000), (''created_at'', 0)]),
                   LogLooking ''updated_at'' 0,
                   Request ''contacts'' ''https://api.sendgrid.com/v3/contactdb/recipients/search''
                     (Some [(''page'', 1), (''page_size'', 1000), (''updated_at'', 0)]),
                   Request ''contacts'' ''https://api.sendgrid.com/v3/contactdb/recipients/search''
                     (Some [(''page'', 2), (''page_size'', 1000), (''updated_at'', 0)]),
                   SetBookmark (Some (''contacts'', ''timestamp'')) 172850,
                   LogLooking ''created_at'' 86400,
                   Request ''contacts'' ''https://api.sendgrid.com/v3/contactdb/recipients/search''
                     (Some [(''page'', 1), (''page_size'', 1000), (''created_at'', 86400)]),
                   Request ''contacts'' ''https://api.sendgrid.com/v3/contactdb/recipients/search''
                     (Some [(''page'', 2), (''page_size'', 1000), (''created_at'', 86400)]),
                   LogLooking ''updated_at'' 86400,
                   Request ''contacts'' ''https://api.sendgrid.com/v3/contactdb/recipients/search''
                     (Some [(''page'', 1), (''page_size'', 1000), (''updated_at'', 86400)]),
                   Request ''contacts'' ''https://api.sendgrid.com/v3/contactdb/recipients/search''
                     (Some [(''page'', 2), (''page_size'', 1000), (''updated_at'', 86400)]),
                   SetBookmark (Some (''contacts'', ''timestamp'')) 172850,
                   LogLooking ''created_at'' 172800,
                   Request ''contacts'' ''https://api.sendgrid.com/v3/contactdb/recipients/search''
                     (Some [(''page'', 1), (''page_size'', 1000), (''created_at'', 172800)]),
                   Request ''contacts'' ''https://api.sendgrid.com/v3/contactdb/recipients/search''
                     (Some [(''page'', 2), (''page_size'', 1000), (''created_at'', 172800)]),
                   LogLooking ''updated_at'' 172800,
                   Request ''contacts'' ''https://api.sendgrid.com/v3/contactdb/recipients/search''
                     (Some [(''page'', 1), (''page_size'', 1000), (''updated_at'', 172800)]),
                   Request ''contacts'' ''https://api.sendgrid.com/v3/contactdb/recipients/search''
                     (Some [(''page'', 2), (''page_size'', 1000), (''updated_at'', 172800)]),
                   SetBookmark (Some (''contacts'', ''timestamp'')) 172850],
          bookmarks = [Some (''contacts'', ''timestamp'') \<mapsto> 172850]\<rparr>)) = 12"
proof -
  let ?ctx = "\<lparr>config = [''api_key'' \<mapsto> ''k''], now = 172850, start_date = 0, tz_offset = 0\<rparr>"
  let ?s = "\<lparr>tap_stream_id = ''contacts'',
      endpoint = ''https://api.sendgrid.com/v3/contactdb/recipients/search'',
      bookmark = Some (''contacts'', ''timestamp'')\<rparr>"
  let ?w = "\<lparr>calls = 0, trace = [], bookmarks = [Some (''contacts'', ''timestamp'') \<mapsto> 100]\<rparr>"
  have d0: "(0::int) = int_timestamp (bookmark_day ?ctx (bookmark ?s) ?w)"
    by (simp add: bookmark_day_def start_of_day_def update_start_date_bookmark_dt_def
          update_start_date_bookmark_def)
  have n: "(3::int) = days_between 0 (int_timestamp (now_day ?ctx)) + 1"
    by (simp add: days_between_def now_day_def start_of_day_def)
  note th = sync_timestamp_searches [OF sync_timestamp_two_pages d0 n]
  have le: "(0::int) \<le> now ?ctx" by simp
  have a: "search_fetches None (new_events ?w
     \<lparr>calls = 12,
          trace = [LogLooking ''created_at'' 0,
                   Request ''contacts'' ''https://api.sendgrid.com/v3/contactdb/recipients/search''
                     (Some [(''page'', 1), (''page_size'', 1000), (''created_at'', 0)]),
                   Request ''contacts'' ''https://api.sendgrid.com/v3/contactdb/recipients/search''
                     (Some [(''page'', 2), (''page_size'', 1000), (''created_at'', 0)]),
                   LogLooking ''updated_at'' 0,
                   Request ''contacts'' ''https://api.sendgrid.com/v3/contactdb/recipients/search''
                     (Some [(''page'', 1), (''page_size'', 1000), (''updated_at'', 0)]),
                   Request ''contacts'' ''https://api.sendgrid.com/v3/contactdb/recipients/search''
                     (Some [(''page'', 2), (''page_size'', 1000), (''updated_at'', 0)]),
                   SetBookmark (Some (''contacts'', ''timestamp'')) 172850,
                   LogLooking ''created_at'' 86400,
                   Request ''contacts'' ''https://api.sendgrid.com/v3/contactdb/recipients/search''
                     (Some [(''page'', 1), (''page_size'', 1000), (''created_at'', 86400)]),
                   Request ''contacts'' ''https://api.sendgrid.com/v3/contactdb/recipients/search''
                     (Some [(''page'', 2), (''page_size'', 1000), (''created_at'', 86400)]),
                   LogLooking ''updated_at'' 86400,
                   Request ''contacts'' ''https://api.sendgrid.com/v3/contactdb/recipients/search''
                     (Some [(''page'', 1), (''page_size'', 1000), (''updated_at'', 86400)]),
                   Request ''contacts'' ''https://api.sendgrid.com/v3/contactdb/recipients/search''
                     (Some [(''page'', 2), (''page_size'', 1000), (''updated_at'', 86400)]),
                   SetBookmark (Some (''contacts'', ''timestamp'')) 172850,
                   LogLooking ''created_at'' 172800,
                   Request ''contacts'' ''https://api.sendgrid.com/v3/contactdb/recipients/search''
                     (Some [(''page'', 1), (''page_size'', 1000), (''created_at'', 172800)]),
                   Request ''contacts'' ''https://api.sendgrid.com/v3/contactdb/recipients/search''
                     (Some [(''page'', 2), (''page_size'', 1000), (''created_at'', 172800)]),
                   LogLooking ''updated_at'' 172800,
                   Request ''contacts'' ''https://api.sendgrid.com/v3/contactdb/recipients/search''
                     (Some [(''page'', 1), (''page_size'', 1000), (''updated_at'', 172800)]),
                   Request ''contacts'' ''https://api.sendgrid.com/v3/contactdb/recipients/search''
                     (Some [(''page'', 2), (''page_size'', 1000), (''updated_at'', 172800)]),
                   SetBookmark (Some (''contacts'', ''timestamp'')) 172850],
          bookmarks = [Some (''contacts'', ''timestamp'') \<mapsto> 172850]\<rparr>) =
     [(''created_at'', 0, Some [(''page'', 1), (''page_size'', 1000), (''created_at'', 0)]),
      (''updated_at'', 0, Some [(''page'', 1), (''page_size'', 1000), (''updated_at'', 0)]),
      (''created_at'', 86400, Some [(''page'', 1), (''page_size'', 1000), (''created_at'', 86400)]),
      (''updated_at'', 86400, Some [(''page'', 1), (''page_size'', 1000), (''updated_at'', 86400)]),
      (''created_at'', 172800, Some [(''page'', 1), (''page_size'', 1000), (''created_at'', 172800)]),
      (''updated_at'', 172800, Some [(''page'', 1), (''page_size'', 1000), (''updated_at'', 172800)])]"
    using th [THEN conjunct1, rule_format, OF le, THEN conjunct2, THEN conjunct1]
    by (simp add: paged_params_def safe_update_dict_def eval_nat_numeral)
  have b: "(days_between
      (int_timestamp (bookmark_day ?ctx (Some (''contacts'', ''timestamp'')) ?w))
      (int_timestamp (now_day ?ctx)) + 1) * 2 = 6"
    using d0 n by simp
  have c: "length (requests (new_events ?w
     \<lparr>calls = 12,
          trace = [LogLooking ''created_at'' 0,
                   Request ''contacts'' ''https://api.sendgrid.com/v3/contactdb/recipients/search''
                     (Some [(''page'', 1), (''page_size'', 1000), (''created_at'', 0)]),
                   Request ''contacts'' ''https://api.sendgrid.com/v3/contactdb/recipients/search''
                     (Some [(''page'', 2), (''page_size'', 1000), (''created_at'', 0)]),
                   LogLooking ''updated_at'' 0,
                   Request ''contacts'' ''https://api.sendgrid.com/v3/contactdb/recipients/search''
                     (Some [(''page'', 1), (''page_size'', 1000), (''updated_at'', 0)]),
                   Request ''contacts'' ''https://api.sendgrid.com/v3/contactdb/recipients/search''
                     (Some [(''page'', 2), (''page_size'', 1000), (''updated_at'', 0)]),
                   SetBookmark (Some (''contacts'', ''timestamp'')) 172850,
                   LogLooking ''created_at'' 86400,
                   Request ''contacts'' ''https://api.sendgrid.com/v3/contactdb/recipients/search''
                     (Some [(''page'', 1), (''page_size'', 1000), (''created_at'', 86400)]),
                   Request ''contacts'' ''https://api.sendgrid.com/v3/contactdb/recipients/search''
                     (Some [(''page'', 2), (''page_size'', 1000), (''created_at'', 86400)]),
                   LogLooking ''updated_at'' 86400,
                   Request ''contacts'' ''https://api.sendgrid.com/v3/contactdb/recipients/search''
                     (Some [(''page'', 1), (''page_size'', 1000), (''updated_at'', 86400)]),
                   Request ''contacts'' ''https://api.sendgrid.com/v3/contactdb/recipients/search''
                     (Some [(''page'', 2), (''page_size'', 1000), (''updated_at'', 86400)]),
                   SetBookmark (Some (''contacts'', ''timestamp'')) 172850,
                   LogLooking ''created_at'' 172800,
                   Request ''contacts'' ''https://api.sendgrid.com/v3/contactdb/recipients/search''
                     (Some [(''page'', 1), (''page_size'', 1000), (''created_at'', 172800)]),
                   Request ''contacts'' ''https://api.sendgrid.com/v3/contactdb/recipients/search''
                     (Some [(''page'', 2), (''page_size'', 1000), (''created_at'', 172800)]),
                   LogLooking ''updated_at'' 172800,
                   Request ''contacts'' ''https://api.sendgrid.com/v3/contactdb/recipients/search''
                     (Some [(''page'', 1), (''page_size'', 1000), (''updated_at'', 172800)]),
                   Request ''contacts'' ''https://api.sendgrid.com/v3/contactdb/recipients/search''
                     (Some [(''page'', 2), (''page_size'', 1000), (''updated_at'', 172800)]),
                   SetBookmark (Some (''contacts'', ''timestamp'')) 172850],
          bookmarks = [Some (''contacts'', ''timestamp'') \<mapsto> 172850]\<rparr>)) = 12"
    by (simp add: new_events_def)
  from a b c show ?thesis by blast
qed



subsection \<open>The bookmark does not regress\<close>

lemma marks_of_follow_writes:
  "marks_follow_writes p v b evs \<Longrightarrow> \<forall>m\<in>set (marks evs). m = (p, v)"
proof (induction evs arbitrary: b)
  case Nil
  show ?case by simp
next
  case (Cons e evs)
  then show ?case by (cases e) auto
qed

lemma offset_loop_bookmarks:
  assumes body: "\<And>r w r2 w2. body r w = (r2, w2) \<Longrightarrow>
             bookmarks w2 = bookmarks w \<or> bookmarks w2 = (bookmarks w)(p \<mapsto> v)"
    and run: "get_using_offset_loop fuel get grp ctx s start end' ep body offset w
                = Some (res, w')"
  shows "bookmarks w' = bookmarks w \<or> bookmarks w' = (bookmarks w)(p \<mapsto> v)"
  using run
proof (induction fuel arbitrary: offset w)
  case 0
  then show ?case by simp
next
  case (Suc fuel)
  let ?ps = "Some [(''offset'', offset), (''limit'', 500), (''start_time'', start),
                   (''end_time'', end')]"
  obtain r1 w1 where rg: "retry_get get (tap_stream_id s) ep (config ctx) ?ps w = (r1, w1)"
    by (cases "retry_get get (tap_stream_id s) ep (config ctx) ?ps w")
  from retry_get_effects [OF rg] have b1: "bookmarks w1 = bookmarks w" by auto
  show ?case
  proof (cases r1)
    case (Inl e)
    with Suc.prems rg have "w' = w1" by (simp add: Let_def)
    with b1 show ?thesis by simp
  next
    case (Inr resp)
    show ?thesis
    proof (cases "response_json resp")
      case (Inl e)
      with Suc.prems rg Inr have "w' = w1" by (simp add: Let_def)
      with b1 show ?thesis by simp
    next
      case j: (Inr j)
      show ?thesis
      proof (cases "grp j")
        case (Inl e)
        with Suc.prems rg Inr j have "w' = w1" by (simp add: Let_def)
        with b1 show ?thesis by simp
      next
        case b: (Inr b)
        obtain r2 w2 where bd: "body b w1 = (r2, w2)" by (cases "body b w1")
        from body [OF bd] b1
        have b2: "bookmarks w2 = bookmarks w \<or> bookmarks w2 = (bookmarks w)(p \<mapsto> v)"
          by simp
        have stop: ?thesis if "w' = w2" using that b2 by blast
        show ?thesis
        proof (cases r2)
          case (Inl e)
          with Suc.prems rg Inr j b bd have "w' = w2" by (simp add: Let_def)
          then show ?thesis by (rule stop)
        next
          case u: (Inr u)
          show ?thesis
          proof (cases "py_len b")
            case (Inl e)
            with Suc.prems rg Inr j b bd u have "w' = w2" by (simp add: Let_def)
            then show ?thesis by (rule stop)
          next
            case n: (Inr n)
            show ?thesis
            proof (cases "500 \<le> int n")
              case False
              with Suc.prems rg Inr j b bd u n have "w' = w2" by (simp add: Let_def)
              then show ?thesis by (rule stop)
            next
              case True
              with Suc.prems rg Inr j b bd u n
              have "get_using_offset_loop fuel get grp ctx s start end' ep body (offset + 500) w2
                      = Some (res, w')"
                by (simp add: Let_def)
              from Suc.IH [OF this] b2 show ?thesis by (metis fun_upd_upd)
            qed
          qed
        qed
      qed
    qed
  qed
qed

text \<open>
  C7, as stated, fails: the strategies write \<open>now\<close> whatever the bookmark was, so a
  bookmark that is later than \<open>now\<close> (a start date or a stored state ahead of the clock
  of the run) is moved back. Here the bookmark read at the start of the window is 200 and
  \<^verbatim>\<open>sync_end_time\<close>, run at \<open>now = 100\<close>, completes and leaves it at 100.
\<close>

theorem bookmark_regresses_counterexample:
  "update_start_date_bookmark
     \<lparr>config = [''api_key'' \<mapsto> ''k''], now = 100, start_date = 0, tz_offset = 0\<rparr>
     (Some (''bounces'', ''end_time''))
     \<lparr>calls = 0, trace = [], bookmarks = [Some (''bounces'', ''end_time'') \<mapsto> 200]\<rparr> = 200 \<and>
   sync_end_time 1
     (\<lambda>n t u c p. Inr \<lparr>status_code = 200, content = [], decoded = Some (JList [])\<rparr>)
     Inr \<lparr>config = [''api_key'' \<mapsto> ''k''], now = 100, start_date = 0, tz_offset = 0\<rparr>
     \<lparr>tap_stream_id = ''bounces'', endpoint = ''https://api.sendgrid.com/v3/suppression/bounces'',
      bookmark = Some (''bounces'', ''end_time'')\<rparr>
     ''schema''
     \<lparr>calls = 0, trace = [], bookmarks = [Some (''bounces'', ''end_time'') \<mapsto> 200]\<rparr> =
   Some (Inr (),
         \<lparr>calls = 1,
          trace = [LogStarting ''bounces'' 200 100,
                   Request ''bounces'' ''https://api.sendgrid.com/v3/suppression/bounces''
                     (Some [(''offset'', 0), (''limit'', 500), (''start_time'', 200),
                            (''end_time'', 100)]),
                   WriteRecords ''bounces'' ''schema'' (JList []) None,
                   SetBookmark (Some (''bounces'', ''end_time'')) 100],
          bookmarks = [Some (''bounces'', ''end_time'') \<mapsto> 100]\<rparr>)"
  by (simp add: sync_end_time_def get_using_offset_def update_start_date_bookmark_def
        now_seconds_def endpoint_of_def Let_def retry_get_unfold requested_def
        emit_def response_json_def sync_end_time_body_eq)

text \<open>
  C7, amended. For a run of \<^verbatim>\<open>sync_timestamp\<close> or of \<^verbatim>\<open>sync_end_time\<close> in which the
  bookmark value read at the start (the stored bookmark, or the configured start date when
  there is none) is not later than \<open>now\<close>: every bookmark write of the run is to the
  stream's bookmark and writes a timestamp that is at least the value read, and the
  stored bookmark after the run is at least the value read.
\<close>

theorem bookmark_never_regresses:
  assumes ts: "sync_timestamp fuel get ctx s schema w = Some (res, w')"
    and start: "start = update_start_date_bookmark ctx (bookmark s) w"
    and le: "start \<le> now ctx"
    and et: "sync_end_time fuel0 get0 get_results_from_payload ctx0 s0 schema0 w0
               = Some (res0, w0')"
    and start0: "start0 = update_start_date_bookmark ctx0 (bookmark s0) w0"
    and le0: "start0 \<le> now ctx0"
  shows "(\<forall>m\<in>set (marks (new_events w w')). fst m = bookmark s \<and> start \<le> snd m) \<and>
         (\<forall>v. bookmarks w' (bookmark s) = Some v \<longrightarrow> start \<le> v) \<and>
         (\<forall>m\<in>set (marks (new_events w0 w0')). fst m = bookmark s0 \<and> start0 \<le> snd m) \<and>
         (\<forall>v. bookmarks w0' (bookmark s0) = Some v \<longrightarrow> start0 \<le> v)"
proof -
  have keep: "start \<le> v" if "bookmarks w (bookmark s) = Some v" for v
    using that start by (simp add: update_start_date_bookmark_def)
  have keep0: "start0 \<le> v" if "bookmarks w0 (bookmark s0) = Some v" for v
    using that start0 by (simp add: update_start_date_bookmark_def)
  from ts have "sync_days_loop fuel get ctx s schema
                  (discrete_days_since_start ctx
                     (update_start_date_bookmark_dt ctx (bookmark s) w)) w
                  = Some (res, w')"
    by (simp add: sync_timestamp_def Let_def)
  from sync_days_loop_effects [OF this] obtain evs n
    where t: "trace w' = trace w @ evs"
      and m: "marks evs = replicate n (bookmark s, now ctx)"
      and b: "bookmarks w' = (if n = 0 then bookmarks w
                              else (bookmarks w)(bookmark s \<mapsto> now ctx))"
    by blast
  have A: "\<forall>m\<in>set (marks (new_events w w')). fst m = bookmark s \<and> start \<le> snd m"
    using new_events_append [OF t] m le by auto
  have B: "\<forall>v. bookmarks w' (bookmark s) = Some v \<longrightarrow> start \<le> v"
    using b keep le by (auto split: if_splits)
  let ?w1 = "emit [LogStarting (tap_stream_id s0) start0 (now ctx0)] w0"
  from et have loop: "get_using_offset_loop fuel0 get0 get_results_from_payload ctx0 s0 start0
      (now ctx0) (endpoint_of s0 None) (sync_end_time_body ctx0 s0 schema0 (now ctx0)) 0 ?w1
      = Some (res0, w0')"
    by (simp add: sync_end_time_def get_using_offset_def now_seconds_def Let_def start0)
  from end_time_loop_marks [OF loop] obtain evs0
    where t0: "trace w0' = trace ?w1 @ evs0"
      and m0: "marks_follow_writes (bookmark s0) (now ctx0) False evs0"
    by blast
  have "trace w0' = trace w0 @ (LogStarting (tap_stream_id s0) start0 (now ctx0) # evs0)"
    using t0 by (simp add: emit_def)
  then have "new_events w0 w0' = LogStarting (tap_stream_id s0) start0 (now ctx0) # evs0"
    by (rule new_events_append)
  then have C: "\<forall>m\<in>set (marks (new_events w0 w0')). fst m = bookmark s0 \<and> start0 \<le> snd m"
    using marks_of_follow_writes [OF m0] le0 by auto
  have "bookmarks w0' = bookmarks ?w1 \<or>
        bookmarks w0' = (bookmarks ?w1)(bookmark s0 \<mapsto> now ctx0)"
  proof (rule offset_loop_bookmarks [OF _ loop])
    fix r w r2 w2
    assume "sync_end_time_body ctx0 s0 schema0 (now ctx0) r w = (r2, w2)"
    then show "bookmarks w2 = bookmarks w \<or>
               bookmarks w2 = (bookmarks w)(bookmark s0 \<mapsto> now ctx0)"
      by (auto simp: sync_end_time_body_eq)
  qed
  then have D: "\<forall>v. bookmarks w0' (bookmark s0) = Some v \<longrightarrow> start0 \<le> v"
    using keep0 le0 by (auto simp: emit_def)
  from A B C D show ?thesis by blast
qed

theorem bookmark_never_regresses_witness:
  "list_all (\<lambda>m. fst m = Some (''contacts'', ''timestamp'') \<and> 100 \<le> snd m)
     (marks (new_events
        \<lparr>calls = 0, trace = [], bookmarks = [Some (''contacts'', ''timestamp'') \<mapsto> 100]\<rparr>
        \<lparr>calls = 6,
          trace = [LogLooking ''created_at'' 0,
                   Request ''contacts'' ''https://api.sendgrid.com/v3/contactdb/recipients/search''
                     (Some [(''page'', 1), (''page_size'', 1000), (''created_at'', 0)]),
                   LogLooking ''updated_at'' 0,
                   Request ''contacts'' ''https://api.sendgrid.com/v3/contactdb/recipients/search''
                     (Some [(''page'', 1), (''page_size'', 1000), (''updated_at'', 0)]),
                   SetBookmark (Some (''contacts'', ''timestamp'')) 172850,
                   LogLooking ''created_at'' 86400,
                   Request ''contacts'' ''https://api.sendgrid.com/v3/contactdb/recipients/search''
                     (Some [(''page'', 1), (''page_size'', 1000), (''created_at'', 86400)]),
                   LogLooking ''updated_at'' 86400,
                   Request ''contacts'' ''https://api.sendgrid.com/v3/contactdb/recipients/search''
                     (Some [(''page'', 1), (''page_size'', 1000), (''updated_at'', 86400)]),
                   SetBookmark (Some (''contacts'', ''timestamp'')) 172850,
                   LogLooking ''created_at'' 172800,
                   Request ''contacts'' ''https://api.sendgrid.com/v3/contactdb/recipients/search''
                     (Some [(''page'', 1), (''page_size'', 1000), (''created_at'', 172800)]),
                   LogLooking ''updated_at'' 172800,
                   Request ''contacts'' ''https://api.sendgrid.com/v3/contactdb/recipients/search''
                     (Some [(''page'', 1), (''page_size'', 1000), (''updated_at'', 172800)]),
                   SetBookmark (Some (''contacts'', ''timestamp'')) 172850],
          bookmarks = [Some (''contacts'', ''timestamp'') \<mapsto> 172850]\<rparr>)) \<and>
   list_all (\<lambda>m. fst m = Some (''bounces'', ''end_time'') \<and> 100 \<le> snd m)
     (marks (new_events
        \<lparr>calls = 0, trace = [], bookmarks = [Some (''bounces'', ''end_time'') \<mapsto> 100]\<rparr>
        \<lparr>calls = 2,
          trace = [LogStarting ''bounces'' 100 200,
                   Request ''bounces'' ''https://api.sendgrid.com/v3/suppression/bounces''
                     (Some [(''offset'', 0), (''limit'', 500), (''start_time'', 100),
                            (''end_time'', 200)]),
                   WriteRecords ''bounces'' ''schema'' (JList (replicate 500 JNull)) None,
                   SetBookmark (Some (''bounces'', ''end_time'')) 200,
                   Request ''bounces'' ''https://api.sendgrid.com/v3/suppression/bounces''
                     (Some [(''offset'', 500), (''limit'', 500), (''start_time'', 100),
                            (''end_time'', 200)]),
                   WriteRecords ''bounces'' ''schema'' (JList (replicate 10 JNull)) None,
                   SetBookmark (Some (''bounces'', ''end_time'')) 200],
          bookmarks = [Some (''bounces'', ''end_time'') \<mapsto> 200]\<rparr>))"
proof -
  have start: "(100::int) = update_start_date_bookmark
      \<lparr>config = [''api_key'' \<mapsto> ''k''], now = 172850, start_date = 0, tz_offset = 0\<rparr>
      (bookmark \<lparr>tap_stream_id = ''contacts'',
                 endpoint = ''https://api.sendgrid.com/v3/contactdb/recipients/search'',
                 bookmark = Some (''contacts'', ''timestamp'')\<rparr>)
      \<lparr>calls = 0, trace = [], bookmarks = [Some (''contacts'', ''timestamp'') \<mapsto> 100]\<rparr>"
    by (simp add: update_start_date_bookmark_def)
  have le: "(100::int) \<le> now \<lparr>config = [''api_key'' \<mapsto> ''k''], now = 172850, start_date = 0, tz_offset = 0\<rparr>"
    by simp
  have start0: "(100::int) = update_start_date_bookmark
      \<lparr>config = [''api_key'' \<mapsto> ''k''], now = 200, start_date = 100, tz_offset = 0\<rparr>
      (bookmark \<lparr>tap_stream_id = ''bounces'',
                 endpoint = ''https://api.sendgrid.com/v3/suppression/bounces'',
                 bookmark = Some (''bounces'', ''end_time'')\<rparr>)
      \<lparr>calls = 0, trace = [], bookmarks = [Some (''bounces'', ''end_time'') \<mapsto> 100]\<rparr>"
    by (simp add: update_start_date_bookmark_def)
  have le0: "(100::int) \<le> now \<lparr>config = [''api_key'' \<mapsto> ''k''], now = 200, start_date = 100, tz_offset = 0\<rparr>"
    by simp
  note th = bookmark_never_regresses
    [OF sync_timestamp_three_days start le sync_end_time_two_batches start0 le0]
  from th [THEN conjunct1] th [THEN conjunct2, THEN conjunct2, THEN conjunct1]
  show ?thesis
    unfolding list_all_iff by simp
qed

end
